theory Spec2Isabelle
  imports Complex_Main "HOL-Library.Word"
begin

unbundle bit_operations_syntax

section \<open>JavaScript values\<close>

text \<open>
  A JavaScript string is a sequence of 16-bit code units: \<open>charCodeAt\<close> reads one,
  \<open>String.fromCharCode\<close> writes one, \<open>length\<close> counts them. Numbers that the
  program uses (millisecond timestamps, attempt counts, seconds) are integers far below
  \<open>2^53\<close>, so they are modelled as \<open>int\<close>.
\<close>

type_synonym jschar = "16 word"
type_synonym jsstring = "jschar list"
type_synonym byte = "8 word"
type_synonym w32 = "32 word"

definition js :: "string \<Rightarrow> jsstring" where
  \<comment> \<open>an ASCII literal of the source as a JavaScript string\<close>
  "js s = map (\<lambda>c. of_nat (of_char c)) s"

subsection \<open>\<open>Number.prototype.toString()\<close> and \<open>parseInt(s, 10)\<close> on integers\<close>

definition digit :: "nat \<Rightarrow> jschar" where
  "digit d = 0x30 + of_nat d"

function decimal :: "nat \<Rightarrow> jsstring" where
  "decimal n = (if n < 10 then [digit n] else decimal (n div 10) @ [digit (n mod 10)])"
  by pat_completeness auto
termination
  by (relation "measure id") auto

definition toString :: "int \<Rightarrow> jsstring" where
  "toString n = (if n < 0 then 0x2D # decimal (nat (- n)) else decimal (nat n))"

definition isWhiteSpace :: "jschar \<Rightarrow> bool" where
  \<comment> \<open>WhiteSpace and LineTerminator of ECMAScript, which \<open>parseInt\<close> skips\<close>
  "isWhiteSpace c =
     (c \<in> {0x9, 0xA, 0xB, 0xC, 0xD, 0x20, 0xA0, 0x1680, 0x2028, 0x2029, 0x202F, 0x205F,
            0x3000, 0xFEFF} \<or> (0x2000 \<le> c \<and> c \<le> 0x200A))"

definition isDigit :: "jschar \<Rightarrow> bool" where
  "isDigit c = (0x30 \<le> c \<and> c \<le> 0x39)"

definition digitsValue :: "jsstring \<Rightarrow> nat" where
  "digitsValue z = foldl (\<lambda>a c. 10 * a + unat (c - 0x30)) 0 z"

definition parseInt :: "jsstring \<Rightarrow> int option" where
  \<comment> \<open>radix 10; \<open>None\<close> is \<open>NaN\<close>\<close>
  "parseInt s =
     (let t = dropWhile isWhiteSpace s;
          neg = (t \<noteq> [] \<and> hd t = 0x2D);
          u = (if t \<noteq> [] \<and> (hd t = 0x2D \<or> hd t = 0x2B) then tl t else t);
          z = takeWhile isDigit u
      in if z = [] then None
         else Some (if neg then - int (digitsValue z) else int (digitsValue z)))"

definition ceilDiv :: "int \<Rightarrow> int \<Rightarrow> int" where
  \<comment> \<open>\<open>Math.ceil(a / b)\<close> for integers \<open>a\<close> and \<open>b > 0\<close>\<close>
  "ceilDiv a b = - ((- a) div b)"

section \<open>SHA-256 and the text encoder (platform functions)\<close>

text \<open>
  \<open>hashPassword\<close> calls \<open>new TextEncoder().encode\<close> (UTF-8, a lone surrogate becomes
  U+FFFD) and \<open>crypto.subtle.digest('SHA-256', _)\<close> (FIPS 180-4). Both belong to the
  browser; they are written out here so that the digest is a concrete function. The
  round constants are given in decimal.
\<close>

fun utf8 :: "jsstring \<Rightarrow> byte list" where
  "utf8 [] = []"
| "utf8 (c # cs) =
     (if c < 0x80 then ucast c # utf8 cs
      else if c < 0x800 then
        [0xC0 OR ucast (drop_bit 6 c), 0x80 OR ucast (c AND 0x3F)] @ utf8 cs
      else if 0xD800 \<le> c \<and> c < 0xDC00 \<and> cs \<noteq> [] \<and> 0xDC00 \<le> hd cs \<and> hd cs < 0xE000 then
        (let cp = 0x10000 + push_bit 10 (ucast (c - 0xD800)) + ucast (hd cs - 0xDC00) :: w32
         in [0xF0 OR ucast (drop_bit 18 cp), 0x80 OR ucast (drop_bit 12 cp AND 0x3F),
             0x80 OR ucast (drop_bit 6 cp AND 0x3F), 0x80 OR ucast (cp AND 0x3F)]
            @ utf8 (tl cs))
      else if 0xD800 \<le> c \<and> c < 0xE000 then [0xEF, 0xBF, 0xBD] @ utf8 cs
      else [0xE0 OR ucast (drop_bit 12 c), 0x80 OR ucast (drop_bit 6 c AND 0x3F),
            0x80 OR ucast (c AND 0x3F)] @ utf8 cs)"

definition K256 :: "w32 list" where
  "K256 =
    [1116352408, 1899447441, 3049323471, 3921009573, 961987163, 1508970993,
     2453635748, 2870763221, 3624381080, 310598401, 607225278, 1426881987,
     1925078388, 2162078206, 2614888103, 3248222580, 3835390401, 4022224774,
     264347078, 604807628, 770255983, 1249150122, 1555081692, 1996064986,
     2554220882, 2821834349, 2952996808, 3210313671, 3336571891, 3584528711,
     113926993, 338241895, 666307205, 773529912, 1294757372, 1396182291,
     1695183700, 1986661051, 2177026350, 2456956037, 2730485921, 2820302411,
     3259730800, 3345764771, 3516065817, 3600352804, 4094571909, 275423344,
     430227734, 506948616, 659060556, 883997877, 958139571, 1322822218,
     1537002063, 1747873779, 1955562222, 2024104815, 2227730452, 2361852424,
     2428436474, 2756734187, 3204031479, 3329325298]"

type_synonym sha_state = "w32 \<times> w32 \<times> w32 \<times> w32 \<times> w32 \<times> w32 \<times> w32 \<times> w32"

definition H256 :: sha_state where
  "H256 = (1779033703, 3144134277, 1013904242, 2773480762,
           1359893119, 2600822924, 528734635, 1541459225)"

definition rotr :: "nat \<Rightarrow> w32 \<Rightarrow> w32" where
  "rotr n x = drop_bit n x OR push_bit (32 - n) x"

definition Ch :: "w32 \<Rightarrow> w32 \<Rightarrow> w32 \<Rightarrow> w32" where
  "Ch x y z = (x AND y) XOR (NOT x AND z)"

definition Maj :: "w32 \<Rightarrow> w32 \<Rightarrow> w32 \<Rightarrow> w32" where
  "Maj x y z = (x AND y) XOR (x AND z) XOR (y AND z)"

definition Sigma0 :: "w32 \<Rightarrow> w32" where
  "Sigma0 x = rotr 2 x XOR rotr 13 x XOR rotr 22 x"

definition Sigma1 :: "w32 \<Rightarrow> w32" where
  "Sigma1 x = rotr 6 x XOR rotr 11 x XOR rotr 25 x"

definition sigma0 :: "w32 \<Rightarrow> w32" where
  "sigma0 x = rotr 7 x XOR rotr 18 x XOR drop_bit 3 x"

definition sigma1 :: "w32 \<Rightarrow> w32" where
  "sigma1 x = rotr 17 x XOR rotr 19 x XOR drop_bit 10 x"

definition be32 :: "byte \<Rightarrow> byte \<Rightarrow> byte \<Rightarrow> byte \<Rightarrow> w32" where
  "be32 a b c d =
     push_bit 24 (ucast a) OR push_bit 16 (ucast b) OR push_bit 8 (ucast c) OR ucast d"

fun words_of :: "byte list \<Rightarrow> w32 list" where
  "words_of (a # b # c # d # rest) = be32 a b c d # words_of rest"
| "words_of _ = []"

definition bytes_of32 :: "w32 \<Rightarrow> byte list" where
  "bytes_of32 w = [ucast (drop_bit 24 w), ucast (drop_bit 16 w), ucast (drop_bit 8 w), ucast w]"

definition bytes_of64 :: "64 word \<Rightarrow> byte list" where
  "bytes_of64 w = map (\<lambda>i. ucast (drop_bit (8 * (7 - i)) w)) [0..<8]"

definition pad :: "byte list \<Rightarrow> byte list" where
  "pad m = m @ [0x80] @ replicate ((119 - length m mod 64) mod 64) 0
             @ bytes_of64 (of_nat (8 * length m))"

definition scheduleStep :: "w32 list \<Rightarrow> w32 list" where
  "scheduleStep ws = (let t = length ws in
     ws @ [sigma1 (ws ! (t - 2)) + ws ! (t - 7) + sigma0 (ws ! (t - 15)) + ws ! (t - 16)])"

definition schedule :: "byte list \<Rightarrow> w32 list" where
  "schedule blk = (scheduleStep ^^ 48) (words_of blk)"

fun round256 :: "sha_state \<Rightarrow> w32 \<times> w32 \<Rightarrow> sha_state" where
  "round256 (a, b, c, d, e, f, g, h) (k, w) =
     (let t1 = h + Sigma1 e + Ch e f g + k + w;
          t2 = Sigma0 a + Maj a b c
      in (t1 + t2, a, b, c, d + t1, e, f, g))"

fun add_state :: "sha_state \<Rightarrow> sha_state \<Rightarrow> sha_state" where
  "add_state (a, b, c, d, e, f, g, h) (a', b', c', d', e', f', g', h') =
     (a + a', b + b', c + c', d + d', e + e', f + f', g + g', h + h')"

definition compress :: "sha_state \<Rightarrow> byte list \<Rightarrow> sha_state" where
  "compress s blk = add_state s (foldl round256 s (zip K256 (schedule blk)))"

fun chunks :: "nat \<Rightarrow> byte list \<Rightarrow> byte list list" where
  "chunks 0 bs = []"
| "chunks (Suc n) bs = take 64 bs # chunks n (drop 64 bs)"

fun state_bytes :: "sha_state \<Rightarrow> byte list" where
  "state_bytes (a, b, c, d, e, f, g, h) = concat (map bytes_of32 [a, b, c, d, e, f, g, h])"

definition sha256 :: "byte list \<Rightarrow> byte list" where
  "sha256 m = (let p = pad m in state_bytes (foldl compress H256 (chunks (length p div 64) p)))"

section \<open>The authentication module (\<open>./auth\<close>, in \<open>src/lib/leadSchema.ts\<close>)\<close>

definition SESSION_DURATION :: int where
  "SESSION_DURATION = 30 * 60 * 1000"

definition MAX_LOGIN_ATTEMPTS :: int where
  "MAX_LOGIN_ATTEMPTS = 5"

definition LOCKOUT_DURATION :: int where
  "LOCKOUT_DURATION = 15 * 60 * 1000"

record LoginAttempt =
  count :: int
  lockoutUntil :: "int option"

text \<open>
  \<open>sessionStorage\<close> holds three entries. \<open>adminAuth\<close> and \<open>adminAuthTime\<close> are the
  stored strings. \<open>loginAttempts\<close> is stored as \<open>JSON.stringify\<close> of a
  \<open>LoginAttempt\<close> and read back with \<open>JSON.parse\<close>; the model keeps the object that
  string denotes (\<open>lockoutUntil\<close> is \<open>None\<close> for \<open>null\<close>).
\<close>

record sessionStorage =
  adminAuth :: "jsstring option"
  adminAuthTime :: "jsstring option"
  loginAttempts :: "LoginAttempt option"

text \<open>
  Every function that reads or writes \<open>sessionStorage\<close> takes the storage and returns
  the new one next to its result. \<open>now\<close> is the value of \<open>Date.now()\<close>: one call of
  the module is taken at one clock reading, and \<open>authenticate\<close> runs to its end without
  another call in between (the page disables the form while a call is pending). The bytes
  of \<open>crypto.getRandomValues\<close> are an argument.
\<close>

definition emptyStorage :: sessionStorage where
  "emptyStorage = \<lparr>adminAuth = None, adminAuthTime = None, loginAttempts = None\<rparr>"

definition falsy :: "jsstring option \<Rightarrow> bool" where
  \<comment> \<open>\<open>!v\<close> for \<open>v: string | null\<close>\<close>
  "falsy v = (case v of None \<Rightarrow> True | Some s \<Rightarrow> s = [])"

definition truthy :: "int option \<Rightarrow> bool" where
  \<comment> \<open>the condition \<open>v\<close> for \<open>v: number | null\<close>: neither \<open>null\<close> nor \<open>0\<close>\<close>
  "truthy v = (case v of None \<Rightarrow> False | Some n \<Rightarrow> n \<noteq> 0)"

definition hexdigit :: "nat \<Rightarrow> jschar" where
  "hexdigit n = js ''0123456789abcdef'' ! n"

definition hex2 :: "byte \<Rightarrow> jsstring" where
  \<comment> \<open>\<open>b.toString(16).padStart(2, '0')\<close>\<close>
  "hex2 b = [hexdigit (unat b div 16), hexdigit (unat b mod 16)]"

definition hashPassword :: "jsstring \<Rightarrow> jsstring" where
  "hashPassword password = concat (map hex2 (sha256 (utf8 password)))"

definition verifyPassword :: "jsstring \<Rightarrow> jsstring \<Rightarrow> bool" where
  "verifyPassword password storedHash =
     (if password = [] \<or> storedHash = [] then False
      else hashPassword password = storedHash)"

definition generateSessionToken :: "(nat \<Rightarrow> byte) \<Rightarrow> jsstring" where
  \<comment> \<open>\<open>rnd i\<close> is element \<open>i\<close> of the 32-byte array after \<open>crypto.getRandomValues\<close>\<close>
  "generateSessionToken rnd = concat (map (\<lambda>i. hex2 (rnd i)) [0..<32])"

definition clearSession :: "sessionStorage \<Rightarrow> sessionStorage" where
  "clearSession st = st\<lparr>adminAuth := None, adminAuthTime := None\<rparr>"

definition isSessionValid :: "int \<Rightarrow> sessionStorage \<Rightarrow> bool \<times> sessionStorage" where
  \<comment> \<open>\<open>now\<close> is \<open>Date.now()\<close>; a \<open>NaN\<close> elapsed time is not greater than the duration\<close>
  "isSessionValid now st =
     (if falsy (adminAuth st) \<or> falsy (adminAuthTime st) then (False, st)
      else case parseInt (case adminAuthTime st of Some a \<Rightarrow> a | None \<Rightarrow> []) of
             None \<Rightarrow> (True, st)
           | Some t \<Rightarrow>
               if now - t > SESSION_DURATION
               then (False, st\<lparr>adminAuth := None, adminAuthTime := None\<rparr>)
               else (True, st))"

definition getLoginAttempts :: "sessionStorage \<Rightarrow> LoginAttempt" where
  "getLoginAttempts st =
     (case loginAttempts st of
        Some a \<Rightarrow> a
      | None \<Rightarrow> \<lparr>count = 0, lockoutUntil = None\<rparr>)"

definition recordFailedAttempt :: "int \<Rightarrow> sessionStorage \<Rightarrow> LoginAttempt \<times> sessionStorage" where
  "recordFailedAttempt now st =
     (let a0 = getLoginAttempts st;
          a1 = a0\<lparr>count := count a0 + 1\<rparr>;
          a2 = (if count a1 \<ge> MAX_LOGIN_ATTEMPTS
                then a1\<lparr>lockoutUntil := Some (now + LOCKOUT_DURATION)\<rparr> else a1)
      in (a2, st\<lparr>loginAttempts := Some a2\<rparr>))"

definition clearLoginAttempts :: "sessionStorage \<Rightarrow> sessionStorage" where
  "clearLoginAttempts st = st\<lparr>loginAttempts := None\<rparr>"

definition isLockedOut :: "int \<Rightarrow> sessionStorage \<Rightarrow> bool \<times> sessionStorage" where
  "isLockedOut now st =
     (let attempts = getLoginAttempts st in
      case lockoutUntil attempts of
        None \<Rightarrow> (False, st)
      | Some l \<Rightarrow>
          if l \<noteq> 0 \<and> now < l then (True, st)
          else if l \<noteq> 0 \<and> now \<ge> l then (False, clearLoginAttempts st)
          else (False, st))"

definition getLockoutRemaining :: "int \<Rightarrow> sessionStorage \<Rightarrow> int" where
  "getLockoutRemaining now st =
     (case lockoutUntil (getLoginAttempts st) of
        None \<Rightarrow> 0
      | Some l \<Rightarrow> if l \<noteq> 0 then max 0 (ceilDiv (l - now) 1000) else 0)"

record AuthResult =
  success :: bool
  error :: "jsstring option"
  lockoutRemaining :: "int option"

definition authenticate ::
  "jsstring \<Rightarrow> jsstring \<Rightarrow> (nat \<Rightarrow> byte) \<Rightarrow> int \<Rightarrow> sessionStorage \<Rightarrow> AuthResult \<times> sessionStorage"
where
  "authenticate password storedPasswordHash rnd now st =
     (case isLockedOut now st of
        (True, st1) \<Rightarrow>
          (let remaining = getLockoutRemaining now st1 in
           (\<lparr>success = False,
             error = Some (js ''Account locked. Try again in '' @ toString (ceilDiv remaining 60)
                           @ js '' minutes.''),
             lockoutRemaining = Some remaining\<rparr>, st1))
      | (False, st1) \<Rightarrow>
          if verifyPassword password storedPasswordHash then
            (let st2 = clearLoginAttempts st1;
                 token = generateSessionToken rnd;
                 st3 = st2\<lparr>adminAuth := Some token\<rparr>;
                 st4 = st3\<lparr>adminAuthTime := Some (toString now)\<rparr>
             in (\<lparr>success = True, error = None, lockoutRemaining = None\<rparr>, st4))
          else
            (case recordFailedAttempt now st1 of (attempts, st2) \<Rightarrow>
               let remainingAttempts = MAX_LOGIN_ATTEMPTS - count attempts in
               if truthy (lockoutUntil attempts) then
                 (let remaining = getLockoutRemaining now st2 in
                  (\<lparr>success = False,
                    error = Some (js ''Too many failed attempts. Account locked for ''
                                  @ toString (ceilDiv remaining 60) @ js '' minutes.''),
                    lockoutRemaining = Some remaining\<rparr>, st2))
               else
                 (\<lparr>success = False,
                   error = Some (js ''Incorrect password. '' @ toString remainingAttempts
                                 @ js '' attempt'' @ (if remainingAttempts \<noteq> 1 then js ''s'' else [])
                                 @ js '' remaining.''),
                   lockoutRemaining = None\<rparr>, st2)))"

text \<open>
  The calls a page can make, each at one reading \<open>now\<close> of \<open>Date.now()\<close>, and the
  storage after a sequence of them.
\<close>

datatype call =
    Authenticate jsstring jsstring "nat \<Rightarrow> byte"
  | IsLockedOut
  | GetLockoutRemaining
  | IsSessionValid
  | ClearSession

fun step :: "call \<Rightarrow> int \<Rightarrow> sessionStorage \<Rightarrow> sessionStorage" where
  "step (Authenticate password storedPasswordHash rnd) now st =
     snd (authenticate password storedPasswordHash rnd now st)"
| "step IsLockedOut now st = snd (isLockedOut now st)"
| "step GetLockoutRemaining now st = st"
| "step IsSessionValid now st = snd (isSessionValid now st)"
| "step ClearSession now st = clearSession st"

fun run :: "(call \<times> int) list \<Rightarrow> sessionStorage \<Rightarrow> sessionStorage" where
  "run [] st = st"
| "run ((c, now) # rest) st = run rest (step c now st)"

definition counterOk :: "sessionStorage \<Rightarrow> bool" where
  \<comment> \<open>the attempt counter is within \<open>0..5\<close> and \<open>lockoutUntil\<close> is set exactly at 5\<close>
  "counterOk st =
     (let a = getLoginAttempts st in
      0 \<le> count a \<and> count a \<le> MAX_LOGIN_ATTEMPTS
      \<and> (case lockoutUntil a of
            None \<Rightarrow> count a < MAX_LOGIN_ATTEMPTS
          | Some l \<Rightarrow> l \<noteq> 0 \<and> count a = MAX_LOGIN_ATTEMPTS))"

section \<open>Storage obfuscation (\<open>./encryption\<close>, in \<open>unnamed/part_003\<close>)\<close>

datatype error = InvalidCharacterError | ValidationFailed

definition ENCRYPTION_KEY :: jsstring where
  "ENCRYPTION_KEY = js ''lead-hub-2024-key''"

fun xorKey :: "nat \<Rightarrow> jsstring \<Rightarrow> jsstring" where
  \<comment> \<open>the loop of \<open>simpleObfuscate\<close> and \<open>simpleDeobfuscate\<close>, from index \<open>i\<close> on\<close>
  "xorKey i [] = []"
| "xorKey i (c # cs) =
     (c XOR (ENCRYPTION_KEY ! (i mod length ENCRYPTION_KEY))) # xorKey (Suc i) cs"

text \<open>
  \<open>btoa\<close> and \<open>atob\<close> are the browser's: \<open>btoa\<close> throws on a code unit above
  \<open>0xFF\<close> and otherwise encodes the bytes in base64 with padding; \<open>atob\<close> is the
  forgiving base64 decoder (ASCII whitespace is dropped, padding is optional).
\<close>

definition b64alphabet :: jsstring where
  "b64alphabet = js ''ABCDEFGHIJKLMNOPQRSTUVWXYZabcdefghijklmnopqrstuvwxyz0123456789+/''"

definition b64char :: "nat \<Rightarrow> jschar" where
  "b64char n = b64alphabet ! n"

definition b64val :: "jschar \<Rightarrow> nat option" where
  "b64val c = map_of (zip b64alphabet [0..<64]) c"

fun b64encode :: "nat list \<Rightarrow> jsstring" where
  "b64encode (a # b # c # rest) =
     [b64char (a div 4), b64char ((a mod 4) * 16 + b div 16),
      b64char ((b mod 16) * 4 + c div 64), b64char (c mod 64)] @ b64encode rest"
| "b64encode [a, b] =
     [b64char (a div 4), b64char ((a mod 4) * 16 + b div 16), b64char ((b mod 16) * 4), 0x3D]"
| "b64encode [a] = [b64char (a div 4), b64char ((a mod 4) * 16), 0x3D, 0x3D]"
| "b64encode [] = []"

fun b64decode :: "nat list \<Rightarrow> nat list" where
  "b64decode (p # q # r # s # rest) =
     [p * 4 + q div 16, (q mod 16) * 16 + r div 4, (r mod 4) * 64 + s] @ b64decode rest"
| "b64decode [p, q, r] = [p * 4 + q div 16, (q mod 16) * 16 + r div 4]"
| "b64decode [p, q] = [p * 4 + q div 16]"
| "b64decode _ = []"

text \<open>
  What \<open>b64encode\<close> produces, for the proofs: the 6-bit groups of the bytes, and the
  number of \<open>=\<close> that follow them.
\<close>

fun sextets :: "nat list \<Rightarrow> nat list" where
  "sextets (a # b # c # rest) =
     [a div 4, (a mod 4) * 16 + b div 16, (b mod 16) * 4 + c div 64, c mod 64] @ sextets rest"
| "sextets [a, b] = [a div 4, (a mod 4) * 16 + b div 16, (b mod 16) * 4]"
| "sextets [a] = [a div 4, (a mod 4) * 16]"
| "sextets [] = []"

fun padding :: "nat list \<Rightarrow> nat" where
  "padding (a # b # c # rest) = padding rest"
| "padding [a, b] = Suc 0"
| "padding [a] = Suc (Suc 0)"
| "padding [] = 0"

definition btoa :: "jsstring \<Rightarrow> error + jsstring" where
  "btoa s = (if list_all (\<lambda>c. c \<le> 0xFF) s then Inr (b64encode (map unat s))
             else Inl InvalidCharacterError)"

definition isAsciiWhitespace :: "jschar \<Rightarrow> bool" where
  "isAsciiWhitespace c = (c \<in> {0x9, 0xA, 0xC, 0xD, 0x20})"

definition stripPadding :: "jsstring \<Rightarrow> jsstring" where
  \<comment> \<open>one or two \<open>=\<close> at the end are removed\<close>
  "stripPadding d =
     (if d \<noteq> [] \<and> last d = 0x3D
      then (if butlast d \<noteq> [] \<and> last (butlast d) = 0x3D then butlast (butlast d)
            else butlast d)
      else d)"

definition atob :: "jsstring \<Rightarrow> error + jsstring" where
  "atob s =
     (let d0 = filter (\<lambda>c. \<not> isAsciiWhitespace c) s;
          d1 = (if length d0 mod 4 = 0 then stripPadding d0 else d0)
      in if length d1 mod 4 = 1 then Inl InvalidCharacterError
         else if list_all (\<lambda>c. b64val c \<noteq> None) d1
         then Inr (map of_nat (b64decode (map (\<lambda>c. case b64val c of Some v \<Rightarrow> v | None \<Rightarrow> 0) d1)))
         else Inl InvalidCharacterError)"

definition simpleObfuscate :: "jsstring \<Rightarrow> error + jsstring" where
  "simpleObfuscate text = btoa (xorKey 0 text)"

definition simpleDeobfuscate :: "jsstring \<Rightarrow> jsstring" where
  \<comment> \<open>the \<open>catch\<close> branch returns the empty string\<close>
  "simpleDeobfuscate obfuscated =
     (case atob obfuscated of Inl e \<Rightarrow> [] | Inr decoded \<Rightarrow> xorKey 0 decoded)"

definition encryptForStorage :: "jsstring \<Rightarrow> error + jsstring" where
  "encryptForStorage data = (if data = [] then Inr [] else simpleObfuscate data)"

definition decryptFromStorage :: "jsstring \<Rightarrow> jsstring" where
  "decryptFromStorage encrypted = (if encrypted = [] then [] else simpleDeobfuscate encrypted)"

definition roundTrip :: "jsstring \<Rightarrow> error + jsstring" where
  \<comment> \<open>\<open>decryptFromStorage(encryptForStorage(s))\<close>; an exception of the inner call propagates\<close>
  "roundTrip s = (case encryptForStorage s of Inl e \<Rightarrow> Inl e | Inr c \<Rightarrow> Inr (decryptFromStorage c))"

section \<open>Saving the configuration (\<open>src/lib/config.ts\<close>)\<close>

record AppConfig =
  submitWebhookUrl :: jsstring
  readWebhookUrl :: jsstring
  adminPassword :: jsstring

text \<open>A \<open>Partial<AppConfig>\<close>: \<open>None\<close> is a property that is not present.\<close>

record PartialConfig =
  submitWebhookUrl' :: "jsstring option"
  readWebhookUrl' :: "jsstring option"
  adminPassword' :: "jsstring option"

record localStorage =
  leadProcessorConfig :: "jsstring option"
  leadProcessorConfigEnc :: "jsstring option"

definition DEFAULT_CONFIG :: AppConfig where
  "DEFAULT_CONFIG =
     \<lparr>submitWebhookUrl = js ''https://ae485a6b2636.ngrok-free.app/webhook/submit-lead'',
      readWebhookUrl = js ''https://ae485a6b2636.ngrok-free.app/webhook/list-leads'',
      adminPassword = []\<rparr>"

definition merge :: "AppConfig \<Rightarrow> PartialConfig \<Rightarrow> AppConfig" where
  \<comment> \<open>\<open>{ ...current, ...config }\<close>\<close>
  "merge current config =
     \<lparr>submitWebhookUrl = (case submitWebhookUrl' config of Some u \<Rightarrow> u | None \<Rightarrow> submitWebhookUrl current),
      readWebhookUrl = (case readWebhookUrl' config of Some u \<Rightarrow> u | None \<Rightarrow> readWebhookUrl current),
      adminPassword = (case adminPassword' config of Some p \<Rightarrow> p | None \<Rightarrow> adminPassword current)\<rparr>"

definition isHexChar :: "jschar \<Rightarrow> bool" where
  \<comment> \<open>the class \<open>[a-f0-9]\<close> under the flag \<open>i\<close>\<close>
  "isHexChar c = ((0x30 \<le> c \<and> c \<le> 0x39) \<or> (0x61 \<le> c \<and> c \<le> 0x66) \<or> (0x41 \<le> c \<and> c \<le> 0x46))"

definition isAlreadyHashed :: "jsstring \<Rightarrow> bool" where
  \<comment> \<open>\<open>/^[a-f0-9]{64}$/i.test(s)\<close>\<close>
  "isAlreadyHashed s = (length s = 64 \<and> list_all isHexChar s)"

definition configSchema_parse :: "(jsstring \<Rightarrow> bool) \<Rightarrow> AppConfig \<Rightarrow> error + AppConfig" where
  \<comment> \<open>\<open>validUrl\<close> stands for \<open>webhookUrlSchema\<close> (zod's URL check and the two refinements)\<close>
  "configSchema_parse validUrl c =
     (if (validUrl (submitWebhookUrl c) \<or> submitWebhookUrl c = [])
         \<and> (validUrl (readWebhookUrl c) \<or> readWebhookUrl c = [])
         \<and> 8 \<le> length (adminPassword c) \<and> length (adminPassword c) \<le> 128
      then Inr c else Inl ValidationFailed)"

definition validated :: "(jsstring \<Rightarrow> bool) \<Rightarrow> AppConfig \<Rightarrow> PartialConfig \<Rightarrow> error + AppConfig" where
  \<comment> \<open>the object \<open>validated\<close> of \<open>saveConfig\<close>; \<open>current\<close> is what \<open>getConfig()\<close> returned\<close>
  "validated validUrl current config =
     (let merged = merge current config;
          merged = (if adminPassword merged \<noteq> [] \<and> adminPassword merged \<noteq> adminPassword current
                    then (if \<not> isAlreadyHashed (adminPassword merged)
                          then merged\<lparr>adminPassword := hashPassword (adminPassword merged)\<rparr>
                          else merged)
                    else merged)
      in configSchema_parse validUrl merged)"

definition hex4 :: "jschar \<Rightarrow> jsstring" where
  "hex4 c = map (\<lambda>k. hexdigit (unat (drop_bit k c AND 0xF))) [12, 8, 4, 0]"

fun quoteBody :: "jsstring \<Rightarrow> jsstring" where
  \<comment> \<open>the characters between the quotes of \<open>JSON.stringify(s)\<close> for a string \<open>s\<close>\<close>
  "quoteBody [] = []"
| "quoteBody (c # cs) =
     (if c = 0x08 then js [CHR 0x5C, CHR ''b''] @ quoteBody cs
      else if c = 0x09 then js [CHR 0x5C, CHR ''t''] @ quoteBody cs
      else if c = 0x0A then js [CHR 0x5C, CHR ''n''] @ quoteBody cs
      else if c = 0x0C then js [CHR 0x5C, CHR ''f''] @ quoteBody cs
      else if c = 0x0D then js [CHR 0x5C, CHR ''r''] @ quoteBody cs
      else if c = 0x22 then js [CHR 0x5C, CHR 0x22] @ quoteBody cs
      else if c = 0x5C then js [CHR 0x5C, CHR 0x5C] @ quoteBody cs
      else if c < 0x20 then js [CHR 0x5C, CHR ''u''] @ hex4 c @ quoteBody cs
      else if 0xD800 \<le> c \<and> c < 0xDC00 \<and> cs \<noteq> [] \<and> 0xDC00 \<le> hd cs \<and> hd cs < 0xE000
      then [c, hd cs] @ quoteBody (tl cs)
      else if 0xD800 \<le> c \<and> c < 0xE000 then js [CHR 0x5C, CHR ''u''] @ hex4 c @ quoteBody cs
      else c # quoteBody cs)"

definition quote :: "jsstring \<Rightarrow> jsstring" where
  "quote s = [0x22] @ quoteBody s @ [0x22]"

definition stringifyConfig :: "AppConfig \<Rightarrow> jsstring" where
  \<comment> \<open>\<open>JSON.stringify\<close> of the validated object, its keys in the schema's order\<close>
  "stringifyConfig c =
     js ''{'' @ quote (js ''submitWebhookUrl'') @ js '':'' @ quote (submitWebhookUrl c)
     @ js '','' @ quote (js ''readWebhookUrl'') @ js '':'' @ quote (readWebhookUrl c)
     @ js '','' @ quote (js ''adminPassword'') @ js '':'' @ quote (adminPassword c) @ js ''}''"

definition saveConfig ::
  "(jsstring \<Rightarrow> bool) \<Rightarrow> AppConfig \<Rightarrow> PartialConfig \<Rightarrow> localStorage \<Rightarrow> error + localStorage"
where
  "saveConfig validUrl current config ls =
     (case validated validUrl current config of
        Inl e \<Rightarrow> Inl e
      | Inr v \<Rightarrow>
          (case encryptForStorage (stringifyConfig v) of
             Inl e \<Rightarrow> Inl e
           | Inr encrypted \<Rightarrow>
               Inr (ls\<lparr>leadProcessorConfigEnc := Some encrypted, leadProcessorConfig := None\<rparr>)))"

section \<open>Basic facts\<close>

declare decimal.simps [simp del]

lemma SESSION_DURATION_value: "SESSION_DURATION = 1800000"
  by (simp add: SESSION_DURATION_def)

lemma LOCKOUT_DURATION_value: "LOCKOUT_DURATION = 900000"
  by (simp add: LOCKOUT_DURATION_def)

lemma ceilDiv_ceiling: "0 < b \<Longrightarrow> ceilDiv a b = \<lceil>real_of_int a / real_of_int b\<rceil>"
  by (simp add: ceilDiv_def ceiling_divide_eq_div)

subsection \<open>\<open>parseInt\<close> reads back what \<open>toString\<close> wrote\<close>

lemma digit_cases: "d < 10 \<Longrightarrow> d \<in> {0, 1, 2, 3, 4, 5, 6, 7, 8, 9::nat}"
  by auto

lemma digit_isDigit: "d < 10 \<Longrightarrow> isDigit (digit d)"
  using digit_cases [of d] by (auto simp: digit_def isDigit_def)

lemma digit_value: "d < 10 \<Longrightarrow> unat (digit d - 0x30) = d"
  by (simp add: digit_def unat_of_nat)

lemma isDigit_plain: "isDigit c \<Longrightarrow> \<not> isWhiteSpace c \<and> c \<noteq> 0x2D \<and> c \<noteq> 0x2B"
  by (auto simp: isDigit_def isWhiteSpace_def word_le_nat_alt)

lemma decimal_digits: "c \<in> set (decimal n) \<Longrightarrow> isDigit c"
proof (induction n arbitrary: c rule: decimal.induct)
  case (1 n)
  show ?case
  proof (cases "n < 10")
    case True
    with "1.prems" show ?thesis
      by (simp add: decimal.simps [of n] digit_isDigit)
  next
    case False
    with "1.prems" "1.IH" show ?thesis
      by (auto simp: decimal.simps [of n] digit_isDigit)
  qed
qed

lemma decimal_nonempty: "decimal n \<noteq> []"
  by (subst decimal.simps) simp

lemma digitsValue_snoc: "digitsValue (z @ [c]) = 10 * digitsValue z + unat (c - 0x30)"
  by (simp add: digitsValue_def)

lemma digitsValue_decimal: "digitsValue (decimal n) = n"
proof (induction n rule: decimal.induct)
  case (1 n)
  show ?case
  proof (cases "n < 10")
    case True
    then show ?thesis
      by (simp add: decimal.simps [of n] digitsValue_def digit_value)
  next
    case False
    with "1.IH" show ?thesis
      by (simp add: decimal.simps [of n] digitsValue_snoc digit_value)
  qed
qed

lemma takeWhile_decimal: "takeWhile isDigit (decimal n) = decimal n"
  by (simp add: decimal_digits)

lemma hd_decimal: "isDigit (hd (decimal n))"
  using decimal_nonempty [of n] decimal_digits [of "hd (decimal n)" n] by simp

lemma dropWhile_decimal: "dropWhile isWhiteSpace (decimal n) = decimal n"
  using hd_decimal [of n] decimal_nonempty [of n] isDigit_plain [of "hd (decimal n)"]
  by (cases "decimal n") auto

lemma parseInt_decimal: "parseInt (decimal n) = Some (int n)"
  using hd_decimal [of n] isDigit_plain [of "hd (decimal n)"]
  by (simp add: parseInt_def dropWhile_decimal takeWhile_decimal decimal_nonempty
      digitsValue_decimal Let_def)

lemma parseInt_toString: "parseInt (toString n) = Some n"
proof (cases "n < 0")
  case True
  have "\<not> isWhiteSpace 0x2D" by (simp add: isWhiteSpace_def)
  with True show ?thesis
    by (simp add: parseInt_def toString_def takeWhile_decimal decimal_nonempty
        digitsValue_decimal Let_def)
next
  case False
  then show ?thesis by (simp add: toString_def parseInt_decimal)
qed

lemma toString_nonempty: "toString n \<noteq> []"
  by (simp add: toString_def decimal_nonempty)

subsection \<open>The digest and the token are 64 hexadecimal characters\<close>

lemma state_bytes_length: "length (state_bytes s) = 32"
  by (cases s rule: state_bytes.cases) (simp add: bytes_of32_def)

lemma sha256_length: "length (sha256 m) = 32"
  by (simp add: sha256_def Let_def state_bytes_length)

lemma length_concat_hex2: "length (concat (map hex2 bs)) = 2 * length bs"
  by (induction bs) (simp_all add: hex2_def)

lemma hashPassword_length: "length (hashPassword p) = 64"
  by (simp add: hashPassword_def length_concat_hex2 sha256_length)

lemma hashPassword_nonempty: "hashPassword p \<noteq> []"
  using hashPassword_length [of p] by auto

lemma token_length: "length (generateSessionToken rnd) = 64"
  by (simp add: generateSessionToken_def length_concat o_def hex2_def sum_list_triv)

lemma token_nonempty: "generateSessionToken rnd \<noteq> []"
  using token_length [of rnd] by auto

section \<open>Known digests\<close>

text \<open>
  The SHA-256 digests of three passwords, computed inside the logic one stage at a time
  (encoding, padding, message schedule, the 64 rounds in groups of eight, hex output).
  They agree with the published values, e.g. \<open>e3b0c442...\<close> for the empty message.
\<close>

lemma funpow16: "(f ^^ 16) x = f (f (f (f (f (f (f (f (f (f (f (f (f (f (f (f x)))))))))))))))"
  by (simp add: eval_nat_numeral)

lemma funpow48: "(f ^^ 48) x = (f ^^ 16) ((f ^^ 16) ((f ^^ 16) x))"
proof -
  have "(48::nat) = 16 + (16 + 16)" by simp
  then show ?thesis by (simp only: funpow_add o_apply)
qed

lemma foldl8:
  "foldl f s (a1 # a2 # a3 # a4 # a5 # a6 # a7 # a8 # r # rest)
     = foldl f (foldl f s [a1, a2, a3, a4, a5, a6, a7, a8]) (r # rest)"
  by simp

lemma empty_utf8: "utf8 (js '''') = []"
  by (simp add: js_def)

lemma empty_zeros: "replicate 55 (0::byte) = [
     0, 0, 0, 0, 0, 0, 0, 0, 0, 0, 0, 0, 0, 0, 0, 0, 0, 0, 0, 0, 0, 0, 0, 0, 0, 0, 0, 0, 0,
     0, 0, 0, 0, 0, 0, 0, 0, 0, 0, 0, 0, 0, 0, 0, 0, 0, 0, 0, 0, 0, 0, 0, 0, 0, 0]"
  by (simp add: numeral_eq_Suc)

lemma empty_pad: "pad [] = [
     128, 0, 0, 0, 0, 0, 0, 0, 0, 0, 0, 0, 0, 0, 0, 0, 0, 0, 0, 0, 0, 0, 0, 0, 0, 0, 0, 0,
     0, 0, 0, 0, 0, 0, 0, 0, 0, 0, 0, 0, 0, 0, 0, 0, 0, 0, 0, 0, 0, 0, 0, 0, 0, 0, 0, 0, 0,
     0, 0, 0, 0, 0, 0, 0]"
  by (simp add: pad_def bytes_of64_def upt_conv_Cons empty_zeros)

lemma empty_words: "words_of [
     128, 0, 0, 0, 0, 0, 0, 0, 0, 0, 0, 0, 0, 0, 0, 0, 0, 0, 0, 0, 0, 0, 0, 0, 0, 0, 0, 0,
     0, 0, 0, 0, 0, 0, 0, 0, 0, 0, 0, 0, 0, 0, 0, 0, 0, 0, 0, 0, 0, 0, 0, 0, 0, 0, 0, 0, 0,
     0, 0, 0, 0, 0, 0, 0] = [
     2147483648, 0, 0, 0, 0, 0, 0, 0, 0, 0, 0, 0, 0, 0, 0, 0]"
  by (simp add: be32_def)

lemma empty_schedule0: "(scheduleStep ^^ 16) [
     2147483648, 0, 0, 0, 0, 0, 0, 0, 0, 0, 0, 0, 0, 0, 0, 0] = [
     2147483648, 0, 0, 0, 0, 0, 0, 0, 0, 0, 0, 0, 0, 0, 0, 0, 2147483648, 0, 2117632, 0,
     570427392, 0, 84448578, 2147483648, 1476919296, 4235264, 1451269, 1711282176,
     3592562048, 337794312, 3594910044, 3374850048]"
  by (simp add: funpow16 scheduleStep_def sigma0_def sigma1_def rotr_def)

lemma empty_schedule1: "(scheduleStep ^^ 16) [
     2147483648, 0, 0, 0, 0, 0, 0, 0, 0, 0, 0, 0, 0, 0, 0, 0, 2147483648, 0, 2117632, 0,
     570427392, 0, 84448578, 2147483648, 1476919296, 4235264, 1451269, 1711282176,
     3592562048, 337794312, 3594910044, 3374850048] = [
     2147483648, 0, 0, 0, 0, 0, 0, 0, 0, 0, 0, 0, 0, 0, 0, 0, 2147483648, 0, 2117632, 0,
     570427392, 0, 84448578, 2147483648, 1476919296, 4235264, 1451269, 1711282176,
     3592562048, 337794312, 3594910044, 3374850048, 3287351444, 676112230, 109604294,
     2742808854, 1904000662, 4274181962, 2813755136, 2165675682, 2561075048, 62000258,
     1562224585, 2975250741, 3286092305, 614207615, 3297584367, 1575308336]"
  by (simp add: funpow16 scheduleStep_def sigma0_def sigma1_def rotr_def)

lemma empty_schedule2: "(scheduleStep ^^ 16) [
     2147483648, 0, 0, 0, 0, 0, 0, 0, 0, 0, 0, 0, 0, 0, 0, 0, 2147483648, 0, 2117632, 0,
     570427392, 0, 84448578, 2147483648, 1476919296, 4235264, 1451269, 1711282176,
     3592562048, 337794312, 3594910044, 3374850048, 3287351444, 676112230, 109604294,
     2742808854, 1904000662, 4274181962, 2813755136, 2165675682, 2561075048, 62000258,
     1562224585, 2975250741, 3286092305, 614207615, 3297584367, 1575308336] = [
     2147483648, 0, 0, 0, 0, 0, 0, 0, 0, 0, 0, 0, 0, 0, 0, 0, 2147483648, 0, 2117632, 0,
     570427392, 0, 84448578, 2147483648, 1476919296, 4235264, 1451269, 1711282176,
     3592562048, 337794312, 3594910044, 3374850048, 3287351444, 676112230, 109604294,
     2742808854, 1904000662, 4274181962, 2813755136, 2165675682, 2561075048, 62000258,
     1562224585, 2975250741, 3286092305, 614207615, 3297584367, 1575308336, 3741240933,
     748767245, 1008022316, 30329261, 369937616, 195877528, 907775968, 3526495142,
     43741191, 1967544444, 133517113, 4161330627, 3704256008, 1581412744, 1153231965,
     996066459]"
  by (simp add: funpow16 scheduleStep_def sigma0_def sigma1_def rotr_def)

lemma empty_schedule: "schedule [
     128, 0, 0, 0, 0, 0, 0, 0, 0, 0, 0, 0, 0, 0, 0, 0, 0, 0, 0, 0, 0, 0, 0, 0, 0, 0, 0, 0,
     0, 0, 0, 0, 0, 0, 0, 0, 0, 0, 0, 0, 0, 0, 0, 0, 0, 0, 0, 0, 0, 0, 0, 0, 0, 0, 0, 0, 0,
     0, 0, 0, 0, 0, 0, 0] = [
     2147483648, 0, 0, 0, 0, 0, 0, 0, 0, 0, 0, 0, 0, 0, 0, 0, 2147483648, 0, 2117632, 0,
     570427392, 0, 84448578, 2147483648, 1476919296, 4235264, 1451269, 1711282176,
     3592562048, 337794312, 3594910044, 3374850048, 3287351444, 676112230, 109604294,
     2742808854, 1904000662, 4274181962, 2813755136, 2165675682, 2561075048, 62000258,
     1562224585, 2975250741, 3286092305, 614207615, 3297584367, 1575308336, 3741240933,
     748767245, 1008022316, 30329261, 369937616, 195877528, 907775968, 3526495142,
     43741191, 1967544444, 133517113, 4161330627, 3704256008, 1581412744, 1153231965,
     996066459]"
  by (simp only: schedule_def funpow48 empty_words empty_schedule0 empty_schedule1 empty_schedule2)

lemma empty_zip: "zip K256 [
     2147483648, 0, 0, 0, 0, 0, 0, 0, 0, 0, 0, 0, 0, 0, 0, 0, 2147483648, 0, 2117632, 0,
     570427392, 0, 84448578, 2147483648, 1476919296, 4235264, 1451269, 1711282176,
     3592562048, 337794312, 3594910044, 3374850048, 3287351444, 676112230, 109604294,
     2742808854, 1904000662, 4274181962, 2813755136, 2165675682, 2561075048, 62000258,
     1562224585, 2975250741, 3286092305, 614207615, 3297584367, 1575308336, 3741240933,
     748767245, 1008022316, 30329261, 369937616, 195877528, 907775968, 3526495142,
     43741191, 1967544444, 133517113, 4161330627, 3704256008, 1581412744, 1153231965,
     996066459] = [
     (1116352408, 2147483648), (1899447441, 0), (3049323471, 0), (3921009573, 0),
     (961987163, 0), (1508970993, 0), (2453635748, 0), (2870763221, 0), (3624381080, 0),
     (310598401, 0), (607225278, 0), (1426881987, 0), (1925078388, 0), (2162078206, 0),
     (2614888103, 0), (3248222580, 0), (3835390401, 2147483648), (4022224774, 0),
     (264347078, 2117632), (604807628, 0), (770255983, 570427392), (1249150122, 0),
     (1555081692, 84448578), (1996064986, 2147483648), (2554220882, 1476919296),
     (2821834349, 4235264), (2952996808, 1451269), (3210313671, 1711282176),
     (3336571891, 3592562048), (3584528711, 337794312), (113926993, 3594910044),
     (338241895, 3374850048), (666307205, 3287351444), (773529912, 676112230),
     (1294757372, 109604294), (1396182291, 2742808854), (1695183700, 1904000662),
     (1986661051, 4274181962), (2177026350, 2813755136), (2456956037, 2165675682),
     (2730485921, 2561075048), (2820302411, 62000258), (3259730800, 1562224585),
     (3345764771, 2975250741), (3516065817, 3286092305), (3600352804, 614207615),
     (4094571909, 3297584367), (275423344, 1575308336), (430227734, 3741240933),
     (506948616, 748767245), (659060556, 1008022316), (883997877, 30329261),
     (958139571, 369937616), (1322822218, 195877528), (1537002063, 907775968),
     (1747873779, 3526495142), (1955562222, 43741191), (2024104815, 1967544444),
     (2227730452, 133517113), (2361852424, 4161330627), (2428436474, 3704256008),
     (2756734187, 1581412744), (3204031479, 1153231965), (3329325298, 996066459)]"
  by (simp add: K256_def)

lemma empty_rounds0: "foldl round256 (1779033703, 3144134277, 1013904242, 2773480762, 1359893119, 2600822924, 528734635, 1541459225) [
     (1116352408, 2147483648), (1899447441, 0), (3049323471, 0), (3921009573, 0),
     (961987163, 0), (1508970993, 0), (2453635748, 0), (2870763221, 0)] = (2060825014, 4028650896, 690895682, 1130821424, 1408847307, 2196627567, 1332035834, 3889194014)"
  by (simp add: Sigma0_def Sigma1_def Ch_def Maj_def rotr_def)

lemma empty_rounds1: "foldl round256 (2060825014, 4028650896, 690895682, 1130821424, 1408847307, 2196627567, 1332035834, 3889194014) [
     (3624381080, 0), (310598401, 0), (607225278, 0), (1426881987, 0), (1925078388, 0),
     (2162078206, 0), (2614888103, 0), (3248222580, 0)] = (3019933109, 3096116699, 1170215847, 553833165, 1555621987, 483372089, 725774998, 3455974994)"
  by (simp add: Sigma0_def Sigma1_def Ch_def Maj_def rotr_def)

lemma empty_rounds2: "foldl round256 (3019933109, 3096116699, 1170215847, 553833165, 1555621987, 483372089, 725774998, 3455974994) [
     (3835390401, 2147483648), (4022224774, 0), (264347078, 2117632), (604807628, 0),
     (770255983, 570427392), (1249150122, 0), (1555081692, 84448578),
     (1996064986, 2147483648)] = (2556161365, 1078820948, 2577845017, 1976037592, 741081741, 2976200464, 3263666206, 966081741)"
  by (simp add: Sigma0_def Sigma1_def Ch_def Maj_def rotr_def)

lemma empty_rounds3: "foldl round256 (2556161365, 1078820948, 2577845017, 1976037592, 741081741, 2976200464, 3263666206, 966081741) [
     (2554220882, 1476919296), (2821834349, 4235264), (2952996808, 1451269),
     (3210313671, 1711282176), (3336571891, 3592562048), (3584528711, 337794312),
     (113926993, 3594910044), (338241895, 3374850048)] = (300352095, 2696613087, 1926471693, 1690082844, 3151463532, 1447716390, 2957685293, 2506713973)"
  by (simp add: Sigma0_def Sigma1_def Ch_def Maj_def rotr_def)

lemma empty_rounds4: "foldl round256 (300352095, 2696613087, 1926471693, 1690082844, 3151463532, 1447716390, 2957685293, 2506713973) [
     (666307205, 3287351444), (773529912, 676112230), (1294757372, 109604294),
     (1396182291, 2742808854), (1695183700, 1904000662), (1986661051, 4274181962),
     (2177026350, 2813755136), (2456956037, 2165675682)] = (1234768305, 2656625711, 1457773646, 2694206301, 1902882853, 2242319396, 3892832895, 4206914285)"
  by (simp add: Sigma0_def Sigma1_def Ch_def Maj_def rotr_def)

lemma empty_rounds5: "foldl round256 (1234768305, 2656625711, 1457773646, 2694206301, 1902882853, 2242319396, 3892832895, 4206914285) [
     (2730485921, 2561075048), (2820302411, 62000258), (3259730800, 1562224585),
     (3345764771, 2975250741), (3516065817, 3286092305), (3600352804, 614207615),
     (4094571909, 3297584367), (275423344, 1575308336)] = (911881421, 1419259244, 855262251, 2752082644, 3417569515, 2322236082, 3531982457, 2855016464)"
  by (simp add: Sigma0_def Sigma1_def Ch_def Maj_def rotr_def)

lemma empty_rounds6: "foldl round256 (911881421, 1419259244, 855262251, 2752082644, 3417569515, 2322236082, 3531982457, 2855016464) [
     (430227734, 3741240933), (506948616, 748767245), (659060556, 1008022316),
     (883997877, 30329261), (958139571, 369937616), (1322822218, 195877528),
     (1537002063, 907775968), (1747873779, 3526495142)] = (23298068, 749689034, 974034039, 2981272720, 2918796810, 3850954136, 4254700398, 1134943992)"
  by (simp add: Sigma0_def Sigma1_def Ch_def Maj_def rotr_def)

lemma empty_rounds7: "foldl round256 (23298068, 749689034, 974034039, 2981272720, 2918796810, 3850954136, 4254700398, 1134943992) [
     (1955562222, 43741191), (2024104815, 1967544444), (2227730452, 133517113),
     (2361852424, 4161330627), (2428436474, 3704256008), (2756734187, 1581412744),
     (3204031479, 1153231965), (3329325298, 996066459)] = (2040978907, 3717492111, 1586299222, 4095722474, 3600805733, 3382061760, 2232532848, 477227836)"
  by (simp add: Sigma0_def Sigma1_def Ch_def Maj_def rotr_def)

lemma empty_compress: "compress H256 [
     128, 0, 0, 0, 0, 0, 0, 0, 0, 0, 0, 0, 0, 0, 0, 0, 0, 0, 0, 0, 0, 0, 0, 0, 0, 0, 0, 0,
     0, 0, 0, 0, 0, 0, 0, 0, 0, 0, 0, 0, 0, 0, 0, 0, 0, 0, 0, 0, 0, 0, 0, 0, 0, 0, 0, 0, 0,
     0, 0, 0, 0, 0, 0, 0] = (3820012610, 2566659092, 2600203464, 2574235940, 665731556, 1687917388, 2761267483, 2018687061)"
  by (simp only: compress_def empty_schedule empty_zip H256_def foldl8 foldl_Nil
      empty_rounds0 empty_rounds1 empty_rounds2 empty_rounds3 empty_rounds4 empty_rounds5 empty_rounds6 empty_rounds7)
    simp

lemma empty_sha256: "sha256 [] = [
     227, 176, 196, 66, 152, 252, 28, 20, 154, 251, 244, 200, 153, 111, 185, 36, 39, 174,
     65, 228, 100, 155, 147, 76, 164, 149, 153, 27, 120, 82, 184, 85]"
  by (simp add: sha256_def empty_pad empty_compress bytes_of32_def)

lemma empty_digest: "hashPassword (js '''') = js ''e3b0c44298fc1c149afbf4c8996fb92427ae41e4649b934ca495991b7852b855''"
  by (simp add: hashPassword_def empty_utf8 empty_sha256 hex2_def hexdigit_def js_def)

lemma correct_utf8: "utf8 (js ''correct'') = [
     99, 111, 114, 114, 101, 99, 116]"
  by (simp add: js_def)

lemma correct_zeros: "replicate 48 (0::byte) = [
     0, 0, 0, 0, 0, 0, 0, 0, 0, 0, 0, 0, 0, 0, 0, 0, 0, 0, 0, 0, 0, 0, 0, 0, 0, 0, 0, 0, 0,
     0, 0, 0, 0, 0, 0, 0, 0, 0, 0, 0, 0, 0, 0, 0, 0, 0, 0, 0]"
  by (simp add: numeral_eq_Suc)

lemma correct_pad: "pad [
     99, 111, 114, 114, 101, 99, 116] = [
     99, 111, 114, 114, 101, 99, 116, 128, 0, 0, 0, 0, 0, 0, 0, 0, 0, 0, 0, 0, 0, 0, 0, 0,
     0, 0, 0, 0, 0, 0, 0, 0, 0, 0, 0, 0, 0, 0, 0, 0, 0, 0, 0, 0, 0, 0, 0, 0, 0, 0, 0, 0, 0,
     0, 0, 0, 0, 0, 0, 0, 0, 0, 0, 56]"
  by (simp add: pad_def bytes_of64_def upt_conv_Cons correct_zeros)

lemma correct_words: "words_of [
     99, 111, 114, 114, 101, 99, 116, 128, 0, 0, 0, 0, 0, 0, 0, 0, 0, 0, 0, 0, 0, 0, 0, 0,
     0, 0, 0, 0, 0, 0, 0, 0, 0, 0, 0, 0, 0, 0, 0, 0, 0, 0, 0, 0, 0, 0, 0, 0, 0, 0, 0, 0, 0,
     0, 0, 0, 0, 0, 0, 0, 0, 0, 0, 56] = [
     1668248178, 1701016704, 0, 0, 0, 0, 0, 0, 0, 0, 0, 0, 0, 0, 0, 56]"
  by (simp add: be32_def)

lemma correct_schedule0: "(scheduleStep ^^ 16) [
     1668248178, 1701016704, 0, 0, 0, 0, 0, 0, 0, 0, 0, 0, 0, 0, 0, 56] = [
     1668248178, 1701016704, 0, 0, 0, 0, 0, 0, 0, 0, 0, 0, 0, 0, 0, 56, 884351891,
     1702786176, 3585528133, 4106838413, 2998877657, 2630514341, 2038120703, 2857857780,
     771523010, 751118082, 3315305966, 3928596620, 1413894978, 1575527224, 4265731130,
     470042227]"
  by (simp add: funpow16 scheduleStep_def sigma0_def sigma1_def rotr_def)

lemma correct_schedule1: "(scheduleStep ^^ 16) [
     1668248178, 1701016704, 0, 0, 0, 0, 0, 0, 0, 0, 0, 0, 0, 0, 0, 56, 884351891,
     1702786176, 3585528133, 4106838413, 2998877657, 2630514341, 2038120703, 2857857780,
     771523010, 751118082, 3315305966, 3928596620, 1413894978, 1575527224, 4265731130,
     470042227] = [
     1668248178, 1701016704, 0, 0, 0, 0, 0, 0, 0, 0, 0, 0, 0, 0, 0, 56, 884351891,
     1702786176, 3585528133, 4106838413, 2998877657, 2630514341, 2038120703, 2857857780,
     771523010, 751118082, 3315305966, 3928596620, 1413894978, 1575527224, 4265731130,
     470042227, 3244697164, 4233605608, 4107523751, 3796573835, 1735118370, 2845489994,
     1424987979, 406381268, 2880427096, 3037951628, 623293866, 1111542659, 3725787265,
     1119065276, 3943063132, 2294962577]"
  by (simp add: funpow16 scheduleStep_def sigma0_def sigma1_def rotr_def)

lemma correct_schedule2: "(scheduleStep ^^ 16) [
     1668248178, 1701016704, 0, 0, 0, 0, 0, 0, 0, 0, 0, 0, 0, 0, 0, 56, 884351891,
     1702786176, 3585528133, 4106838413, 2998877657, 2630514341, 2038120703, 2857857780,
     771523010, 751118082, 3315305966, 3928596620, 1413894978, 1575527224, 4265731130,
     470042227, 3244697164, 4233605608, 4107523751, 3796573835, 1735118370, 2845489994,
     1424987979, 406381268, 2880427096, 3037951628, 623293866, 1111542659, 3725787265,
     1119065276, 3943063132, 2294962577] = [
     1668248178, 1701016704, 0, 0, 0, 0, 0, 0, 0, 0, 0, 0, 0, 0, 0, 56, 884351891,
     1702786176, 3585528133, 4106838413, 2998877657, 2630514341, 2038120703, 2857857780,
     771523010, 751118082, 3315305966, 3928596620, 1413894978, 1575527224, 4265731130,
     470042227, 3244697164, 4233605608, 4107523751, 3796573835, 1735118370, 2845489994,
     1424987979, 406381268, 2880427096, 3037951628, 623293866, 1111542659, 3725787265,
     1119065276, 3943063132, 2294962577, 2103520407, 774983625, 3070867711, 169841947,
     3290438242, 1186231883, 2139655935, 2630616516, 51133359, 3961467168, 102053413,
     1565426618, 4170916451, 2266716191, 562218857, 3178742667]"
  by (simp add: funpow16 scheduleStep_def sigma0_def sigma1_def rotr_def)

lemma correct_schedule: "schedule [
     99, 111, 114, 114, 101, 99, 116, 128, 0, 0, 0, 0, 0, 0, 0, 0, 0, 0, 0, 0, 0, 0, 0, 0,
     0, 0, 0, 0, 0, 0, 0, 0, 0, 0, 0, 0, 0, 0, 0, 0, 0, 0, 0, 0, 0, 0, 0, 0, 0, 0, 0, 0, 0,
     0, 0, 0, 0, 0, 0, 0, 0, 0, 0, 56] = [
     1668248178, 1701016704, 0, 0, 0, 0, 0, 0, 0, 0, 0, 0, 0, 0, 0, 56, 884351891,
     1702786176, 3585528133, 4106838413, 2998877657, 2630514341, 2038120703, 2857857780,
     771523010, 751118082, 3315305966, 3928596620, 1413894978, 1575527224, 4265731130,
     470042227, 3244697164, 4233605608, 4107523751, 3796573835, 1735118370, 2845489994,
     1424987979, 406381268, 2880427096, 3037951628, 623293866, 1111542659, 3725787265,
     1119065276, 3943063132, 2294962577, 2103520407, 774983625, 3070867711, 169841947,
     3290438242, 1186231883, 2139655935, 2630616516, 51133359, 3961467168, 102053413,
     1565426618, 4170916451, 2266716191, 562218857, 3178742667]"
  by (simp only: schedule_def funpow48 correct_words correct_schedule0 correct_schedule1 correct_schedule2)

lemma correct_zip: "zip K256 [
     1668248178, 1701016704, 0, 0, 0, 0, 0, 0, 0, 0, 0, 0, 0, 0, 0, 56, 884351891,
     1702786176, 3585528133, 4106838413, 2998877657, 2630514341, 2038120703, 2857857780,
     771523010, 751118082, 3315305966, 3928596620, 1413894978, 1575527224, 4265731130,
     470042227, 3244697164, 4233605608, 4107523751, 3796573835, 1735118370, 2845489994,
     1424987979, 406381268, 2880427096, 3037951628, 623293866, 1111542659, 3725787265,
     1119065276, 3943063132, 2294962577, 2103520407, 774983625, 3070867711, 169841947,
     3290438242, 1186231883, 2139655935, 2630616516, 51133359, 3961467168, 102053413,
     1565426618, 4170916451, 2266716191, 562218857, 3178742667] = [
     (1116352408, 1668248178), (1899447441, 1701016704), (3049323471, 0), (3921009573, 0),
     (961987163, 0), (1508970993, 0), (2453635748, 0), (2870763221, 0), (3624381080, 0),
     (310598401, 0), (607225278, 0), (1426881987, 0), (1925078388, 0), (2162078206, 0),
     (2614888103, 0), (3248222580, 56), (3835390401, 884351891), (4022224774, 1702786176),
     (264347078, 3585528133), (604807628, 4106838413), (770255983, 2998877657),
     (1249150122, 2630514341), (1555081692, 2038120703), (1996064986, 2857857780),
     (2554220882, 771523010), (2821834349, 751118082), (2952996808, 3315305966),
     (3210313671, 3928596620), (3336571891, 1413894978), (3584528711, 1575527224),
     (113926993, 4265731130), (338241895, 470042227), (666307205, 3244697164),
     (773529912, 4233605608), (1294757372, 4107523751), (1396182291, 3796573835),
     (1695183700, 1735118370), (1986661051, 2845489994), (2177026350, 1424987979),
     (2456956037, 406381268), (2730485921, 2880427096), (2820302411, 3037951628),
     (3259730800, 623293866), (3345764771, 1111542659), (3516065817, 3725787265),
     (3600352804, 1119065276), (4094571909, 3943063132), (275423344, 2294962577),
     (430227734, 2103520407), (506948616, 774983625), (659060556, 3070867711),
     (883997877, 169841947), (958139571, 3290438242), (1322822218, 1186231883),
     (1537002063, 2139655935), (1747873779, 2630616516), (1955562222, 51133359),
     (2024104815, 3961467168), (2227730452, 102053413), (2361852424, 1565426618),
     (2428436474, 4170916451), (2756734187, 2266716191), (3204031479, 562218857),
     (3329325298, 3178742667)]"
  by (simp add: K256_def)

lemma correct_rounds0: "foldl round256 (1779033703, 3144134277, 1013904242, 2773480762, 1359893119, 2600822924, 528734635, 1541459225) [
     (1116352408, 1668248178), (1899447441, 1701016704), (3049323471, 0), (3921009573, 0),
     (961987163, 0), (1508970993, 0), (2453635748, 0), (2870763221, 0)] = (280896510, 1407780070, 266701033, 1974920334, 1583435950, 705827689, 2228629239, 3249309428)"
  by (simp add: Sigma0_def Sigma1_def Ch_def Maj_def rotr_def)

lemma correct_rounds1: "foldl round256 (280896510, 1407780070, 266701033, 1974920334, 1583435950, 705827689, 2228629239, 3249309428) [
     (3624381080, 0), (310598401, 0), (607225278, 0), (1426881987, 0), (1925078388, 0),
     (2162078206, 0), (2614888103, 0), (3248222580, 56)] = (3083776504, 1386018026, 3777986672, 42444366, 1666124467, 1015951188, 1563866672, 3717694114)"
  by (simp add: Sigma0_def Sigma1_def Ch_def Maj_def rotr_def)

lemma correct_rounds2: "foldl round256 (3083776504, 1386018026, 3777986672, 42444366, 1666124467, 1015951188, 1563866672, 3717694114) [
     (3835390401, 884351891), (4022224774, 1702786176), (264347078, 3585528133),
     (604807628, 4106838413), (770255983, 2998877657), (1249150122, 2630514341),
     (1555081692, 2038120703), (1996064986, 2857857780)] = (3450873781, 1803344690, 3569177710, 748608371, 207147226, 167912516, 944183581, 38287981)"
  by (simp add: Sigma0_def Sigma1_def Ch_def Maj_def rotr_def)

lemma correct_rounds3: "foldl round256 (3450873781, 1803344690, 3569177710, 748608371, 207147226, 167912516, 944183581, 38287981) [
     (2554220882, 771523010), (2821834349, 751118082), (2952996808, 3315305966),
     (3210313671, 3928596620), (3336571891, 1413894978), (3584528711, 1575527224),
     (113926993, 4265731130), (338241895, 470042227)] = (1065568711, 2753759369, 1176032273, 1238963704, 1604009974, 802963930, 2571810807, 1009690990)"
  by (simp add: Sigma0_def Sigma1_def Ch_def Maj_def rotr_def)

lemma correct_rounds4: "foldl round256 (1065568711, 2753759369, 1176032273, 1238963704, 1604009974, 802963930, 2571810807, 1009690990) [
     (666307205, 3244697164), (773529912, 4233605608), (1294757372, 4107523751),
     (1396182291, 3796573835), (1695183700, 1735118370), (1986661051, 2845489994),
     (2177026350, 1424987979), (2456956037, 406381268)] = (4149976682, 2287845412, 4089902995, 2245079780, 853902442, 2993822655, 3425318104, 3284073188)"
  by (simp add: Sigma0_def Sigma1_def Ch_def Maj_def rotr_def)

lemma correct_rounds5: "foldl round256 (4149976682, 2287845412, 4089902995, 2245079780, 853902442, 2993822655, 3425318104, 3284073188) [
     (2730485921, 2880427096), (2820302411, 3037951628), (3259730800, 623293866),
     (3345764771, 1111542659), (3516065817, 3725787265), (3600352804, 1119065276),
     (4094571909, 3943063132), (275423344, 2294962577)] = (1034046736, 3683200159, 1989366265, 1355446791, 3148310660, 2429206146, 1151597170, 560159231)"
  by (simp add: Sigma0_def Sigma1_def Ch_def Maj_def rotr_def)

lemma correct_rounds6: "foldl round256 (1034046736, 3683200159, 1989366265, 1355446791, 3148310660, 2429206146, 1151597170, 560159231) [
     (430227734, 2103520407), (506948616, 774983625), (659060556, 3070867711),
     (883997877, 169841947), (958139571, 3290438242), (1322822218, 1186231883),
     (1537002063, 2139655935), (1747873779, 2630616516)] = (3354305030, 1127403354, 1494342094, 1918324157, 4120800798, 1407071685, 891220396, 3195165431)"
  by (simp add: Sigma0_def Sigma1_def Ch_def Maj_def rotr_def)

lemma correct_rounds7: "foldl round256 (3354305030, 1127403354, 1494342094, 1918324157, 4120800798, 1407071685, 891220396, 3195165431) [
     (1955562222, 51133359), (2024104815, 3961467168), (2227730452, 102053413),
     (2361852424, 1565426618), (2428436474, 4170916451), (2756734187, 2266716191),
     (3204031479, 562218857), (3329325298, 3178742667)] = (2879107196, 237277689, 3351797389, 2513570249, 127101822, 1492724735, 4120883087, 847058383)"
  by (simp add: Sigma0_def Sigma1_def Ch_def Maj_def rotr_def)

lemma correct_compress: "compress H256 [
     99, 111, 114, 114, 101, 99, 116, 128, 0, 0, 0, 0, 0, 0, 0, 0, 0, 0, 0, 0, 0, 0, 0, 0,
     0, 0, 0, 0, 0, 0, 0, 0, 0, 0, 0, 0, 0, 0, 0, 0, 0, 0, 0, 0, 0, 0, 0, 0, 0, 0, 0, 0, 0,
     0, 0, 0, 0, 0, 0, 0, 0, 0, 0, 56] = (363173603, 3381411966, 70734335, 992083715, 1486994941, 4093547659, 354650426, 2388517608)"
  by (simp only: compress_def correct_schedule correct_zip H256_def foldl8 foldl_Nil
      correct_rounds0 correct_rounds1 correct_rounds2 correct_rounds3 correct_rounds4 correct_rounds5 correct_rounds6 correct_rounds7)
    simp

lemma correct_sha256: "sha256 [
     99, 111, 114, 114, 101, 99, 116] = [
     21, 165, 150, 227, 201, 140, 64, 126, 4, 55, 81, 255, 59, 33, 255, 3, 88, 161, 189,
     253, 243, 254, 148, 139, 21, 35, 137, 58, 142, 93, 226, 232]"
  by (simp add: sha256_def correct_pad correct_compress bytes_of32_def)

lemma correct_digest: "hashPassword (js ''correct'') = js ''15a596e3c98c407e043751ff3b21ff0358a1bdfdf3fe948b1523893a8e5de2e8''"
  by (simp add: hashPassword_def correct_utf8 correct_sha256 hex2_def hexdigit_def js_def)

lemma wrong1_utf8: "utf8 (js ''wrong1'') = [
     119, 114, 111, 110, 103, 49]"
  by (simp add: js_def)

lemma wrong1_zeros: "replicate 49 (0::byte) = [
     0, 0, 0, 0, 0, 0, 0, 0, 0, 0, 0, 0, 0, 0, 0, 0, 0, 0, 0, 0, 0, 0, 0, 0, 0, 0, 0, 0, 0,
     0, 0, 0, 0, 0, 0, 0, 0, 0, 0, 0, 0, 0, 0, 0, 0, 0, 0, 0, 0]"
  by (simp add: numeral_eq_Suc)

lemma wrong1_pad: "pad [
     119, 114, 111, 110, 103, 49] = [
     119, 114, 111, 110, 103, 49, 128, 0, 0, 0, 0, 0, 0, 0, 0, 0, 0, 0, 0, 0, 0, 0, 0, 0,
     0, 0, 0, 0, 0, 0, 0, 0, 0, 0, 0, 0, 0, 0, 0, 0, 0, 0, 0, 0, 0, 0, 0, 0, 0, 0, 0, 0, 0,
     0, 0, 0, 0, 0, 0, 0, 0, 0, 0, 48]"
  by (simp add: pad_def bytes_of64_def upt_conv_Cons wrong1_zeros)

lemma wrong1_words: "words_of [
     119, 114, 111, 110, 103, 49, 128, 0, 0, 0, 0, 0, 0, 0, 0, 0, 0, 0, 0, 0, 0, 0, 0, 0,
     0, 0, 0, 0, 0, 0, 0, 0, 0, 0, 0, 0, 0, 0, 0, 0, 0, 0, 0, 0, 0, 0, 0, 0, 0, 0, 0, 0, 0,
     0, 0, 0, 0, 0, 0, 0, 0, 0, 0, 48] = [
     2003988334, 1731297280, 0, 0, 0, 0, 0, 0, 0, 0, 0, 0, 0, 0, 0, 48]"
  by (simp add: be32_def)

lemma wrong1_schedule0: "(scheduleStep ^^ 16) [
     2003988334, 1731297280, 0, 0, 0, 0, 0, 0, 0, 0, 0, 0, 0, 0, 0, 48] = [
     2003988334, 1731297280, 0, 0, 0, 0, 0, 0, 0, 0, 0, 0, 0, 0, 0, 48, 3818568250,
     1733263360, 174246672, 807005358, 1021877455, 3419330676, 1576092670, 2594228578,
     4041677078, 2283700550, 2679082071, 3448909691, 55947317, 2958245870, 1758051860,
     2957545223]"
  by (simp add: funpow16 scheduleStep_def sigma0_def sigma1_def rotr_def)

lemma wrong1_schedule1: "(scheduleStep ^^ 16) [
     2003988334, 1731297280, 0, 0, 0, 0, 0, 0, 0, 0, 0, 0, 0, 0, 0, 48, 3818568250,
     1733263360, 174246672, 807005358, 1021877455, 3419330676, 1576092670, 2594228578,
     4041677078, 2283700550, 2679082071, 3448909691, 55947317, 2958245870, 1758051860,
     2957545223] = [
     2003988334, 1731297280, 0, 0, 0, 0, 0, 0, 0, 0, 0, 0, 0, 0, 0, 48, 3818568250,
     1733263360, 174246672, 807005358, 1021877455, 3419330676, 1576092670, 2594228578,
     4041677078, 2283700550, 2679082071, 3448909691, 55947317, 2958245870, 1758051860,
     2957545223, 1085488485, 4041926353, 4065042773, 567650126, 3639355022, 1138333125,
     2316590461, 3377960930, 3276292211, 327734392, 1334055511, 496475452, 3610469062,
     3254011029, 1238909065, 742868809]"
  by (simp add: funpow16 scheduleStep_def sigma0_def sigma1_def rotr_def)

lemma wrong1_schedule2: "(scheduleStep ^^ 16) [
     2003988334, 1731297280, 0, 0, 0, 0, 0, 0, 0, 0, 0, 0, 0, 0, 0, 48, 3818568250,
     1733263360, 174246672, 807005358, 1021877455, 3419330676, 1576092670, 2594228578,
     4041677078, 2283700550, 2679082071, 3448909691, 55947317, 2958245870, 1758051860,
     2957545223, 1085488485, 4041926353, 4065042773, 567650126, 3639355022, 1138333125,
     2316590461, 3377960930, 3276292211, 327734392, 1334055511, 496475452, 3610469062,
     3254011029, 1238909065, 742868809] = [
     2003988334, 1731297280, 0, 0, 0, 0, 0, 0, 0, 0, 0, 0, 0, 0, 0, 48, 3818568250,
     1733263360, 174246672, 807005358, 1021877455, 3419330676, 1576092670, 2594228578,
     4041677078, 2283700550, 2679082071, 3448909691, 55947317, 2958245870, 1758051860,
     2957545223, 1085488485, 4041926353, 4065042773, 567650126, 3639355022, 1138333125,
     2316590461, 3377960930, 3276292211, 327734392, 1334055511, 496475452, 3610469062,
     3254011029, 1238909065, 742868809, 2160919249, 3920509852, 580950434, 3802167079,
     3797694890, 3221961975, 2339720887, 871177690, 2196665691, 125725813, 3272699949,
     1269011202, 1341803993, 350749299, 856423530, 2757028345]"
  by (simp add: funpow16 scheduleStep_def sigma0_def sigma1_def rotr_def)

lemma wrong1_schedule: "schedule [
     119, 114, 111, 110, 103, 49, 128, 0, 0, 0, 0, 0, 0, 0, 0, 0, 0, 0, 0, 0, 0, 0, 0, 0,
     0, 0, 0, 0, 0, 0, 0, 0, 0, 0, 0, 0, 0, 0, 0, 0, 0, 0, 0, 0, 0, 0, 0, 0, 0, 0, 0, 0, 0,
     0, 0, 0, 0, 0, 0, 0, 0, 0, 0, 48] = [
     2003988334, 1731297280, 0, 0, 0, 0, 0, 0, 0, 0, 0, 0, 0, 0, 0, 48, 3818568250,
     1733263360, 174246672, 807005358, 1021877455, 3419330676, 1576092670, 2594228578,
     4041677078, 2283700550, 2679082071, 3448909691, 55947317, 2958245870, 1758051860,
     2957545223, 1085488485, 4041926353, 4065042773, 567650126, 3639355022, 1138333125,
     2316590461, 3377960930, 3276292211, 327734392, 1334055511, 496475452, 3610469062,
     3254011029, 1238909065, 742868809, 2160919249, 3920509852, 580950434, 3802167079,
     3797694890, 3221961975, 2339720887, 871177690, 2196665691, 125725813, 3272699949,
     1269011202, 1341803993, 350749299, 856423530, 2757028345]"
  by (simp only: schedule_def funpow48 wrong1_words wrong1_schedule0 wrong1_schedule1 wrong1_schedule2)

lemma wrong1_zip: "zip K256 [
     2003988334, 1731297280, 0, 0, 0, 0, 0, 0, 0, 0, 0, 0, 0, 0, 0, 48, 3818568250,
     1733263360, 174246672, 807005358, 1021877455, 3419330676, 1576092670, 2594228578,
     4041677078, 2283700550, 2679082071, 3448909691, 55947317, 2958245870, 1758051860,
     2957545223, 1085488485, 4041926353, 4065042773, 567650126, 3639355022, 1138333125,
     2316590461, 3377960930, 3276292211, 327734392, 1334055511, 496475452, 3610469062,
     3254011029, 1238909065, 742868809, 2160919249, 3920509852, 580950434, 3802167079,
     3797694890, 3221961975, 2339720887, 871177690, 2196665691, 125725813, 3272699949,
     1269011202, 1341803993, 350749299, 856423530, 2757028345] = [
     (1116352408, 2003988334), (1899447441, 1731297280), (3049323471, 0), (3921009573, 0),
     (961987163, 0), (1508970993, 0), (2453635748, 0), (2870763221, 0), (3624381080, 0),
     (310598401, 0), (607225278, 0), (1426881987, 0), (1925078388, 0), (2162078206, 0),
     (2614888103, 0), (3248222580, 48), (3835390401, 3818568250), (4022224774, 1733263360),
     (264347078, 174246672), (604807628, 807005358), (770255983, 1021877455),
     (1249150122, 3419330676), (1555081692, 1576092670), (1996064986, 2594228578),
     (2554220882, 4041677078), (2821834349, 2283700550), (2952996808, 2679082071),
     (3210313671, 3448909691), (3336571891, 55947317), (3584528711, 2958245870),
     (113926993, 1758051860), (338241895, 2957545223), (666307205, 1085488485),
     (773529912, 4041926353), (1294757372, 4065042773), (1396182291, 567650126),
     (1695183700, 3639355022), (1986661051, 1138333125), (2177026350, 2316590461),
     (2456956037, 3377960930), (2730485921, 3276292211), (2820302411, 327734392),
     (3259730800, 1334055511), (3345764771, 496475452), (3516065817, 3610469062),
     (3600352804, 3254011029), (4094571909, 1238909065), (275423344, 742868809),
     (430227734, 2160919249), (506948616, 3920509852), (659060556, 580950434),
     (883997877, 3802167079), (958139571, 3797694890), (1322822218, 3221961975),
     (1537002063, 2339720887), (1747873779, 871177690), (1955562222, 2196665691),
     (2024104815, 125725813), (2227730452, 3272699949), (2361852424, 1269011202),
     (2428436474, 1341803993), (2756734187, 350749299), (3204031479, 856423530),
     (3329325298, 2757028345)]"
  by (simp add: K256_def)

lemma wrong1_rounds0: "foldl round256 (1779033703, 3144134277, 1013904242, 2773480762, 1359893119, 2600822924, 528734635, 1541459225) [
     (1116352408, 2003988334), (1899447441, 1731297280), (3049323471, 0), (3921009573, 0),
     (961987163, 0), (1508970993, 0), (2453635748, 0), (2870763221, 0)] = (4098366075, 791301351, 872599683, 2787527989, 4086531227, 1880694687, 2826690532, 300310777)"
  by (simp add: Sigma0_def Sigma1_def Ch_def Maj_def rotr_def)

lemma wrong1_rounds1: "foldl round256 (4098366075, 791301351, 872599683, 2787527989, 4086531227, 1880694687, 2826690532, 300310777) [
     (3624381080, 0), (310598401, 0), (607225278, 0), (1426881987, 0), (1925078388, 0),
     (2162078206, 0), (2614888103, 0), (3248222580, 48)] = (2501617907, 3087321402, 1245964958, 317356553, 2615153857, 323777097, 1233787883, 742021758)"
  by (simp add: Sigma0_def Sigma1_def Ch_def Maj_def rotr_def)

lemma wrong1_rounds2: "foldl round256 (2501617907, 3087321402, 1245964958, 317356553, 2615153857, 323777097, 1233787883, 742021758) [
     (3835390401, 3818568250), (4022224774, 1733263360), (264347078, 174246672),
     (604807628, 807005358), (770255983, 1021877455), (1249150122, 3419330676),
     (1555081692, 1576092670), (1996064986, 2594228578)] = (3143484318, 4003240658, 3893223287, 2311158944, 3797537585, 1523434891, 3714594993, 999184036)"
  by (simp add: Sigma0_def Sigma1_def Ch_def Maj_def rotr_def)

lemma wrong1_rounds3: "foldl round256 (3143484318, 4003240658, 3893223287, 2311158944, 3797537585, 1523434891, 3714594993, 999184036) [
     (2554220882, 4041677078), (2821834349, 2283700550), (2952996808, 2679082071),
     (3210313671, 3448909691), (3336571891, 55947317), (3584528711, 2958245870),
     (113926993, 1758051860), (338241895, 2957545223)] = (236891853, 1030353661, 3983111319, 193445759, 255220815, 3133775030, 23775353, 3205813048)"
  by (simp add: Sigma0_def Sigma1_def Ch_def Maj_def rotr_def)

lemma wrong1_rounds4: "foldl round256 (236891853, 1030353661, 3983111319, 193445759, 255220815, 3133775030, 23775353, 3205813048) [
     (666307205, 1085488485), (773529912, 4041926353), (1294757372, 4065042773),
     (1396182291, 567650126), (1695183700, 3639355022), (1986661051, 1138333125),
     (2177026350, 2316590461), (2456956037, 3377960930)] = (3041913427, 3826353145, 3497830042, 2789722547, 201260495, 1172467219, 1544498784, 167841966)"
  by (simp add: Sigma0_def Sigma1_def Ch_def Maj_def rotr_def)

lemma wrong1_rounds5: "foldl round256 (3041913427, 3826353145, 3497830042, 2789722547, 201260495, 1172467219, 1544498784, 167841966) [
     (2730485921, 3276292211), (2820302411, 327734392), (3259730800, 1334055511),
     (3345764771, 496475452), (3516065817, 3610469062), (3600352804, 3254011029),
     (4094571909, 1238909065), (275423344, 742868809)] = (1169299659, 2651466706, 3359170912, 3851776934, 1245958527, 2692468776, 1590381495, 3748015119)"
  by (simp add: Sigma0_def Sigma1_def Ch_def Maj_def rotr_def)

lemma wrong1_rounds6: "foldl round256 (1169299659, 2651466706, 3359170912, 3851776934, 1245958527, 2692468776, 1590381495, 3748015119) [
     (430227734, 2160919249), (506948616, 3920509852), (659060556, 580950434),
     (883997877, 3802167079), (958139571, 3797694890), (1322822218, 3221961975),
     (1537002063, 2339720887), (1747873779, 871177690)] = (1831591230, 4240265569, 808019561, 2323328372, 610981144, 836763288, 4218741849, 366526182)"
  by (simp add: Sigma0_def Sigma1_def Ch_def Maj_def rotr_def)

lemma wrong1_rounds7: "foldl round256 (1831591230, 4240265569, 808019561, 2323328372, 610981144, 836763288, 4218741849, 366526182) [
     (1955562222, 2196665691), (2024104815, 125725813), (2227730452, 3272699949),
     (2361852424, 1269011202), (2428436474, 1341803993), (2756734187, 350749299),
     (3204031479, 856423530), (3329325298, 2757028345)] = (167004377, 3183459075, 1154426700, 3408185789, 2107402071, 50503489, 87608218, 2324353997)"
  by (simp add: Sigma0_def Sigma1_def Ch_def Maj_def rotr_def)

lemma wrong1_compress: "compress H256 [
     119, 114, 111, 110, 103, 49, 128, 0, 0, 0, 0, 0, 0, 0, 0, 0, 0, 0, 0, 0, 0, 0, 0, 0,
     0, 0, 0, 0, 0, 0, 0, 0, 0, 0, 0, 0, 0, 0, 0, 0, 0, 0, 0, 0, 0, 0, 0, 0, 0, 0, 0, 0, 0,
     0, 0, 0, 0, 0, 0, 0, 0, 0, 0, 48] = (1946038080, 2032626056, 2168330942, 1886699255, 3467295190, 2651326413, 616342853, 3865813222)"
  by (simp only: compress_def wrong1_schedule wrong1_zip H256_def foldl8 foldl_Nil
      wrong1_rounds0 wrong1_rounds1 wrong1_rounds2 wrong1_rounds3 wrong1_rounds4 wrong1_rounds5 wrong1_rounds6 wrong1_rounds7)
    simp

lemma wrong1_sha256: "sha256 [
     119, 114, 111, 110, 103, 49] = [
     115, 254, 47, 64, 121, 39, 105, 136, 129, 62, 26, 190, 112, 116, 190, 247, 206, 170,
     185, 214, 158, 8, 7, 205, 36, 188, 165, 69, 230, 107, 160, 230]"
  by (simp add: sha256_def wrong1_pad wrong1_compress bytes_of32_def)

lemma wrong1_digest: "hashPassword (js ''wrong1'') = js ''73fe2f4079276988813e1abe7074bef7ceaab9d69e0807cd24bca545e66ba0e6''"
  by (simp add: hashPassword_def wrong1_utf8 wrong1_sha256 hex2_def hexdigit_def js_def)

section \<open>Sessions\<close>

lemma isSessionValid_stored:
  assumes "adminAuth st = Some tok" "tok \<noteq> []" "adminAuthTime st = Some (toString T)"
  shows "isSessionValid now st =
           (if now - T > SESSION_DURATION then (False, clearSession st) else (True, st))"
  using assms
  by (simp add: isSessionValid_def falsy_def toString_nonempty parseInt_toString clearSession_def)

lemma isSessionValid_absent:
  "falsy (adminAuth st) \<or> falsy (adminAuthTime st) \<Longrightarrow> isSessionValid now st = (False, st)"
  by (simp add: isSessionValid_def)

lemma isSessionValid_false_stable:
  assumes "isSessionValid t st = (False, st')"
  shows "isSessionValid t' st' = (False, st')"
proof (cases "falsy (adminAuth st) \<or> falsy (adminAuthTime st)")
  case True
  with assms show ?thesis by (auto simp: isSessionValid_def)
next
  case False
  with assms have "st' = st\<lparr>adminAuth := None, adminAuthTime := None\<rparr>"
    by (auto simp: isSessionValid_def split: option.splits if_splits)
  then show ?thesis by (simp add: isSessionValid_def falsy_def)
qed

text \<open>
  C7. In every state, \<open>clearSession()\<close> followed by \<open>isSessionValid()\<close> returns false.
  Expiry is idempotent: once \<open>isSessionValid()\<close> has returned false (in particular after
  it deleted an expired session), a second call at any time returns false again and
  leaves the storage as it is.
\<close>

theorem clearSession_then_invalid:
  "fst (isSessionValid now (clearSession st)) = False
   \<and> (isSessionValid t st = (False, st') \<longrightarrow> isSessionValid t' st' = (False, st'))"
proof (intro conjI impI)
  show "fst (isSessionValid now (clearSession st)) = False"
    by (simp add: isSessionValid_def clearSession_def falsy_def)
next
  assume "isSessionValid t st = (False, st')"
  then show "isSessionValid t' st' = (False, st')"
    by (rule isSessionValid_false_stable)
qed

theorem clearSession_then_invalid_witness:
  "isSessionValid 1801001 \<lparr>adminAuth = Some (js ''7f''), adminAuthTime = Some (toString 1000),
       loginAttempts = None\<rparr>
     = (False, \<lparr>adminAuth = None, adminAuthTime = None, loginAttempts = None\<rparr>)
   \<and> isSessionValid 1801002 \<lparr>adminAuth = None, adminAuthTime = None, loginAttempts = None\<rparr>
     = (False, \<lparr>adminAuth = None, adminAuthTime = None, loginAttempts = None\<rparr>)"
proof -
  let ?st = "\<lparr>adminAuth = Some (js ''7f''), adminAuthTime = Some (toString 1000),
       loginAttempts = None\<rparr>"
  let ?st' = "\<lparr>adminAuth = None, adminAuthTime = None, loginAttempts = (None :: LoginAttempt option)\<rparr>"
  have first: "isSessionValid 1801001 ?st = (False, ?st')"
    by (simp add: isSessionValid_stored [where tok = "js ''7f''" and T = 1000]
        SESSION_DURATION_value clearSession_def js_def)
  from clearSession_then_invalid [where t = 1801001 and st = ?st and st' = ?st' and t' = 1801002] first
  show ?thesis by simp
qed

text \<open>
  C3 (as the claim states it, refuted). The claim counts a session whose age is exactly
  30 minutes as expired. The code tests \<open>elapsed > SESSION_DURATION\<close>: a session issued
  at 1000 and checked at 1801000 is exactly 30 minutes old, and is still valid and kept.
\<close>

theorem isSessionValid_boundary_counterexample:
  "(1801000::int) - 1000 \<ge> SESSION_DURATION
   \<and> isSessionValid 1801000 \<lparr>adminAuth = Some (js ''7f''), adminAuthTime = Some (js ''1000''),
         loginAttempts = None\<rparr>
       = (True, \<lparr>adminAuth = Some (js ''7f''), adminAuthTime = Some (js ''1000''),
         loginAttempts = None\<rparr>)"
  by (simp add: isSessionValid_def SESSION_DURATION_def falsy_def js_def parseInt_def
      isWhiteSpace_def isDigit_def digitsValue_def)

text \<open>
  C3 (amended). \<open>isSessionValid()\<close> returns false and changes nothing when the token
  or the timestamp is absent (or empty). For a stored session issued at \<open>T\<close>: when
  \<open>now - T\<close> is strictly more than 30 minutes it deletes both entries and returns
  false, otherwise it returns true and changes nothing. So the session is valid at
  \<open>T + 29m59s\<close> and at exactly \<open>T + 30m\<close>, and invalid at \<open>T + 30m01s\<close>.
\<close>

theorem isSessionValid_cases:
  "(falsy (adminAuth st) \<or> falsy (adminAuthTime st) \<longrightarrow> isSessionValid now st = (False, st))
   \<and> (adminAuth st = Some tok \<and> tok \<noteq> [] \<and> adminAuthTime st = Some (toString T) \<longrightarrow>
        isSessionValid now st =
          (if now - T > 30 * 60 * 1000
           then (False, st\<lparr>adminAuth := None, adminAuthTime := None\<rparr>) else (True, st))
        \<and> fst (isSessionValid (T + (29 * 60 + 59) * 1000) st)
        \<and> fst (isSessionValid (T + 30 * 60 * 1000) st)
        \<and> \<not> fst (isSessionValid (T + (30 * 60 + 1) * 1000) st))"
proof (intro conjI impI)
  assume "falsy (adminAuth st) \<or> falsy (adminAuthTime st)"
  then show "isSessionValid now st = (False, st)" by (rule isSessionValid_absent)
next
  assume a: "adminAuth st = Some tok \<and> tok \<noteq> [] \<and> adminAuthTime st = Some (toString T)"
  then have v: "isSessionValid t st =
      (if t - T > SESSION_DURATION then (False, clearSession st) else (True, st))" for t
    using isSessionValid_stored [of st tok T t] by simp
  show "isSessionValid now st =
          (if now - T > 30 * 60 * 1000
           then (False, st\<lparr>adminAuth := None, adminAuthTime := None\<rparr>) else (True, st))"
    by (simp add: v SESSION_DURATION_def clearSession_def)
  show "fst (isSessionValid (T + (29 * 60 + 59) * 1000) st)"
    by (simp add: v SESSION_DURATION_def)
  show "fst (isSessionValid (T + 30 * 60 * 1000) st)"
    by (simp add: v SESSION_DURATION_def)
  show "\<not> fst (isSessionValid (T + (30 * 60 + 1) * 1000) st)"
    by (simp add: v SESSION_DURATION_def)
qed

theorem isSessionValid_cases_witness:
  "isSessionValid 42 emptyStorage = (False, emptyStorage)
   \<and> fst (isSessionValid 1800000 \<lparr>adminAuth = Some (js ''7f''), adminAuthTime = Some (toString 1000),
         loginAttempts = None\<rparr>)
   \<and> fst (isSessionValid 1801000 \<lparr>adminAuth = Some (js ''7f''), adminAuthTime = Some (toString 1000),
         loginAttempts = None\<rparr>)
   \<and> \<not> fst (isSessionValid 1802000 \<lparr>adminAuth = Some (js ''7f''), adminAuthTime = Some (toString 1000),
         loginAttempts = None\<rparr>)"
proof -
  let ?st = "\<lparr>adminAuth = Some (js ''7f''), adminAuthTime = Some (toString 1000),
         loginAttempts = None\<rparr>"
  have "falsy (adminAuth emptyStorage) \<or> falsy (adminAuthTime emptyStorage)"
    by (simp add: emptyStorage_def falsy_def)
  with isSessionValid_cases [of emptyStorage 42]
  have 1: "isSessionValid 42 emptyStorage = (False, emptyStorage)" by blast
  have "adminAuth ?st = Some (js ''7f'') \<and> js ''7f'' \<noteq> [] \<and> adminAuthTime ?st = Some (toString 1000)"
    by (simp add: js_def)
  with isSessionValid_cases [of ?st 0 "js ''7f''" 1000]
  have "fst (isSessionValid (1000 + (29 * 60 + 59) * 1000) ?st)
        \<and> fst (isSessionValid (1000 + 30 * 60 * 1000) ?st)
        \<and> \<not> fst (isSessionValid (1000 + (30 * 60 + 1) * 1000) ?st)" by blast
  with 1 show ?thesis by simp
qed

section \<open>Lockout\<close>

lemma isLockedOut_locked:
  "lockoutUntil (getLoginAttempts st) = Some l \<Longrightarrow> l \<noteq> 0 \<Longrightarrow> now < l \<Longrightarrow>
   isLockedOut now st = (True, st)"
  by (simp add: isLockedOut_def)

lemma isLockedOut_expired:
  "lockoutUntil (getLoginAttempts st) = Some l \<Longrightarrow> l \<noteq> 0 \<Longrightarrow> l \<le> now \<Longrightarrow>
   isLockedOut now st = (False, clearLoginAttempts st)"
  by (simp add: isLockedOut_def)

lemma isLockedOut_unset:
  "\<not> truthy (lockoutUntil (getLoginAttempts st)) \<Longrightarrow> isLockedOut now st = (False, st)"
  by (simp add: isLockedOut_def truthy_def split: option.splits)

lemma getLoginAttempts_cleared:
  "getLoginAttempts (clearLoginAttempts st) = \<lparr>count = 0, lockoutUntil = None\<rparr>"
  by (simp add: getLoginAttempts_def clearLoginAttempts_def)

lemma ceilDiv_pos: "0 < a \<Longrightarrow> 0 < b \<Longrightarrow> 0 < ceilDiv a b"
  by (simp add: ceilDiv_def div_neg_pos_less0)

lemma ceilDiv_nonpos: "a \<le> 0 \<Longrightarrow> 0 < b \<Longrightarrow> ceilDiv a b \<le> 0"
  by (simp add: ceilDiv_def pos_imp_zdiv_nonneg_iff)

lemma getLockoutRemaining_eq:
  "getLockoutRemaining now st =
     (case lockoutUntil (getLoginAttempts st) of
        None \<Rightarrow> 0
      | Some l \<Rightarrow> if l \<noteq> 0 \<and> now < l then ceilDiv (l - now) 1000 else 0)"
  using ceilDiv_pos [of "the (lockoutUntil (getLoginAttempts st)) - now" 1000]
    ceilDiv_nonpos [of "the (lockoutUntil (getLoginAttempts st)) - now" 1000]
  by (auto simp: getLockoutRemaining_def split: option.splits)

text \<open>
  C6. \<open>isLockedOut()\<close> returns true exactly when \<open>lockoutUntil\<close> is set (the code's
  test: neither \<open>null\<close> nor 0) and strictly in the future. When it is set and has passed
  (\<open>lockoutUntil \<le> now\<close>) the call removes the attempt counter and returns false.
  \<open>getLockoutRemaining()\<close> returns \<open>ceil((lockoutUntil - now) / 1000)\<close> when
  \<open>lockoutUntil\<close> is set and in the future and 0 otherwise; at \<open>now = lockoutUntil\<close> it
  returns 0 and \<open>isLockedOut()\<close> returns false.
\<close>

theorem lockout_cases:
  "fst (isLockedOut now st) =
     (case lockoutUntil (getLoginAttempts st) of None \<Rightarrow> False | Some l \<Rightarrow> l \<noteq> 0 \<and> now < l)
   \<and> (lockoutUntil (getLoginAttempts st) = Some l \<and> l \<noteq> 0 \<and> l \<le> now \<longrightarrow>
        isLockedOut now st = (False, clearLoginAttempts st)
        \<and> getLoginAttempts (snd (isLockedOut now st)) = \<lparr>count = 0, lockoutUntil = None\<rparr>)
   \<and> getLockoutRemaining now st =
       (case lockoutUntil (getLoginAttempts st) of
          None \<Rightarrow> 0
        | Some l \<Rightarrow> if l \<noteq> 0 \<and> now < l then \<lceil>real_of_int (l - now) / 1000\<rceil> else 0)
   \<and> (lockoutUntil (getLoginAttempts st) = Some now \<longrightarrow>
        getLockoutRemaining now st = 0 \<and> \<not> fst (isLockedOut now st))"
proof (intro conjI impI)
  show "fst (isLockedOut now st) =
     (case lockoutUntil (getLoginAttempts st) of None \<Rightarrow> False | Some l \<Rightarrow> l \<noteq> 0 \<and> now < l)"
    by (simp add: isLockedOut_def split: option.splits)
next
  assume a: "lockoutUntil (getLoginAttempts st) = Some l \<and> l \<noteq> 0 \<and> l \<le> now"
  then show e: "isLockedOut now st = (False, clearLoginAttempts st)"
    by (simp add: isLockedOut_expired)
  show "getLoginAttempts (snd (isLockedOut now st)) = \<lparr>count = 0, lockoutUntil = None\<rparr>"
    by (simp add: e getLoginAttempts_cleared)
next
  have "ceilDiv a 1000 = \<lceil>real_of_int a / 1000\<rceil>" for a
    using ceilDiv_ceiling [of 1000 a] by simp
  then show "getLockoutRemaining now st =
       (case lockoutUntil (getLoginAttempts st) of
          None \<Rightarrow> 0
        | Some l \<Rightarrow> if l \<noteq> 0 \<and> now < l then \<lceil>real_of_int (l - now) / 1000\<rceil> else 0)"
    by (simp add: getLockoutRemaining_eq split: option.splits)
next
  assume "lockoutUntil (getLoginAttempts st) = Some now"
  then show "getLockoutRemaining now st = 0" by (simp add: getLockoutRemaining_eq)
next
  assume "lockoutUntil (getLoginAttempts st) = Some now"
  then show "\<not> fst (isLockedOut now st)" by (simp add: isLockedOut_def)
qed

theorem lockout_cases_witness:
  "fst (isLockedOut 1500 \<lparr>adminAuth = None, adminAuthTime = None,
          loginAttempts = Some \<lparr>count = 5, lockoutUntil = Some 901000\<rparr>\<rparr>)
   \<and> getLockoutRemaining 1500 \<lparr>adminAuth = None, adminAuthTime = None,
          loginAttempts = Some \<lparr>count = 5, lockoutUntil = Some 901000\<rparr>\<rparr> = 900
   \<and> isLockedOut 901000 \<lparr>adminAuth = None, adminAuthTime = None,
          loginAttempts = Some \<lparr>count = 5, lockoutUntil = Some 901000\<rparr>\<rparr>
       = (False, \<lparr>adminAuth = None, adminAuthTime = None, loginAttempts = None\<rparr>)
   \<and> getLockoutRemaining 901000 \<lparr>adminAuth = None, adminAuthTime = None,
          loginAttempts = Some \<lparr>count = 5, lockoutUntil = Some 901000\<rparr>\<rparr> = 0"
proof -
  let ?st = "\<lparr>adminAuth = None, adminAuthTime = None,
          loginAttempts = Some \<lparr>count = 5, lockoutUntil = Some 901000\<rparr>\<rparr>"
  have l: "lockoutUntil (getLoginAttempts ?st) = Some 901000"
    by (simp add: getLoginAttempts_def)
  have c: "\<lceil>real_of_int (901000 - 1500) / 1000\<rceil> = 900"
    by (simp add: ceiling_eq_iff)
  from lockout_cases [of 1500 ?st 901000] l c
  have 1: "fst (isLockedOut 1500 ?st) \<and> getLockoutRemaining 1500 ?st = 900"
    by simp
  have n: "(901000::int) \<noteq> 0 \<and> (901000::int) \<le> 901000" by simp
  from lockout_cases [of 901000 ?st 901000] l n
  have 2: "isLockedOut 901000 ?st = (False, clearLoginAttempts ?st)
     \<and> getLockoutRemaining 901000 ?st = 0"
    by blast
  from 1 2 show ?thesis by (simp add: clearLoginAttempts_def)
qed

section \<open>Authentication\<close>

lemma wrong1_rejected:
  "\<not> verifyPassword (js ''wrong1'')
       (js ''15a596e3c98c407e043751ff3b21ff0358a1bdfdf3fe948b1523893a8e5de2e8'')"
  by (simp add: verifyPassword_def wrong1_digest) (simp add: js_def)

lemma correct_accepted:
  "verifyPassword (js ''correct'')
     (js ''15a596e3c98c407e043751ff3b21ff0358a1bdfdf3fe948b1523893a8e5de2e8'')"
  by (simp add: verifyPassword_def correct_digest) (simp add: js_def)

lemma isLockedOut_session:
  "adminAuth (snd (isLockedOut now st)) = adminAuth st
   \<and> adminAuthTime (snd (isLockedOut now st)) = adminAuthTime st"
  by (simp add: isLockedOut_def clearLoginAttempts_def split: option.splits)

lemma isLockedOut_open:
  assumes "\<not> fst (isLockedOut now st)"
  shows "\<not> truthy (lockoutUntil (getLoginAttempts (snd (isLockedOut now st))))"
  using assms
  by (auto simp: isLockedOut_def truthy_def getLoginAttempts_cleared split: option.splits if_splits)

lemma authenticate_locked:
  assumes "lockoutUntil (getLoginAttempts st) = Some l" "l \<noteq> 0" "now < l"
  shows "authenticate password h rnd now st =
     (\<lparr>success = False,
       error = Some (js ''Account locked. Try again in ''
                     @ toString (ceilDiv (ceilDiv (l - now) 1000) 60) @ js '' minutes.''),
       lockoutRemaining = Some (ceilDiv (l - now) 1000)\<rparr>, st)"
  using assms by (simp add: authenticate_def isLockedOut_locked getLockoutRemaining_eq Let_def)

lemma authenticate_accept:
  assumes "\<not> fst (isLockedOut now st)" "verifyPassword password h"
  shows "authenticate password h rnd now st =
     (\<lparr>success = True, error = None, lockoutRemaining = None\<rparr>,
      (snd (isLockedOut now st))\<lparr>loginAttempts := None,
         adminAuth := Some (generateSessionToken rnd), adminAuthTime := Some (toString now)\<rparr>)"
  using assms
  by (cases "isLockedOut now st") (simp add: authenticate_def clearLoginAttempts_def)

lemma authenticate_reject:
  assumes "\<not> fst (isLockedOut now st)" "\<not> verifyPassword password h"
    and "getLoginAttempts (snd (isLockedOut now st)) = a"
  shows "snd (authenticate password h rnd now st) =
           (snd (isLockedOut now st))\<lparr>loginAttempts := Some
              (if count a + 1 \<ge> 5 then a\<lparr>count := count a + 1, lockoutUntil := Some (now + 900000)\<rparr>
               else a\<lparr>count := count a + 1\<rparr>)\<rparr>"
    and "\<not> success (fst (authenticate password h rnd now st))"
  using assms
  by (cases "isLockedOut now st";
      simp add: authenticate_def recordFailedAttempt_def Let_def MAX_LOGIN_ATTEMPTS_def
        LOCKOUT_DURATION_def)+

lemma authenticate_reject_result:
  assumes "\<not> fst (isLockedOut now st)" "\<not> verifyPassword password h" "0 \<le> now"
    and "c = count (getLoginAttempts (snd (isLockedOut now st)))"
  shows "fst (authenticate password h rnd now st) =
     (if c + 1 \<ge> 5
      then \<lparr>success = False,
             error = Some (js ''Too many failed attempts. Account locked for 15 minutes.''),
             lockoutRemaining = Some 900\<rparr>
      else \<lparr>success = False,
             error = Some (js ''Incorrect password. '' @ toString (5 - (c + 1)) @ js '' attempt''
                           @ (if 5 - (c + 1) \<noteq> 1 then js ''s'' else []) @ js '' remaining.''),
             lockoutRemaining = None\<rparr>)"
proof -
  obtain st1 where l: "isLockedOut now st = (False, st1)"
    using assms(1) by (cases "isLockedOut now st") auto
  have u: "\<not> truthy (lockoutUntil (getLoginAttempts st1))"
    using isLockedOut_open [OF assms(1)] l by simp
  have m: "js ''Too many failed attempts. Account locked for '' @ toString 15 @ js '' minutes.''
      = js ''Too many failed attempts. Account locked for 15 minutes.''"
    by (simp add: js_def toString_def decimal.simps digit_def)
  show ?thesis
  proof (cases "c + 1 \<ge> 5")
    case True
    with assms l m show ?thesis
      by (simp add: authenticate_def recordFailedAttempt_def Let_def MAX_LOGIN_ATTEMPTS_def
          LOCKOUT_DURATION_def truthy_def getLockoutRemaining_def getLoginAttempts_def ceilDiv_def)
  next
    case False
    with assms l u show ?thesis
      by (simp add: authenticate_def recordFailedAttempt_def Let_def MAX_LOGIN_ATTEMPTS_def)
  qed
qed

text \<open>
  C5. Outside lockout, a password that does not verify against the stored hash adds
  exactly one to the attempt count (the count the lockout check leaves: the stored count,
  or 0 when that check has just cleared an expired lockout). When the new count reaches 5
  the call sets \<open>lockoutUntil = now + 15 minutes\<close> and fails with the lockout message and
  900 remaining seconds; otherwise it fails with the message that states \<open>5 - count\<close>
  remaining attempts. The clock is at or after the epoch (\<open>0 \<le> now\<close>).
\<close>

theorem authenticate_mismatch:
  "\<not> fst (isLockedOut now st) \<and> \<not> verifyPassword password storedHash \<and> 0 \<le> now \<longrightarrow>
     (let c = count (getLoginAttempts (snd (isLockedOut now st)));
          r = fst (authenticate password storedHash rnd now st);
          st' = snd (authenticate password storedHash rnd now st)
      in (\<not> truthy (lockoutUntil (getLoginAttempts st)) \<longrightarrow> c = count (getLoginAttempts st))
         \<and> count (getLoginAttempts st') = c + 1
         \<and> (c + 1 \<ge> MAX_LOGIN_ATTEMPTS \<longrightarrow>
               lockoutUntil (getLoginAttempts st') = Some (now + 15 * 60 * 1000)
               \<and> r = \<lparr>success = False,
                       error = Some (js ''Too many failed attempts. Account locked for 15 minutes.''),
                       lockoutRemaining = Some 900\<rparr>)
         \<and> (c + 1 < MAX_LOGIN_ATTEMPTS \<longrightarrow>
               lockoutUntil (getLoginAttempts st') = lockoutUntil (getLoginAttempts (snd (isLockedOut now st)))
               \<and> r = \<lparr>success = False,
                       error = Some (js ''Incorrect password. '' @ toString (MAX_LOGIN_ATTEMPTS - (c + 1))
                                     @ js '' attempt''
                                     @ (if MAX_LOGIN_ATTEMPTS - (c + 1) \<noteq> 1 then js ''s'' else [])
                                     @ js '' remaining.''),
                       lockoutRemaining = None\<rparr>))"
proof (intro impI)
  assume a: "\<not> fst (isLockedOut now st) \<and> \<not> verifyPassword password storedHash \<and> 0 \<le> now"
  define st1 where "st1 = snd (isLockedOut now st)"
  define a1 where "a1 = getLoginAttempts st1"
  have s: "snd (authenticate password storedHash rnd now st) =
           st1\<lparr>loginAttempts := Some
              (if count a1 + 1 \<ge> 5 then a1\<lparr>count := count a1 + 1, lockoutUntil := Some (now + 900000)\<rparr>
               else a1\<lparr>count := count a1 + 1\<rparr>)\<rparr>"
    using a authenticate_reject(1) [of now st password storedHash a1 rnd]
    by (simp add: st1_def a1_def)
  have r: "fst (authenticate password storedHash rnd now st) =
     (if count a1 + 1 \<ge> 5
      then \<lparr>success = False,
             error = Some (js ''Too many failed attempts. Account locked for 15 minutes.''),
             lockoutRemaining = Some 900\<rparr>
      else \<lparr>success = False,
             error = Some (js ''Incorrect password. '' @ toString (5 - (count a1 + 1)) @ js '' attempt''
                           @ (if 5 - (count a1 + 1) \<noteq> 1 then js ''s'' else []) @ js '' remaining.''),
             lockoutRemaining = None\<rparr>)"
    using a authenticate_reject_result [of now st password storedHash "count a1" rnd]
    by (simp add: st1_def a1_def)
  have u: "\<not> truthy (lockoutUntil (getLoginAttempts st)) \<longrightarrow> st1 = st"
    by (simp add: st1_def isLockedOut_unset)
  show "let c = count (getLoginAttempts (snd (isLockedOut now st)));
          r = fst (authenticate password storedHash rnd now st);
          st' = snd (authenticate password storedHash rnd now st)
      in (\<not> truthy (lockoutUntil (getLoginAttempts st)) \<longrightarrow> c = count (getLoginAttempts st))
         \<and> count (getLoginAttempts st') = c + 1
         \<and> (c + 1 \<ge> MAX_LOGIN_ATTEMPTS \<longrightarrow>
               lockoutUntil (getLoginAttempts st') = Some (now + 15 * 60 * 1000)
               \<and> r = \<lparr>success = False,
                       error = Some (js ''Too many failed attempts. Account locked for 15 minutes.''),
                       lockoutRemaining = Some 900\<rparr>)
         \<and> (c + 1 < MAX_LOGIN_ATTEMPTS \<longrightarrow>
               lockoutUntil (getLoginAttempts st') = lockoutUntil (getLoginAttempts (snd (isLockedOut now st)))
               \<and> r = \<lparr>success = False,
                       error = Some (js ''Incorrect password. '' @ toString (MAX_LOGIN_ATTEMPTS - (c + 1))
                                     @ js '' attempt''
                                     @ (if MAX_LOGIN_ATTEMPTS - (c + 1) \<noteq> 1 then js ''s'' else [])
                                     @ js '' remaining.''),
                       lockoutRemaining = None\<rparr>)"
    unfolding Let_def st1_def [symmetric] a1_def [symmetric] s r
    using u by (auto simp: MAX_LOGIN_ATTEMPTS_def a1_def getLoginAttempts_def)
qed

theorem authenticate_mismatch_witness:
  "fst (authenticate (js ''wrong1'')
          (js ''15a596e3c98c407e043751ff3b21ff0358a1bdfdf3fe948b1523893a8e5de2e8'') (\<lambda>i. 0) 1000
          emptyStorage)
     = \<lparr>success = False, error = Some (js ''Incorrect password. 4 attempts remaining.''),
        lockoutRemaining = None\<rparr>
   \<and> count (getLoginAttempts (snd (authenticate (js ''wrong1'')
          (js ''15a596e3c98c407e043751ff3b21ff0358a1bdfdf3fe948b1523893a8e5de2e8'') (\<lambda>i. 0) 1000
          emptyStorage))) = 1
   \<and> fst (authenticate (js ''wrong1'')
          (js ''15a596e3c98c407e043751ff3b21ff0358a1bdfdf3fe948b1523893a8e5de2e8'') (\<lambda>i. 0) 1000
          \<lparr>adminAuth = None, adminAuthTime = None,
           loginAttempts = Some \<lparr>count = 3, lockoutUntil = None\<rparr>\<rparr>)
     = \<lparr>success = False, error = Some (js ''Incorrect password. 1 attempt remaining.''),
        lockoutRemaining = None\<rparr>
   \<and> fst (authenticate (js ''wrong1'')
          (js ''15a596e3c98c407e043751ff3b21ff0358a1bdfdf3fe948b1523893a8e5de2e8'') (\<lambda>i. 0) 1000
          \<lparr>adminAuth = None, adminAuthTime = None,
           loginAttempts = Some \<lparr>count = 4, lockoutUntil = None\<rparr>\<rparr>)
     = \<lparr>success = False,
        error = Some (js ''Too many failed attempts. Account locked for 15 minutes.''),
        lockoutRemaining = Some 900\<rparr>
   \<and> getLoginAttempts (snd (authenticate (js ''wrong1'')
          (js ''15a596e3c98c407e043751ff3b21ff0358a1bdfdf3fe948b1523893a8e5de2e8'') (\<lambda>i. 0) 1000
          \<lparr>adminAuth = None, adminAuthTime = None,
           loginAttempts = Some \<lparr>count = 4, lockoutUntil = None\<rparr>\<rparr>))
     = \<lparr>count = 5, lockoutUntil = Some 901000\<rparr>"
proof -
  let ?H = "js ''15a596e3c98c407e043751ff3b21ff0358a1bdfdf3fe948b1523893a8e5de2e8''"
  let ?s3 = "\<lparr>adminAuth = None, adminAuthTime = None,
           loginAttempts = Some \<lparr>count = 3, lockoutUntil = None\<rparr>\<rparr>"
  let ?s4 = "\<lparr>adminAuth = None, adminAuthTime = None,
           loginAttempts = Some \<lparr>count = 4, lockoutUntil = None\<rparr>\<rparr>"
  have open0: "isLockedOut 1000 emptyStorage = (False, emptyStorage)"
    by (simp add: isLockedOut_def getLoginAttempts_def emptyStorage_def)
  have open3: "isLockedOut 1000 ?s3 = (False, ?s3)"
    by (simp add: isLockedOut_def getLoginAttempts_def)
  have open4: "isLockedOut 1000 ?s4 = (False, ?s4)"
    by (simp add: isLockedOut_def getLoginAttempts_def)
  have m4: "js ''Incorrect password. '' @ toString 4 @ js '' attempt'' @ js ''s'' @ js '' remaining.''
      = js ''Incorrect password. 4 attempts remaining.''"
    by (simp add: js_def toString_def decimal.simps digit_def)
  have m1: "js ''Incorrect password. '' @ toString 1 @ js '' attempt'' @ js '' remaining.''
      = js ''Incorrect password. 1 attempt remaining.''"
    by (simp add: js_def toString_def decimal.simps digit_def)
  have a: "fst (authenticate (js ''wrong1'') ?H (\<lambda>i. 0) 1000 emptyStorage)
     = \<lparr>success = False, error = Some (js ''Incorrect password. 4 attempts remaining.''),
        lockoutRemaining = None\<rparr>
     \<and> count (getLoginAttempts (snd (authenticate (js ''wrong1'') ?H (\<lambda>i. 0) 1000
          emptyStorage))) = 1"
    using authenticate_mismatch [of 1000 emptyStorage "js ''wrong1''" ?H "\<lambda>i. 0"]
      wrong1_rejected open0 m4
    by (simp add: Let_def MAX_LOGIN_ATTEMPTS_def getLoginAttempts_def emptyStorage_def)
  have b: "fst (authenticate (js ''wrong1'') ?H (\<lambda>i. 0) 1000 ?s3)
     = \<lparr>success = False, error = Some (js ''Incorrect password. 1 attempt remaining.''),
        lockoutRemaining = None\<rparr>"
    using authenticate_mismatch [of 1000 ?s3 "js ''wrong1''" ?H "\<lambda>i. 0"]
      wrong1_rejected open3 m1
    by (simp add: Let_def MAX_LOGIN_ATTEMPTS_def getLoginAttempts_def)
  have c: "fst (authenticate (js ''wrong1'') ?H (\<lambda>i. 0) 1000 ?s4)
     = \<lparr>success = False,
        error = Some (js ''Too many failed attempts. Account locked for 15 minutes.''),
        lockoutRemaining = Some 900\<rparr>
     \<and> count (getLoginAttempts (snd (authenticate (js ''wrong1'') ?H (\<lambda>i. 0) 1000 ?s4))) = 5
     \<and> lockoutUntil (getLoginAttempts (snd (authenticate (js ''wrong1'') ?H (\<lambda>i. 0) 1000 ?s4)))
         = Some 901000"
    using authenticate_mismatch [of 1000 ?s4 "js ''wrong1''" ?H "\<lambda>i. 0"]
      wrong1_rejected open4
    by (simp add: Let_def MAX_LOGIN_ATTEMPTS_def getLoginAttempts_def)
  from c have c': "getLoginAttempts (snd (authenticate (js ''wrong1'') ?H (\<lambda>i. 0) 1000 ?s4))
     = \<lparr>count = 5, lockoutUntil = Some 901000\<rparr>"
    by (cases "getLoginAttempts (snd (authenticate (js ''wrong1'') ?H (\<lambda>i. 0) 1000 ?s4))") simp
  from a b c c' show ?thesis by blast
qed

lemma run_append: "run (xs @ ys) st = run ys (run xs st)"
  by (induction xs arbitrary: st) auto

lemma reject_step:
  assumes "getLoginAttempts st = \<lparr>count = c, lockoutUntil = None\<rparr>"
    and "\<not> verifyPassword w h"
  shows "getLoginAttempts (snd (authenticate w h rnd t st)) =
           (if c + 1 \<ge> 5 then \<lparr>count = c + 1, lockoutUntil = Some (t + 900000)\<rparr>
            else \<lparr>count = c + 1, lockoutUntil = None\<rparr>)"
proof -
  have u: "isLockedOut t st = (False, st)"
    using assms(1) by (simp add: isLockedOut_unset truthy_def)
  then show ?thesis
    using authenticate_reject(1) [of t st w h "\<lparr>count = c, lockoutUntil = None\<rparr>" rnd] assms
    by (simp add: getLoginAttempts_def)
qed

lemma run_rejects:
  assumes "getLoginAttempts st = \<lparr>count = c, lockoutUntil = None\<rparr>"
    and "\<forall>x\<in>set ws. \<not> verifyPassword (fst x) h"
    and "c + int (length ws) < 5"
  shows "getLoginAttempts (run (map (\<lambda>x. (Authenticate (fst x) h rnd, snd x)) ws) st)
           = \<lparr>count = c + int (length ws), lockoutUntil = None\<rparr>"
  using assms
proof (induction ws arbitrary: st c)
  case Nil
  then show ?case by simp
next
  case (Cons x ws)
  have "getLoginAttempts (snd (authenticate (fst x) h rnd (snd x) st))
          = \<lparr>count = c + 1, lockoutUntil = None\<rparr>"
    using reject_step [of st c "fst x" h rnd "snd x"] Cons.prems by simp
  from Cons.IH [OF this] Cons.prems show ?case
    by (simp add: algebra_simps)
qed

text \<open>
  C2. While locked out (\<open>lockoutUntil\<close> set and in the future) every \<open>authenticate\<close>
  call, whatever the password, fails with the remaining lockout seconds and leaves the
  whole storage, so the attempt counter too, unchanged. After exactly five consecutive
  failed attempts on a fresh counter (clock readings at or after the epoch), the counter
  is at 5 with \<open>lockoutUntil\<close> 15 minutes after the fifth attempt, \<open>isLockedOut()\<close> is
  true until then, and a sixth call fails and changes nothing, even with the correct
  password.
\<close>

theorem locked_out_rejects:
  "(lockoutUntil (getLoginAttempts st) = Some l \<and> l \<noteq> 0 \<and> now < l \<longrightarrow>
      authenticate password storedHash rnd now st =
        (\<lparr>success = False,
          error = Some (js ''Account locked. Try again in ''
                        @ toString (ceilDiv (ceilDiv (l - now) 1000) 60) @ js '' minutes.''),
          lockoutRemaining = Some \<lceil>real_of_int (l - now) / 1000\<rceil>\<rparr>, st))
   \<and> (getLoginAttempts st0 = \<lparr>count = 0, lockoutUntil = None\<rparr> \<and> length ws = 5
       \<and> (\<forall>x\<in>set ws. \<not> verifyPassword (fst x) storedHash \<and> 0 \<le> snd x)
       \<and> now6 < snd (last ws) + LOCKOUT_DURATION \<longrightarrow>
        (let st5 = run (map (\<lambda>x. (Authenticate (fst x) storedHash rnd, snd x)) ws) st0 in
           getLoginAttempts st5 = \<lparr>count = 5, lockoutUntil = Some (snd (last ws) + LOCKOUT_DURATION)\<rparr>
           \<and> fst (isLockedOut now6 st5)
           \<and> \<not> success (fst (authenticate p storedHash rnd' now6 st5))
           \<and> snd (authenticate p storedHash rnd' now6 st5) = st5))"
proof (intro conjI impI)
  assume a: "lockoutUntil (getLoginAttempts st) = Some l \<and> l \<noteq> 0 \<and> now < l"
  have "ceilDiv (l - now) 1000 = \<lceil>real_of_int (l - now) / 1000\<rceil>"
    using ceilDiv_ceiling [of 1000 "l - now"] by simp
  with a authenticate_locked [of st l now password storedHash rnd]
  show "authenticate password storedHash rnd now st =
        (\<lparr>success = False,
          error = Some (js ''Account locked. Try again in ''
                        @ toString (ceilDiv (ceilDiv (l - now) 1000) 60) @ js '' minutes.''),
          lockoutRemaining = Some \<lceil>real_of_int (l - now) / 1000\<rceil>\<rparr>, st)"
    by simp
next
  assume a: "getLoginAttempts st0 = \<lparr>count = 0, lockoutUntil = None\<rparr> \<and> length ws = 5
       \<and> (\<forall>x\<in>set ws. \<not> verifyPassword (fst x) storedHash \<and> 0 \<le> snd x)
       \<and> now6 < snd (last ws) + LOCKOUT_DURATION"
  define ev where "ev = (\<lambda>x::jsstring \<times> int. (Authenticate (fst x) storedHash rnd, snd x))"
  define st4 where "st4 = run (map ev (butlast ws)) st0"
  define st5 where "st5 = run (map ev ws) st0"
  from a have ne: "ws \<noteq> []" by auto
  then have split: "ws = butlast ws @ [last ws]" by simp
  have in_set: "\<forall>x\<in>set (butlast ws). \<not> verifyPassword (fst x) storedHash"
    using a by (auto dest: in_set_butlastD)
  have "getLoginAttempts st4 = \<lparr>count = 0 + int (length (butlast ws)), lockoutUntil = None\<rparr>"
    unfolding st4_def ev_def using a in_set
    by (intro run_rejects) auto
  then have c4: "getLoginAttempts st4 = \<lparr>count = 4, lockoutUntil = None\<rparr>"
    using a by simp
  have "st5 = run (map ev (butlast ws @ [last ws])) st0"
    using split by (simp add: st5_def)
  then have s5: "st5 = snd (authenticate (fst (last ws)) storedHash rnd (snd (last ws)) st4)"
    by (simp add: run_append st4_def ev_def)
  have lastw: "\<not> verifyPassword (fst (last ws)) storedHash \<and> 0 \<le> snd (last ws)"
    using a ne by auto
  have c5: "getLoginAttempts st5 = \<lparr>count = 5, lockoutUntil = Some (snd (last ws) + LOCKOUT_DURATION)\<rparr>"
    using reject_step [OF c4, of "fst (last ws)" storedHash rnd "snd (last ws)"] lastw
    by (simp add: s5 LOCKOUT_DURATION_def)
  have lu: "lockoutUntil (getLoginAttempts st5) = Some (snd (last ws) + LOCKOUT_DURATION)"
    by (simp add: c5)
  have nz: "snd (last ws) + LOCKOUT_DURATION \<noteq> 0"
    using lastw by (simp add: LOCKOUT_DURATION_def)
  have lt: "now6 < snd (last ws) + LOCKOUT_DURATION" using a by simp
  have locked: "isLockedOut now6 st5 = (True, st5)"
    by (rule isLockedOut_locked [OF lu nz lt])
  have auth: "authenticate p storedHash rnd' now6 st5 =
     (\<lparr>success = False,
       error = Some (js ''Account locked. Try again in ''
                     @ toString (ceilDiv (ceilDiv (snd (last ws) + LOCKOUT_DURATION - now6) 1000) 60)
                     @ js '' minutes.''),
       lockoutRemaining = Some (ceilDiv (snd (last ws) + LOCKOUT_DURATION - now6) 1000)\<rparr>, st5)"
    by (rule authenticate_locked [OF lu nz lt])
  show "let st5 = run (map (\<lambda>x. (Authenticate (fst x) storedHash rnd, snd x)) ws) st0 in
           getLoginAttempts st5 = \<lparr>count = 5, lockoutUntil = Some (snd (last ws) + LOCKOUT_DURATION)\<rparr>
           \<and> fst (isLockedOut now6 st5)
           \<and> \<not> success (fst (authenticate p storedHash rnd' now6 st5))
           \<and> snd (authenticate p storedHash rnd' now6 st5) = st5"
    unfolding Let_def ev_def [symmetric] st5_def [symmetric]
    using c5 locked auth by simp
qed

theorem locked_out_rejects_witness:
  "authenticate (js ''correct'')
       (js ''15a596e3c98c407e043751ff3b21ff0358a1bdfdf3fe948b1523893a8e5de2e8'') (\<lambda>i. 0) 1500
       \<lparr>adminAuth = None, adminAuthTime = None,
        loginAttempts = Some \<lparr>count = 5, lockoutUntil = Some 901000\<rparr>\<rparr>
     = (\<lparr>success = False, error = Some (js ''Account locked. Try again in 15 minutes.''),
         lockoutRemaining = Some 900\<rparr>,
        \<lparr>adminAuth = None, adminAuthTime = None,
         loginAttempts = Some \<lparr>count = 5, lockoutUntil = Some 901000\<rparr>\<rparr>)
   \<and> run [(Authenticate (js ''wrong1'')
              (js ''15a596e3c98c407e043751ff3b21ff0358a1bdfdf3fe948b1523893a8e5de2e8'') (\<lambda>i. 0), 1000),
           (Authenticate (js ''wrong1'')
              (js ''15a596e3c98c407e043751ff3b21ff0358a1bdfdf3fe948b1523893a8e5de2e8'') (\<lambda>i. 0), 2000),
           (Authenticate (js ''wrong1'')
              (js ''15a596e3c98c407e043751ff3b21ff0358a1bdfdf3fe948b1523893a8e5de2e8'') (\<lambda>i. 0), 3000),
           (Authenticate (js ''wrong1'')
              (js ''15a596e3c98c407e043751ff3b21ff0358a1bdfdf3fe948b1523893a8e5de2e8'') (\<lambda>i. 0), 4000),
           (Authenticate (js ''wrong1'')
              (js ''15a596e3c98c407e043751ff3b21ff0358a1bdfdf3fe948b1523893a8e5de2e8'') (\<lambda>i. 0), 5000)]
        emptyStorage
     = \<lparr>adminAuth = None, adminAuthTime = None,
        loginAttempts = Some \<lparr>count = 5, lockoutUntil = Some 905000\<rparr>\<rparr>
   \<and> fst (isLockedOut 6000 \<lparr>adminAuth = None, adminAuthTime = None,
        loginAttempts = Some \<lparr>count = 5, lockoutUntil = Some 905000\<rparr>\<rparr>)
   \<and> \<not> success (fst (authenticate (js ''correct'')
       (js ''15a596e3c98c407e043751ff3b21ff0358a1bdfdf3fe948b1523893a8e5de2e8'') (\<lambda>i. 0) 6000
       \<lparr>adminAuth = None, adminAuthTime = None,
        loginAttempts = Some \<lparr>count = 5, lockoutUntil = Some 905000\<rparr>\<rparr>))
   \<and> snd (authenticate (js ''correct'')
       (js ''15a596e3c98c407e043751ff3b21ff0358a1bdfdf3fe948b1523893a8e5de2e8'') (\<lambda>i. 0) 6000
       \<lparr>adminAuth = None, adminAuthTime = None,
        loginAttempts = Some \<lparr>count = 5, lockoutUntil = Some 905000\<rparr>\<rparr>)
     = \<lparr>adminAuth = None, adminAuthTime = None,
        loginAttempts = Some \<lparr>count = 5, lockoutUntil = Some 905000\<rparr>\<rparr>"
proof -
  let ?H = "js ''15a596e3c98c407e043751ff3b21ff0358a1bdfdf3fe948b1523893a8e5de2e8''"
  let ?rnd = "\<lambda>i::nat. 0::byte"
  let ?locked = "\<lparr>adminAuth = None, adminAuthTime = None,
        loginAttempts = Some \<lparr>count = 5, lockoutUntil = Some 901000\<rparr>\<rparr>"
  let ?ws = "[(js ''wrong1'', 1000), (js ''wrong1'', 2000), (js ''wrong1'', 3000),
              (js ''wrong1'', 4000), (js ''wrong1'', 5000::int)]"
  let ?st5 = "\<lparr>adminAuth = None, adminAuthTime = None,
        loginAttempts = Some \<lparr>count = 5, lockoutUntil = Some 905000\<rparr>\<rparr>"
  let ?run = "run (map (\<lambda>x. (Authenticate (fst x) ?H ?rnd, snd x)) ?ws) emptyStorage"
  have m: "js ''Account locked. Try again in '' @ toString 15 @ js '' minutes.''
      = js ''Account locked. Try again in 15 minutes.''"
    by (simp add: js_def toString_def decimal.simps digit_def)
  have c: "\<lceil>real_of_int (901000 - 1500) / 1000\<rceil> = 900"
    by (simp add: ceiling_eq_iff)
  have h1: "lockoutUntil (getLoginAttempts ?locked) = Some 901000 \<and> (901000::int) \<noteq> 0
      \<and> (1500::int) < 901000"
    by (simp add: getLoginAttempts_def)
  have first: "authenticate (js ''correct'') ?H ?rnd 1500 ?locked
     = (\<lparr>success = False, error = Some (js ''Account locked. Try again in 15 minutes.''),
         lockoutRemaining = Some 900\<rparr>, ?locked)"
    using locked_out_rejects [THEN conjunct1, rule_format, OF h1, of "js ''correct''" ?H ?rnd] m c
    by (simp add: ceilDiv_def)
  have h2: "getLoginAttempts emptyStorage = \<lparr>count = 0, lockoutUntil = None\<rparr> \<and> length ?ws = 5
       \<and> (\<forall>x\<in>set ?ws. \<not> verifyPassword (fst x) ?H \<and> 0 \<le> snd x)
       \<and> 6000 < snd (last ?ws) + LOCKOUT_DURATION"
    using wrong1_rejected by (simp add: getLoginAttempts_def emptyStorage_def LOCKOUT_DURATION_def)
  have second: "getLoginAttempts ?run = \<lparr>count = 5, lockoutUntil = Some 905000\<rparr>
       \<and> fst (isLockedOut 6000 ?run)
       \<and> \<not> success (fst (authenticate (js ''correct'') ?H ?rnd 6000 ?run))
       \<and> snd (authenticate (js ''correct'') ?H ?rnd 6000 ?run) = ?run"
    using locked_out_rejects [THEN conjunct2, rule_format, OF h2,
        of ?rnd "js ''correct''" ?rnd]
    by (simp add: Let_def LOCKOUT_DURATION_def)
  have session: "adminAuth ?run = None \<and> adminAuthTime ?run = None"
    using wrong1_rejected
    by (simp add: authenticate_def isLockedOut_def getLoginAttempts_def emptyStorage_def
        recordFailedAttempt_def Let_def truthy_def MAX_LOGIN_ATTEMPTS_def LOCKOUT_DURATION_def
        getLockoutRemaining_def)
  have "loginAttempts ?run = Some \<lparr>count = 5, lockoutUntil = Some 905000\<rparr>"
    using second by (auto simp: getLoginAttempts_def split: option.splits)
  with session have run_eq: "?run = ?st5"
    by (cases ?run) simp
  from first second [unfolded run_eq] run_eq show ?thesis by simp
qed

lemma isSessionValid_fst:
  "adminAuth st' = adminAuth st \<Longrightarrow> adminAuthTime st' = adminAuthTime st \<Longrightarrow>
   fst (isSessionValid t st') = fst (isSessionValid t st)"
  by (simp add: isSessionValid_def split: option.splits)

lemma authenticate_session_kept:
  assumes "\<not> verifyPassword W H"
  shows "\<not> success (fst (authenticate W H rnd now st))
    \<and> adminAuth (snd (authenticate W H rnd now st)) = adminAuth st
    \<and> adminAuthTime (snd (authenticate W H rnd now st)) = adminAuthTime st"
proof (cases "fst (isLockedOut now st)")
  case True
  then have "isLockedOut now st = (True, st)"
    by (auto simp: isLockedOut_def split: option.splits if_splits)
  then show ?thesis by (simp add: authenticate_def Let_def)
next
  case False
  from authenticate_reject [OF False assms refl, of rnd] isLockedOut_session [of now st]
  show ?thesis by simp
qed

text \<open>
  C1 (as the claim states it, refuted). With the empty password and its own SHA-256
  digest as the stored hash, on a fresh storage (no lockout), \<open>authenticate\<close> fails:
  \<open>verifyPassword\<close> returns false for an empty password before any hashing. No session
  is stored.
\<close>

theorem authenticate_empty_password_counterexample:
  "hashPassword [] = js ''e3b0c44298fc1c149afbf4c8996fb92427ae41e4649b934ca495991b7852b855''
   \<and> \<not> fst (isLockedOut 1000 emptyStorage)
   \<and> \<not> success (fst (authenticate [] (hashPassword []) (\<lambda>i. 0) 1000 emptyStorage))
   \<and> \<not> fst (isSessionValid 1000 (snd (authenticate [] (hashPassword []) (\<lambda>i. 0) 1000 emptyStorage)))"
proof -
  have d: "hashPassword [] = js ''e3b0c44298fc1c149afbf4c8996fb92427ae41e4649b934ca495991b7852b855''"
    using empty_digest by (simp add: js_def)
  have v: "\<not> verifyPassword [] (hashPassword [])"
    by (simp add: verifyPassword_def)
  have o: "\<not> fst (isLockedOut 1000 emptyStorage)"
    by (simp add: isLockedOut_def getLoginAttempts_def emptyStorage_def)
  from authenticate_session_kept [OF v, of "\<lambda>i. 0" 1000 emptyStorage]
  have "\<not> success (fst (authenticate [] (hashPassword []) (\<lambda>i. 0) 1000 emptyStorage))"
    and "falsy (adminAuth (snd (authenticate [] (hashPassword []) (\<lambda>i. 0) 1000 emptyStorage)))"
    by (simp_all add: emptyStorage_def falsy_def)
  with d o show ?thesis by (simp add: isSessionValid_absent)
qed

text \<open>
  C1 (amended). For every non-empty password \<open>P\<close>, outside lockout,
  \<open>authenticate(P, H)\<close> with \<open>H\<close> the SHA-256 hex digest of \<open>P\<close> returns success, removes
  the attempt counter, stores a 64-character token and the timestamp, and
  \<open>isSessionValid()\<close> is true immediately afterwards (and for the next 30 minutes).
  For the empty password \<open>authenticate\<close> fails, whatever the stored hash.
\<close>

theorem authenticate_correct_password:
  "(password \<noteq> [] \<and> \<not> fst (isLockedOut now st) \<longrightarrow>
     (let r = fst (authenticate password (hashPassword password) rnd now st);
          st' = snd (authenticate password (hashPassword password) rnd now st)
      in r = \<lparr>success = True, error = None, lockoutRemaining = None\<rparr>
         \<and> adminAuth st' = Some (generateSessionToken rnd)
         \<and> adminAuthTime st' = Some (toString now)
         \<and> loginAttempts st' = None
         \<and> isSessionValid now st' = (True, st')
         \<and> (\<forall>later. later - now \<le> SESSION_DURATION \<longrightarrow> isSessionValid later st' = (True, st'))))
   \<and> \<not> success (fst (authenticate [] storedHash rnd now st))"
proof (intro conjI impI)
  assume a: "password \<noteq> [] \<and> \<not> fst (isLockedOut now st)"
  then have v: "verifyPassword password (hashPassword password)"
    by (simp add: verifyPassword_def hashPassword_nonempty)
  define st' where "st' = snd (authenticate password (hashPassword password) rnd now st)"
  have r: "fst (authenticate password (hashPassword password) rnd now st)
             = \<lparr>success = True, error = None, lockoutRemaining = None\<rparr>"
    and s: "st' = (snd (isLockedOut now st))\<lparr>loginAttempts := None,
         adminAuth := Some (generateSessionToken rnd), adminAuthTime := Some (toString now)\<rparr>"
    using authenticate_accept [of now st password "hashPassword password" rnd] a v
    by (simp_all add: st'_def)
  have valid: "isSessionValid later st' =
      (if later - now > SESSION_DURATION then (False, clearSession st') else (True, st'))" for later
    by (rule isSessionValid_stored [where tok = "generateSessionToken rnd"])
      (simp_all add: s token_nonempty)
  show "let r = fst (authenticate password (hashPassword password) rnd now st);
          st' = snd (authenticate password (hashPassword password) rnd now st)
      in r = \<lparr>success = True, error = None, lockoutRemaining = None\<rparr>
         \<and> adminAuth st' = Some (generateSessionToken rnd)
         \<and> adminAuthTime st' = Some (toString now)
         \<and> loginAttempts st' = None
         \<and> isSessionValid now st' = (True, st')
         \<and> (\<forall>later. later - now \<le> SESSION_DURATION \<longrightarrow> isSessionValid later st' = (True, st'))"
    unfolding Let_def st'_def [symmetric] r
    by (simp add: valid SESSION_DURATION_def) (simp add: s)
next
  have "\<not> verifyPassword [] storedHash" by (simp add: verifyPassword_def)
  from authenticate_session_kept [OF this, of rnd now st]
  show "\<not> success (fst (authenticate [] storedHash rnd now st))" by blast
qed

theorem authenticate_correct_password_witness:
  "fst (authenticate (js ''correct'')
          (js ''15a596e3c98c407e043751ff3b21ff0358a1bdfdf3fe948b1523893a8e5de2e8'') (\<lambda>i. 0x2A) 1000
          emptyStorage)
     = \<lparr>success = True, error = None, lockoutRemaining = None\<rparr>
   \<and> snd (authenticate (js ''correct'')
          (js ''15a596e3c98c407e043751ff3b21ff0358a1bdfdf3fe948b1523893a8e5de2e8'') (\<lambda>i. 0x2A) 1000
          emptyStorage)
     = \<lparr>adminAuth = Some (js ''2a2a2a2a2a2a2a2a2a2a2a2a2a2a2a2a2a2a2a2a2a2a2a2a2a2a2a2a2a2a2a2a''),
        adminAuthTime = Some (js ''1000''), loginAttempts = None\<rparr>
   \<and> fst (isSessionValid 1000
       \<lparr>adminAuth = Some (js ''2a2a2a2a2a2a2a2a2a2a2a2a2a2a2a2a2a2a2a2a2a2a2a2a2a2a2a2a2a2a2a2a''),
        adminAuthTime = Some (js ''1000''), loginAttempts = None\<rparr>)
   \<and> \<not> success (fst (authenticate []
          (js ''15a596e3c98c407e043751ff3b21ff0358a1bdfdf3fe948b1523893a8e5de2e8'') (\<lambda>i. 0x2A) 1000
          emptyStorage))"
proof -
  let ?H = "js ''15a596e3c98c407e043751ff3b21ff0358a1bdfdf3fe948b1523893a8e5de2e8''"
  let ?rnd = "\<lambda>i::nat. 0x2A::byte"
  let ?st' = "snd (authenticate (js ''correct'') ?H ?rnd 1000 emptyStorage)"
  have h: "js ''correct'' \<noteq> [] \<and> \<not> fst (isLockedOut 1000 emptyStorage)"
    by (simp add: js_def isLockedOut_def getLoginAttempts_def emptyStorage_def)
  have tok: "generateSessionToken ?rnd
      = js ''2a2a2a2a2a2a2a2a2a2a2a2a2a2a2a2a2a2a2a2a2a2a2a2a2a2a2a2a2a2a2a2a''"
    by (simp add: generateSessionToken_def hex2_def hexdigit_def js_def upt_conv_Cons)
  have ts: "toString 1000 = js ''1000''"
    by (simp add: toString_def decimal.simps digit_def js_def)
  from authenticate_correct_password [THEN conjunct1, of "js ''correct''" 1000 emptyStorage ?rnd] h
  have all: "fst (authenticate (js ''correct'') ?H ?rnd 1000 emptyStorage)
           = \<lparr>success = True, error = None, lockoutRemaining = None\<rparr>
         \<and> adminAuth ?st' = Some (generateSessionToken ?rnd)
         \<and> adminAuthTime ?st' = Some (toString 1000)
         \<and> loginAttempts ?st' = None
         \<and> isSessionValid 1000 ?st' = (True, ?st')"
    by (simp add: Let_def correct_digest)
  then have eq: "?st' = \<lparr>adminAuth = Some (js ''2a2a2a2a2a2a2a2a2a2a2a2a2a2a2a2a2a2a2a2a2a2a2a2a2a2a2a2a2a2a2a2a''),
        adminAuthTime = Some (js ''1000''), loginAttempts = None\<rparr>"
    by (cases ?st') (simp add: tok ts)
  from all have "fst (isSessionValid 1000 ?st')" by simp
  with all eq have first: "fst (authenticate (js ''correct'') ?H ?rnd 1000 emptyStorage)
           = \<lparr>success = True, error = None, lockoutRemaining = None\<rparr>
     \<and> ?st' = \<lparr>adminAuth = Some (js ''2a2a2a2a2a2a2a2a2a2a2a2a2a2a2a2a2a2a2a2a2a2a2a2a2a2a2a2a2a2a2a2a''),
        adminAuthTime = Some (js ''1000''), loginAttempts = None\<rparr>
     \<and> fst (isSessionValid 1000
       \<lparr>adminAuth = Some (js ''2a2a2a2a2a2a2a2a2a2a2a2a2a2a2a2a2a2a2a2a2a2a2a2a2a2a2a2a2a2a2a2a''),
        adminAuthTime = Some (js ''1000''), loginAttempts = None\<rparr>)"
    by (simp add: tok ts)
  from authenticate_correct_password [THEN conjunct2, of ?H ?rnd 1000 emptyStorage]
  have second: "\<not> success (fst (authenticate [] ?H ?rnd 1000 emptyStorage))" .
  from first second show ?thesis by (intro conjI) blast+
qed

text \<open>
  Distinct passwords can have the same digest. \<open>TextEncoder\<close> writes a lone surrogate
  as U+FFFD, so the one-character passwords \<open>\uD800\<close> and \<open>\uFFFD\<close> are encoded to the
  same three bytes. Outside lockout \<open>authenticate\<close> succeeds exactly when the password
  and the stored hash are not empty and the digest of the password is the stored hash.
\<close>

lemma lone_surrogate_digest:
  "[0xD800] \<noteq> [0xFFFD :: jschar]"
  "hashPassword [0xD800] = hashPassword [0xFFFD]"
  by (simp_all add: hashPassword_def)

lemma authenticate_success_iff:
  assumes "\<not> fst (isLockedOut now st)"
  shows "success (fst (authenticate W H rnd now st)) = (W \<noteq> [] \<and> H \<noteq> [] \<and> hashPassword W = H)"
proof (cases "verifyPassword W H")
  case True
  from authenticate_accept [OF assms True, of rnd] True show ?thesis
    by (auto simp: verifyPassword_def split: if_splits)
next
  case False
  from authenticate_session_kept [OF False, of rnd now st] False show ?thesis
    by (auto simp: verifyPassword_def split: if_splits)
qed

lemma authenticate_locked_fails:
  assumes "fst (isLockedOut now st)"
  shows "\<not> success (fst (authenticate W H rnd now st))"
proof -
  from assms have "isLockedOut now st = (True, st)"
    by (auto simp: isLockedOut_def split: option.splits if_splits)
  then show ?thesis by (simp add: authenticate_def Let_def)
qed

text \<open>
  C9 (as the claim states it, refuted), on two inputs. First, the claim holds "for every
  prior session state": with a valid session in the storage (token \<open>7f\<close>, issued at
  1000), a call at 2000 with the wrong password \<open>wrong1\<close> against the digest of
  \<open>correct\<close> fails, and \<open>isSessionValid()\<close> is still true afterwards, since a failed
  attempt does not touch the session entries. Second, the claim holds "for every pair of
  distinct passwords": \<open>\uD800\<close> and \<open>\uFFFD\<close> are distinct and have the same UTF-8
  encoding, so \<open>authenticate("\uD800", digest("\uFFFD"))\<close> on a fresh storage succeeds
  and opens a session.
\<close>

theorem authenticate_wrong_password_counterexample:
  "js ''wrong1'' \<noteq> js ''correct''
   \<and> hashPassword (js ''correct'')
       = js ''15a596e3c98c407e043751ff3b21ff0358a1bdfdf3fe948b1523893a8e5de2e8''
   \<and> \<not> success (fst (authenticate (js ''wrong1'')
          (js ''15a596e3c98c407e043751ff3b21ff0358a1bdfdf3fe948b1523893a8e5de2e8'') (\<lambda>i. 0) 2000
          \<lparr>adminAuth = Some (js ''7f''), adminAuthTime = Some (js ''1000''), loginAttempts = None\<rparr>))
   \<and> fst (isSessionValid 2000 (snd (authenticate (js ''wrong1'')
          (js ''15a596e3c98c407e043751ff3b21ff0358a1bdfdf3fe948b1523893a8e5de2e8'') (\<lambda>i. 0) 2000
          \<lparr>adminAuth = Some (js ''7f''), adminAuthTime = Some (js ''1000''), loginAttempts = None\<rparr>)))
   \<and> [0xD800] \<noteq> [0xFFFD :: jschar]
   \<and> utf8 [0xD800] = [0xEF, 0xBF, 0xBD] \<and> utf8 [0xFFFD] = [0xEF, 0xBF, 0xBD]
   \<and> success (fst (authenticate [0xD800] (hashPassword [0xFFFD]) (\<lambda>i. 0) 2000 emptyStorage))
   \<and> fst (isSessionValid 2000
         (snd (authenticate [0xD800] (hashPassword [0xFFFD]) (\<lambda>i. 0) 2000 emptyStorage)))"
proof -
  let ?H = "js ''15a596e3c98c407e043751ff3b21ff0358a1bdfdf3fe948b1523893a8e5de2e8''"
  let ?st = "\<lparr>adminAuth = Some (js ''7f''), adminAuthTime = Some (js ''1000''),
              loginAttempts = None\<rparr>"
  let ?st' = "snd (authenticate (js ''wrong1'') ?H (\<lambda>i. 0) 2000 ?st)"
  let ?s2 = "snd (authenticate [0xD800] (hashPassword [0xFFFD]) (\<lambda>i. 0) 2000 emptyStorage)"
  have ne: "js ''wrong1'' \<noteq> js ''correct''" by (simp add: js_def)
  have before: "fst (isSessionValid 2000 ?st)"
    by (simp add: isSessionValid_def SESSION_DURATION_def falsy_def js_def parseInt_def
        isWhiteSpace_def isDigit_def digitsValue_def)
  from authenticate_session_kept [OF wrong1_rejected, of "\<lambda>i. 0" 2000 ?st]
  have k: "\<not> success (fst (authenticate (js ''wrong1'') ?H (\<lambda>i. 0) 2000 ?st))"
    "adminAuth ?st' = adminAuth ?st" "adminAuthTime ?st' = adminAuthTime ?st"
    by simp_all
  from isSessionValid_fst [OF k(2) k(3), of 2000] before
  have after: "fst (isSessionValid 2000 ?st')" by simp
  have u1: "utf8 [0xD800] = [0xEF, 0xBF, 0xBD]" and u2: "utf8 [0xFFFD] = [0xEF, 0xBF, 0xBD]"
    by simp_all
  have nl: "\<not> fst (isLockedOut 2000 emptyStorage)"
    by (simp add: isLockedOut_def getLoginAttempts_def emptyStorage_def)
  have v: "verifyPassword [0xD800] (hashPassword [0xFFFD])"
    by (simp add: verifyPassword_def hashPassword_nonempty lone_surrogate_digest(2))
  from authenticate_accept [OF nl v, of "\<lambda>i. 0"]
  have acc: "success (fst (authenticate [0xD800] (hashPassword [0xFFFD]) (\<lambda>i. 0) 2000 emptyStorage))"
    and tok: "adminAuth ?s2 = Some (generateSessionToken (\<lambda>i. 0))"
    and tim: "adminAuthTime ?s2 = Some (toString 2000)"
    by simp_all
  from isSessionValid_stored [OF tok token_nonempty tim, of 2000]
  have valid: "fst (isSessionValid 2000 ?s2)" by (simp add: SESSION_DURATION_def)
  from ne correct_digest k(1) after lone_surrogate_digest(1) u1 u2 acc valid
  show ?thesis by (intro conjI)
qed

text \<open>
  C9 (amended). For every password \<open>W\<close> that is empty or whose digest differs from the
  stored hash \<open>H\<close>, \<open>authenticate(W, H)\<close> returns failure and leaves both session
  entries as they were, so \<open>isSessionValid()\<close> answers afterwards as it would have
  before the call: the failed attempt creates no session, and where no session was stored
  the answer is false. For \<open>H\<close> the digest of \<open>P\<close> this covers every \<open>W\<close> whose digest
  differs from that of \<open>P\<close> (such \<open>W\<close> are distinct from \<open>P\<close>). The condition on the
  digests cannot be dropped and is the exact one: outside lockout the call succeeds if and
  only if \<open>W\<close> and \<open>H\<close> are not empty and the digest of \<open>W\<close> is \<open>H\<close>; in lockout
  it fails.
\<close>

theorem authenticate_wrong_password:
  "(W = [] \<or> hashPassword W \<noteq> H \<longrightarrow>
     (let r = fst (authenticate W H rnd now st);
          st' = snd (authenticate W H rnd now st)
      in \<not> success r
         \<and> adminAuth st' = adminAuth st \<and> adminAuthTime st' = adminAuthTime st
         \<and> fst (isSessionValid later st') = fst (isSessionValid later st)
         \<and> (falsy (adminAuth st) \<or> falsy (adminAuthTime st) \<longrightarrow> \<not> fst (isSessionValid later st'))))
   \<and> (hashPassword W \<noteq> hashPassword P \<longrightarrow>
         W \<noteq> P \<and> \<not> success (fst (authenticate W (hashPassword P) rnd now st)))
   \<and> (\<not> fst (isLockedOut now st) \<longrightarrow>
         success (fst (authenticate W H rnd now st))
           = (W \<noteq> [] \<and> H \<noteq> [] \<and> hashPassword W = H))
   \<and> (fst (isLockedOut now st) \<longrightarrow> \<not> success (fst (authenticate W H rnd now st)))"
proof (intro conjI impI)
  assume "W = [] \<or> hashPassword W \<noteq> H"
  then have v: "\<not> verifyPassword W H" by (auto simp: verifyPassword_def)
  define st' where "st' = snd (authenticate W H rnd now st)"
  from authenticate_session_kept [OF v, of rnd now st]
  have r: "\<not> success (fst (authenticate W H rnd now st))"
    and a: "adminAuth st' = adminAuth st" and t: "adminAuthTime st' = adminAuthTime st"
    unfolding st'_def by blast+
  have same: "fst (isSessionValid later st') = fst (isSessionValid later st)"
    by (rule isSessionValid_fst [OF a t])
  have absent: "falsy (adminAuth st) \<or> falsy (adminAuthTime st) \<longrightarrow> \<not> fst (isSessionValid later st')"
  proof
    assume "falsy (adminAuth st) \<or> falsy (adminAuthTime st)"
    then have "isSessionValid later st = (False, st)" by (rule isSessionValid_absent)
    then show "\<not> fst (isSessionValid later st')" unfolding same by simp
  qed
  show "let r = fst (authenticate W H rnd now st);
          st' = snd (authenticate W H rnd now st)
      in \<not> success r
         \<and> adminAuth st' = adminAuth st \<and> adminAuthTime st' = adminAuthTime st
         \<and> fst (isSessionValid later st') = fst (isSessionValid later st)
         \<and> (falsy (adminAuth st) \<or> falsy (adminAuthTime st) \<longrightarrow> \<not> fst (isSessionValid later st'))"
    unfolding Let_def st'_def [symmetric]
    using r a t same absent by (intro conjI)
next
  assume d: "hashPassword W \<noteq> hashPassword P"
  then show "W \<noteq> P" by auto
  from d have "\<not> verifyPassword W (hashPassword P)" by (simp add: verifyPassword_def)
  from authenticate_session_kept [OF this, of rnd now st]
  show "\<not> success (fst (authenticate W (hashPassword P) rnd now st))" by blast
next
  assume "\<not> fst (isLockedOut now st)"
  then show "success (fst (authenticate W H rnd now st))
           = (W \<noteq> [] \<and> H \<noteq> [] \<and> hashPassword W = H)"
    by (rule authenticate_success_iff)
next
  assume "fst (isLockedOut now st)"
  then show "\<not> success (fst (authenticate W H rnd now st))"
    by (rule authenticate_locked_fails)
qed

theorem authenticate_wrong_password_witness:
  "hashPassword (js ''wrong1'') \<noteq> hashPassword (js ''correct'')
   \<and> \<not> success (fst (authenticate (js ''wrong1'')
          (js ''15a596e3c98c407e043751ff3b21ff0358a1bdfdf3fe948b1523893a8e5de2e8'') (\<lambda>i. 0) 2000
          emptyStorage))
   \<and> \<not> fst (isSessionValid 2000 (snd (authenticate (js ''wrong1'')
          (js ''15a596e3c98c407e043751ff3b21ff0358a1bdfdf3fe948b1523893a8e5de2e8'') (\<lambda>i. 0) 2000
          emptyStorage)))
   \<and> \<not> success (fst (authenticate []
          (js ''15a596e3c98c407e043751ff3b21ff0358a1bdfdf3fe948b1523893a8e5de2e8'') (\<lambda>i. 0) 2000
          emptyStorage))
   \<and> success (fst (authenticate (js ''correct'')
          (js ''15a596e3c98c407e043751ff3b21ff0358a1bdfdf3fe948b1523893a8e5de2e8'') (\<lambda>i. 0) 2000
          emptyStorage))
   \<and> \<not> success (fst (authenticate (js ''correct'')
          (js ''15a596e3c98c407e043751ff3b21ff0358a1bdfdf3fe948b1523893a8e5de2e8'') (\<lambda>i. 0) 2000
          \<lparr>adminAuth = None, adminAuthTime = None,
           loginAttempts = Some \<lparr>count = 5, lockoutUntil = Some 901000\<rparr>\<rparr>))"
proof -
  let ?H = "js ''15a596e3c98c407e043751ff3b21ff0358a1bdfdf3fe948b1523893a8e5de2e8''"
  let ?rnd = "\<lambda>i::nat. 0::byte"
  let ?locked = "\<lparr>adminAuth = None, adminAuthTime = None,
           loginAttempts = Some \<lparr>count = 5, lockoutUntil = Some 901000\<rparr>\<rparr>"
  have h: "hashPassword (js ''wrong1'') \<noteq> ?H"
    by (simp add: wrong1_digest) (simp add: js_def)
  then have d: "hashPassword (js ''wrong1'') \<noteq> hashPassword (js ''correct'')"
    by (simp add: correct_digest)
  have f: "falsy (adminAuth emptyStorage) \<or> falsy (adminAuthTime emptyStorage)"
    by (simp add: emptyStorage_def falsy_def)
  have nl: "\<not> fst (isLockedOut 2000 emptyStorage)"
    by (simp add: isLockedOut_def getLoginAttempts_def emptyStorage_def)
  have lk: "fst (isLockedOut 2000 ?locked)"
    by (simp add: isLockedOut_def getLoginAttempts_def)
  have ok: "js ''correct'' \<noteq> [] \<and> ?H \<noteq> [] \<and> hashPassword (js ''correct'') = ?H"
    by (simp add: correct_digest) (simp add: js_def)
  note t = authenticate_wrong_password
  from t [THEN conjunct1, rule_format, of "js ''wrong1''" ?H ?rnd 2000 emptyStorage 2000] h f
  have 1: "\<not> success (fst (authenticate (js ''wrong1'') ?H ?rnd 2000 emptyStorage))
     \<and> \<not> fst (isSessionValid 2000 (snd (authenticate (js ''wrong1'') ?H ?rnd 2000 emptyStorage)))"
    unfolding Let_def by blast
  from t [THEN conjunct1, rule_format, of "[]" ?H ?rnd 2000 emptyStorage 2000]
  have 2: "\<not> success (fst (authenticate [] ?H ?rnd 2000 emptyStorage))"
    unfolding Let_def by blast
  from t [THEN conjunct2, THEN conjunct2, THEN conjunct1, rule_format,
      of 2000 emptyStorage "js ''correct''" ?H ?rnd] nl ok
  have 3: "success (fst (authenticate (js ''correct'') ?H ?rnd 2000 emptyStorage))"
    by blast
  from t [THEN conjunct2, THEN conjunct2, THEN conjunct2, rule_format,
      of 2000 ?locked "js ''correct''" ?H ?rnd] lk
  have 4: "\<not> success (fst (authenticate (js ''correct'') ?H ?rnd 2000 ?locked))"
    by blast
  from d 1 2 3 4 show ?thesis by (intro conjI) blast+
qed

section \<open>The attempt counter\<close>

text \<open>
  The digest has 64 characters and there are infinitely many passwords, so no hash of
  this shape separates all passwords.
\<close>

lemma hashPassword_collides: "\<not> inj hashPassword"
proof
  assume i: "inj hashPassword"
  have "range hashPassword \<subseteq> {xs. set xs \<subseteq> UNIV \<and> length xs = 64}"
    by (auto simp: hashPassword_length)
  moreover have "finite {xs :: jsstring. set xs \<subseteq> UNIV \<and> length xs = 64}"
    by (rule finite_lists_length_eq) simp
  ultimately have "finite (range hashPassword)"
    by (rule finite_subset)
  from finite_imageD [OF this i] have "finite (UNIV :: jsstring set)" .
  then show False
    by (simp add: infinite_UNIV_listI)
qed

lemma counterOk_empty: "counterOk emptyStorage"
  by (simp add: counterOk_def getLoginAttempts_def emptyStorage_def MAX_LOGIN_ATTEMPTS_def)

lemma counterOk_cleared: "counterOk (clearLoginAttempts st)"
  by (simp add: counterOk_def getLoginAttempts_cleared MAX_LOGIN_ATTEMPTS_def)

lemma counterOk_cong:
  "loginAttempts st' = loginAttempts st \<Longrightarrow> counterOk st' = counterOk st"
  by (simp add: counterOk_def getLoginAttempts_def)

lemma counterOk_isLockedOut: "counterOk st \<Longrightarrow> counterOk (snd (isLockedOut now st))"
  by (auto simp: isLockedOut_def counterOk_cleared split: option.splits)

lemma counterOk_isSessionValid: "counterOk st \<Longrightarrow> counterOk (snd (isSessionValid now st))"
  by (auto simp: isSessionValid_def counterOk_def getLoginAttempts_def split: option.splits)

lemma counterOk_clearSession: "counterOk st \<Longrightarrow> counterOk (clearSession st)"
  by (simp add: clearSession_def counterOk_def getLoginAttempts_def)

lemma counterOk_authenticate:
  assumes "counterOk st" "0 \<le> now"
  shows "counterOk (snd (authenticate password h rnd now st))"
proof (cases "fst (isLockedOut now st)")
  case True
  then have "isLockedOut now st = (True, st)"
    by (auto simp: isLockedOut_def split: option.splits if_splits)
  with assms show ?thesis by (simp add: authenticate_def Let_def)
next
  case False
  define st1 where "st1 = snd (isLockedOut now st)"
  have ok1: "counterOk st1" unfolding st1_def by (rule counterOk_isLockedOut [OF assms(1)])
  have u: "\<not> truthy (lockoutUntil (getLoginAttempts st1))"
    unfolding st1_def by (rule isLockedOut_open [OF False])
  show ?thesis
  proof (cases "verifyPassword password h")
    case True
    from authenticate_accept [OF False True, of rnd]
    have "loginAttempts (snd (authenticate password h rnd now st)) = None" by simp
    then show ?thesis
      by (simp add: counterOk_def getLoginAttempts_def MAX_LOGIN_ATTEMPTS_def)
  next
    case v: False
    from authenticate_reject(1) [OF False v refl, of rnd]
    have s: "getLoginAttempts (snd (authenticate password h rnd now st)) =
        (if count (getLoginAttempts st1) + 1 \<ge> 5
         then (getLoginAttempts st1)\<lparr>count := count (getLoginAttempts st1) + 1,
                lockoutUntil := Some (now + 900000)\<rparr>
         else (getLoginAttempts st1)\<lparr>count := count (getLoginAttempts st1) + 1\<rparr>)"
      by (simp add: st1_def getLoginAttempts_def)
    from ok1 u assms(2) show ?thesis
      unfolding counterOk_def s Let_def
      by (auto simp: MAX_LOGIN_ATTEMPTS_def truthy_def split: option.splits)
  qed
qed

lemma counterOk_step: "counterOk st \<Longrightarrow> 0 \<le> now \<Longrightarrow> counterOk (step c now st)"
  by (cases c)
    (simp_all add: counterOk_authenticate counterOk_isLockedOut counterOk_isSessionValid
      counterOk_clearSession)

lemma counterOk_run:
  "counterOk st \<Longrightarrow> \<forall>e\<in>set evs. 0 \<le> snd e \<Longrightarrow> counterOk (run evs st)"
proof (induction evs arbitrary: st)
  case Nil
  then show ?case by simp
next
  case (Cons e evs)
  obtain c t where e: "e = (c, t)" by (cases e)
  with Cons.prems have "counterOk (step c t st)" by (simp add: counterOk_step)
  with Cons.IH [of "step c t st"] Cons.prems e show ?case by simp
qed

text \<open>
  C4. The invariant \<open>counterOk\<close> (the count is within 0..5, and \<open>lockoutUntil\<close> is set
  exactly when the count is 5) holds for the empty storage and is kept by every call
  (\<open>authenticate\<close>, \<open>isLockedOut\<close>, \<open>getLockoutRemaining\<close>, \<open>isSessionValid\<close>,
  \<open>clearSession\<close>) at a clock at or after the epoch, hence after every sequence of calls.
  A successful \<open>authenticate\<close> leaves the counter at 0 with no lockout; so does
  \<open>isLockedOut\<close> once \<open>lockoutUntil\<close> has passed, and an \<open>authenticate\<close> call at such a
  time starts from the cleared counter.
\<close>

theorem attempt_counter_invariant:
  "counterOk emptyStorage
   \<and> (counterOk st \<and> 0 \<le> now \<longrightarrow> counterOk (step c now st))
   \<and> ((\<forall>e\<in>set evs. 0 \<le> snd e) \<longrightarrow> counterOk (run evs emptyStorage))
   \<and> (success (fst (authenticate password h rnd now st)) \<longrightarrow>
        getLoginAttempts (snd (authenticate password h rnd now st)) = \<lparr>count = 0, lockoutUntil = None\<rparr>)
   \<and> (lockoutUntil (getLoginAttempts st) = Some l \<and> l \<noteq> 0 \<and> l \<le> now \<longrightarrow>
        getLoginAttempts (snd (isLockedOut now st)) = \<lparr>count = 0, lockoutUntil = None\<rparr>
        \<and> count (getLoginAttempts (snd (authenticate password h rnd now st))) \<le> 1)"
proof (intro conjI impI)
  show "counterOk emptyStorage" by (rule counterOk_empty)
next
  assume "counterOk st \<and> 0 \<le> now"
  then show "counterOk (step c now st)" by (simp add: counterOk_step)
next
  assume "\<forall>e\<in>set evs. 0 \<le> snd e"
  then show "counterOk (run evs emptyStorage)"
    by (intro counterOk_run counterOk_empty)
next
  assume s: "success (fst (authenticate password h rnd now st))"
  have nl: "\<not> fst (isLockedOut now st)"
  proof
    assume "fst (isLockedOut now st)"
    then have "isLockedOut now st = (True, st)"
      by (auto simp: isLockedOut_def split: option.splits if_splits)
    with s show False by (simp add: authenticate_def Let_def)
  qed
  have v: "verifyPassword password h"
  proof (rule ccontr)
    assume "\<not> verifyPassword password h"
    from authenticate_session_kept [OF this, of rnd now st] s show False by simp
  qed
  from authenticate_accept [OF nl v, of rnd]
  show "getLoginAttempts (snd (authenticate password h rnd now st)) = \<lparr>count = 0, lockoutUntil = None\<rparr>"
    by (simp add: getLoginAttempts_def)
next
  assume a: "lockoutUntil (getLoginAttempts st) = Some l \<and> l \<noteq> 0 \<and> l \<le> now"
  then have e: "isLockedOut now st = (False, clearLoginAttempts st)"
    by (simp add: isLockedOut_expired)
  then show "getLoginAttempts (snd (isLockedOut now st)) = \<lparr>count = 0, lockoutUntil = None\<rparr>"
    by (simp add: getLoginAttempts_cleared)
  show "count (getLoginAttempts (snd (authenticate password h rnd now st))) \<le> 1"
  proof (cases "verifyPassword password h")
    case True
    from authenticate_accept [of now st password h rnd] e True show ?thesis
      by (simp add: getLoginAttempts_def)
  next
    case False
    have nl: "\<not> fst (isLockedOut now st)" by (simp add: e)
    have c: "getLoginAttempts (snd (isLockedOut now st)) = \<lparr>count = 0, lockoutUntil = None\<rparr>"
      by (simp add: e getLoginAttempts_cleared)
    from authenticate_reject(1) [OF nl False c, of rnd]
    show ?thesis by (simp add: getLoginAttempts_def)
  qed
qed

theorem attempt_counter_invariant_witness:
  "counterOk (step (Authenticate (js ''wrong1'')
        (js ''15a596e3c98c407e043751ff3b21ff0358a1bdfdf3fe948b1523893a8e5de2e8'') (\<lambda>i. 0)) 1000
        \<lparr>adminAuth = None, adminAuthTime = None,
         loginAttempts = Some \<lparr>count = 4, lockoutUntil = None\<rparr>\<rparr>)
   \<and> counterOk (run [(Authenticate (js ''wrong1'')
          (js ''15a596e3c98c407e043751ff3b21ff0358a1bdfdf3fe948b1523893a8e5de2e8'') (\<lambda>i. 0), 1000),
         (IsLockedOut, 2000), (IsSessionValid, 3000), (GetLockoutRemaining, 4000),
         (ClearSession, 5000)] emptyStorage)
   \<and> getLoginAttempts (snd (authenticate (js ''correct'')
        (js ''15a596e3c98c407e043751ff3b21ff0358a1bdfdf3fe948b1523893a8e5de2e8'') (\<lambda>i. 0) 1000
        \<lparr>adminAuth = None, adminAuthTime = None,
         loginAttempts = Some \<lparr>count = 3, lockoutUntil = None\<rparr>\<rparr>))
       = \<lparr>count = 0, lockoutUntil = None\<rparr>
   \<and> getLoginAttempts (snd (isLockedOut 901000
        \<lparr>adminAuth = None, adminAuthTime = None,
         loginAttempts = Some \<lparr>count = 5, lockoutUntil = Some 901000\<rparr>\<rparr>))
       = \<lparr>count = 0, lockoutUntil = None\<rparr>
   \<and> count (getLoginAttempts (snd (authenticate (js ''wrong1'')
        (js ''15a596e3c98c407e043751ff3b21ff0358a1bdfdf3fe948b1523893a8e5de2e8'') (\<lambda>i. 0) 901000
        \<lparr>adminAuth = None, adminAuthTime = None,
         loginAttempts = Some \<lparr>count = 5, lockoutUntil = Some 901000\<rparr>\<rparr>))) \<le> 1"
proof -
  let ?H = "js ''15a596e3c98c407e043751ff3b21ff0358a1bdfdf3fe948b1523893a8e5de2e8''"
  let ?rnd = "\<lambda>i::nat. 0::byte"
  let ?s3 = "\<lparr>adminAuth = None, adminAuthTime = None,
         loginAttempts = Some \<lparr>count = 3, lockoutUntil = None\<rparr>\<rparr>"
  let ?s4 = "\<lparr>adminAuth = None, adminAuthTime = None,
         loginAttempts = Some \<lparr>count = 4, lockoutUntil = None\<rparr>\<rparr>"
  let ?s5 = "\<lparr>adminAuth = None, adminAuthTime = None,
         loginAttempts = Some \<lparr>count = 5, lockoutUntil = Some 901000\<rparr>\<rparr>"
  let ?evs = "[(Authenticate (js ''wrong1'') ?H ?rnd, 1000),
         (IsLockedOut, 2000), (IsSessionValid, 3000), (GetLockoutRemaining, 4000),
         (ClearSession, 5000::int)]"
  have ok4: "counterOk ?s4 \<and> (0::int) \<le> 1000"
    by (simp add: counterOk_def getLoginAttempts_def MAX_LOGIN_ATTEMPTS_def)
  have times: "\<forall>e\<in>set ?evs. 0 \<le> snd e" by simp
  have open3: "isLockedOut 1000 ?s3 = (False, ?s3)"
    by (simp add: isLockedOut_def getLoginAttempts_def)
  have succ: "success (fst (authenticate (js ''correct'') ?H ?rnd 1000 ?s3))"
    using authenticate_accept [of 1000 ?s3 "js ''correct''" ?H ?rnd] correct_accepted open3
    by simp
  have exp: "lockoutUntil (getLoginAttempts ?s5) = Some 901000 \<and> (901000::int) \<noteq> 0
      \<and> (901000::int) \<le> 901000"
    by (simp add: getLoginAttempts_def)
  note inv = attempt_counter_invariant
  from inv [of ?s4 1000 "Authenticate (js ''wrong1'') ?H ?rnd"] ok4
  have 1: "counterOk (step (Authenticate (js ''wrong1'') ?H ?rnd) 1000 ?s4)" by blast
  from inv [where evs = ?evs] times
  have 2: "counterOk (run ?evs emptyStorage)" by blast
  from inv [of ?s3 1000 _ _ "js ''correct''" ?H ?rnd] succ
  have 3: "getLoginAttempts (snd (authenticate (js ''correct'') ?H ?rnd 1000 ?s3))
       = \<lparr>count = 0, lockoutUntil = None\<rparr>" by blast
  from inv [of ?s5 901000 _ _ "js ''wrong1''" ?H ?rnd 901000] exp
  have 4: "getLoginAttempts (snd (isLockedOut 901000 ?s5)) = \<lparr>count = 0, lockoutUntil = None\<rparr>
        \<and> count (getLoginAttempts (snd (authenticate (js ''wrong1'') ?H ?rnd 901000 ?s5))) \<le> 1"
    by blast
  from 1 2 3 4 show ?thesis by (intro conjI) blast+
qed

section \<open>The storage obfuscation is reversible on Latin-1 strings\<close>

lemma latin1_iff: "(c :: jschar) \<le> 0xFF \<longleftrightarrow> take_bit 8 c = c"
proof -
  have "c \<le> 0xFF \<longleftrightarrow> c < 2 ^ 8"
    by (auto simp: word_le_nat_alt word_less_nat_alt)
  also have "\<dots> \<longleftrightarrow> c AND mask 8 = c"
    using mask_eq_iff_w2p [of 8 c] by (simp add: word_size)
  also have "\<dots> \<longleftrightarrow> take_bit 8 c = c"
    by (simp add: take_bit_eq_mask)
  finally show ?thesis .
qed

lemma xor_latin1: "(k :: jschar) \<le> 0xFF \<Longrightarrow> (c XOR k \<le> 0xFF) = (c \<le> 0xFF)"
proof -
  assume k: "k \<le> 0xFF"
  then have tk: "take_bit 8 k = k" by (simp add: latin1_iff)
  show ?thesis
  proof
    assume "c \<le> 0xFF"
    then have "take_bit 8 c = c" by (simp add: latin1_iff)
    with tk have "take_bit 8 (c XOR k) = c XOR k" by (simp add: take_bit_xor)
    then show "c XOR k \<le> 0xFF" by (simp add: latin1_iff)
  next
    assume "c XOR k \<le> 0xFF"
    then have "take_bit 8 (c XOR k) = c XOR k" by (simp add: latin1_iff)
    with tk have "take_bit 8 ((c XOR k) XOR k) = (c XOR k) XOR k" by (simp only: take_bit_xor)
    then have "take_bit 8 c = c" by (simp add: xor.assoc)
    then show "c \<le> 0xFF" by (simp add: latin1_iff)
  qed
qed

lemma key_length: "length ENCRYPTION_KEY = 17"
  by (simp add: ENCRYPTION_KEY_def js_def)

lemma key_latin1: "ENCRYPTION_KEY ! (i mod length ENCRYPTION_KEY) \<le> 0xFF"
proof -
  have "list_all (\<lambda>k. k \<le> 0xFF) ENCRYPTION_KEY"
    by (simp add: ENCRYPTION_KEY_def js_def)
  moreover have "i mod length ENCRYPTION_KEY < length ENCRYPTION_KEY"
    by (simp add: key_length)
  ultimately show ?thesis by (simp add: list_all_length)
qed

lemma xorKey_involution: "xorKey i (xorKey i s) = s"
  by (induction s arbitrary: i) (simp_all add: xor.assoc)

lemma xorKey_latin1: "list_all (\<lambda>c. c \<le> 0xFF) (xorKey i s) = list_all (\<lambda>c. c \<le> 0xFF) s"
  by (induction s arbitrary: i) (simp_all add: xor_latin1 key_latin1)

lemma xorKey_nonempty: "(xorKey i s = []) = (s = [])"
  by (cases s) simp_all

lemma alphabet_length: "length b64alphabet = 64"
  by (simp add: b64alphabet_def js_def)

lemma alphabet_distinct: "distinct b64alphabet"
  by (simp add: b64alphabet_def js_def)

lemma alphabet_plain: "c \<in> set b64alphabet \<Longrightarrow> c \<noteq> 0x3D \<and> \<not> isAsciiWhitespace c"
  by (auto simp: b64alphabet_def js_def isAsciiWhitespace_def)

lemma b64char_mem: "n < 64 \<Longrightarrow> b64char n \<in> set b64alphabet"
  by (simp add: b64char_def alphabet_length)

lemma b64val_b64char: "n < 64 \<Longrightarrow> b64val (b64char n) = Some n"
  using map_of_zip_nth [of b64alphabet "[0..<64]" n]
  by (simp add: b64val_def b64char_def alphabet_length alphabet_distinct)

lemma b64encode_split:
  "b64encode bs = map b64char (sextets bs) @ replicate (padding bs) 0x3D"
  by (induction bs rule: sextets.induct) simp_all

lemma sextets_bound: "\<forall>b\<in>set bs. b < 256 \<Longrightarrow> \<forall>s\<in>set (sextets bs). s < 64"
  by (induction bs rule: sextets.induct) auto

lemma b64decode_sextets: "\<forall>b\<in>set bs. b < 256 \<Longrightarrow> b64decode (sextets bs) = bs"
  by (induction bs rule: sextets.induct) auto

lemma sextets_length:
  "(length (sextets bs) + padding bs) mod 4 = 0 \<and> padding bs \<le> 2
   \<and> length (sextets bs) mod 4 \<noteq> 1"
  by (induction bs rule: sextets.induct) auto

lemma stripPadding_encoded:
  assumes "\<forall>c\<in>set xs. c \<noteq> 0x3D" "k \<le> 2"
  shows "stripPadding (xs @ replicate k 0x3D) = xs"
proof -
  have l: "xs \<noteq> [] \<Longrightarrow> last xs \<noteq> 0x3D" using assms(1) by auto
  from assms(2) consider "k = 0" | "k = Suc 0" | "k = Suc (Suc 0)" by linarith
  then show ?thesis
  proof cases
    case 1
    then show ?thesis using l by (cases "xs = []") (auto simp: stripPadding_def)
  next
    case 2
    then show ?thesis using l by (cases "xs = []") (auto simp: stripPadding_def)
  next
    case 3
    then show ?thesis using l by (cases "xs = []") (auto simp: stripPadding_def butlast_append)
  qed
qed

lemma atob_b64encode:
  assumes "\<forall>b\<in>set bs. b < 256"
  shows "atob (b64encode bs) = Inr (map of_nat bs)"
proof -
  define body where "body = map b64char (sextets bs)"
  have enc: "b64encode bs = body @ replicate (padding bs) 0x3D"
    by (simp add: body_def b64encode_split)
  have mem: "\<forall>c\<in>set body. c \<in> set b64alphabet"
    using sextets_bound [OF assms] by (auto simp: body_def b64char_mem)
  then have plain: "\<forall>c\<in>set body. c \<noteq> 0x3D" and nows: "\<forall>c\<in>set body. \<not> isAsciiWhitespace c"
    using alphabet_plain by blast+
  have "\<not> isAsciiWhitespace 0x3D" by (simp add: isAsciiWhitespace_def)
  with nows have f: "filter (\<lambda>c. \<not> isAsciiWhitespace c) (b64encode bs) = b64encode bs"
    by (simp add: enc)
  have len: "length (b64encode bs) mod 4 = 0"
    using sextets_length [of bs] by (simp add: enc body_def)
  have strip: "stripPadding (b64encode bs) = body"
    unfolding enc using plain sextets_length [of bs] by (intro stripPadding_encoded) auto
  have len1: "length body mod 4 \<noteq> 1"
    using sextets_length [of bs] by (simp add: body_def)
  have vals: "map (\<lambda>c. case b64val c of Some v \<Rightarrow> v | None \<Rightarrow> 0) body = sextets bs"
    using sextets_bound [OF assms] by (simp add: body_def b64val_b64char map_idI)
  have all: "list_all (\<lambda>c. b64val c \<noteq> None) body"
    using sextets_bound [OF assms] by (simp add: body_def list_all_iff b64val_b64char)
  show ?thesis
    using f len strip len1 vals all b64decode_sextets [OF assms]
    by (simp add: atob_def Let_def)
qed

lemma b64encode_nonempty: "bs \<noteq> [] \<Longrightarrow> b64encode bs \<noteq> []"
  by (cases bs rule: b64encode.cases) simp_all

lemma atob_btoa:
  assumes "list_all (\<lambda>c. c \<le> 0xFF) x"
  shows "btoa x = Inr (b64encode (map unat x))"
    and "atob (b64encode (map unat x)) = Inr x"
proof -
  show "btoa x = Inr (b64encode (map unat x))"
    using assms by (simp add: btoa_def)
  have "\<forall>b\<in>set (map unat x). b < 256"
    using assms by (auto simp: list_all_iff word_le_nat_alt)
  from atob_b64encode [OF this] show "atob (b64encode (map unat x)) = Inr x"
    by (simp add: o_def)
qed

lemma roundTrip_ok:
  assumes l: "list_all (\<lambda>c. c \<le> 0xFF) s"
  shows "roundTrip s = Inr s"
proof (cases "s = []")
  case True
  then show ?thesis
    by (simp add: roundTrip_def encryptForStorage_def decryptFromStorage_def)
next
  case False
  define x where "x = xorKey 0 s"
  have lx: "list_all (\<lambda>c. c \<le> 0xFF) x" using l by (simp add: x_def xorKey_latin1)
  have nx: "map unat x \<noteq> []" using False by (simp add: x_def xorKey_nonempty)
  have enc: "encryptForStorage s = Inr (b64encode (map unat x))"
    using False atob_btoa(1) [OF lx]
    by (simp add: encryptForStorage_def simpleObfuscate_def x_def)
  have dec: "decryptFromStorage (b64encode (map unat x)) = xorKey 0 x"
    using b64encode_nonempty [OF nx] atob_btoa(2) [OF lx]
    by (simp add: decryptFromStorage_def simpleDeobfuscate_def)
  have inv: "xorKey 0 x = s" by (simp add: x_def xorKey_involution)
  show ?thesis
    by (simp add: roundTrip_def enc dec inv)
qed

lemma encrypt_throws:
  assumes n: "\<not> list_all (\<lambda>c. c \<le> 0xFF) s"
  shows "encryptForStorage s = Inl InvalidCharacterError"
proof -
  from n have "s \<noteq> []" by auto
  with n show ?thesis
    by (simp add: encryptForStorage_def simpleObfuscate_def btoa_def xorKey_latin1)
qed

lemma decrypt_encrypt:
  assumes "encryptForStorage s = Inr c"
  shows "list_all (\<lambda>c. c \<le> 0xFF) s" and "decryptFromStorage c = s"
proof -
  show l: "list_all (\<lambda>c. c \<le> 0xFF) s"
    using assms encrypt_throws [of s] by auto
  from roundTrip_ok [OF l] assms show "decryptFromStorage c = s"
    by (simp add: roundTrip_def)
qed

text \<open>
  C10 (as the claim states it, refuted). For the one-character string U+20AC (the euro
  sign) \<open>encryptForStorage\<close> does not return: the XOR with the key leaves the code unit
  above \<open>0xFF\<close> and \<open>btoa\<close> throws \<open>InvalidCharacterError\<close>, which
  \<open>simpleObfuscate\<close> does not catch. So the round trip does not give the string back.
\<close>

theorem roundTrip_latin1_counterexample:
  "encryptForStorage [0x20AC] = Inl InvalidCharacterError
   \<and> roundTrip [0x20AC] \<noteq> Inr [0x20AC]"
  by (simp add: roundTrip_def encryptForStorage_def simpleObfuscate_def btoa_def
      ENCRYPTION_KEY_def js_def)

text \<open>
  C10 (amended). For every string \<open>s\<close> whose code units are all at most \<open>0xFF\<close>
  (the empty string included), \<open>decryptFromStorage(encryptForStorage(s)) = s\<close>. For
  every string with a code unit above \<open>0xFF\<close>, \<open>encryptForStorage(s)\<close> throws
  \<open>InvalidCharacterError\<close>.
\<close>

theorem roundTrip_latin1:
  "(list_all (\<lambda>c. c \<le> 0xFF) s \<longrightarrow> roundTrip s = Inr s)
   \<and> (\<not> list_all (\<lambda>c. c \<le> 0xFF) s \<longrightarrow> roundTrip s = Inl InvalidCharacterError)"
  by (simp add: roundTrip_ok) (simp add: roundTrip_def encrypt_throws)

theorem roundTrip_latin1_witness:
  "encryptForStorage (js ''secret'') = Inr (js ''HwACFkgc'')
   \<and> decryptFromStorage (js ''HwACFkgc'') = js ''secret''
   \<and> roundTrip (js ''secret'') = Inr (js ''secret'')
   \<and> roundTrip [0x63, 0x61, 0x66, 0xE9] = Inr [0x63, 0x61, 0x66, 0xE9]
   \<and> roundTrip [] = Inr []
   \<and> roundTrip [0x63, 0x61, 0x66, 0x20AC] = Inl InvalidCharacterError"
proof -
  have e: "encryptForStorage (js ''secret'') = Inr (js ''HwACFkgc'')"
    by (simp add: encryptForStorage_def simpleObfuscate_def btoa_def ENCRYPTION_KEY_def js_def
        b64char_def b64alphabet_def)
  have 1: "roundTrip (js ''secret'') = Inr (js ''secret'')"
    using roundTrip_latin1 [of "js ''secret''"] by (simp add: js_def)
  then have d: "decryptFromStorage (js ''HwACFkgc'') = js ''secret''"
    by (simp add: roundTrip_def e)
  have 2: "roundTrip [0x63, 0x61, 0x66, 0xE9] = Inr [0x63, 0x61, 0x66, 0xE9]"
    using roundTrip_latin1 [of "[0x63, 0x61, 0x66, 0xE9]"] by simp
  have 3: "roundTrip [] = Inr []"
    using roundTrip_latin1 [of "[]"] by simp
  have 4: "roundTrip [0x63, 0x61, 0x66, 0x20AC] = Inl InvalidCharacterError"
    using roundTrip_latin1 [of "[0x63, 0x61, 0x66, 0x20AC]"] by simp
  from e d 1 2 3 4 show ?thesis by (intro conjI)
qed

section \<open>Saving the configuration\<close>

lemma hexdigit_hex: "n < 16 \<Longrightarrow> isHexChar (hexdigit n)"
proof -
  assume "n < 16"
  then have "n \<in> {0, 1, 2, 3, 4, 5, 6, 7, 8, 9, 10, 11, 12, 13, 14, 15}" by (simp; arith)
  then show ?thesis
    by (auto simp: hexdigit_def js_def isHexChar_def)
qed

lemma hex2_hex: "list_all isHexChar (hex2 b)"
proof -
  have "unat b < 256" using unsigned_less [of b] by simp
  then show ?thesis by (simp add: hex2_def hexdigit_hex)
qed

lemma concat_hex2_hex: "list_all isHexChar (concat (map hex2 bs))"
  by (induction bs) (simp_all add: hex2_hex)

lemma hashPassword_hex: "isAlreadyHashed (hashPassword p)"
  by (simp add: isAlreadyHashed_def hashPassword_length) (simp add: hashPassword_def concat_hex2_hex)

lemma isHexChar_plain:
  assumes "isHexChar c"
  shows "c \<le> 0xFF" and "0x20 \<le> c" and "c < 0xD800"
    and "c \<notin> {0x08, 0x09, 0x0A, 0x0C, 0x0D, 0x22, 0x5C}"
  using assms by (auto simp: isHexChar_def word_le_nat_alt word_less_nat_alt)

lemma quoteBody_hex: "list_all isHexChar s \<Longrightarrow> quoteBody s = s"
proof (induction s)
  case Nil
  then show ?case by simp
next
  case (Cons c s)
  then have h: "isHexChar c" by simp
  from isHexChar_plain [OF h] Cons show ?case
    by (auto simp: word_le_nat_alt word_less_nat_alt)
qed

lemma hex_latin1: "list_all isHexChar s \<Longrightarrow> list_all (\<lambda>c. c \<le> 0xFF) s"
  by (induction s) (simp_all add: isHexChar_plain(1))

lemma validated_plain:
  assumes "adminPassword' config = Some P" "P \<noteq> []" "P \<noteq> adminPassword current"
    "\<not> isAlreadyHashed P"
  shows "validated validUrl current config =
           configSchema_parse validUrl ((merge current config)\<lparr>adminPassword := hashPassword P\<rparr>)"
  using assms by (simp add: validated_def merge_def Let_def)

lemma validated_hashed:
  assumes "adminPassword' config = Some P" "isAlreadyHashed P"
  shows "validated validUrl current config = configSchema_parse validUrl (merge current config)"
    and "adminPassword (merge current config) = P"
  using assms by (simp_all add: validated_def merge_def Let_def)

lemma configSchema_parse_Inr: "configSchema_parse validUrl c = Inr v \<Longrightarrow> v = c"
  by (simp add: configSchema_parse_def split: if_splits)

lemma saveConfig_Inr:
  assumes "saveConfig validUrl current config ls = Inr ls'"
  shows "\<exists>v blob. validated validUrl current config = Inr v
           \<and> encryptForStorage (stringifyConfig v) = Inr blob
           \<and> ls' = ls\<lparr>leadProcessorConfigEnc := Some blob, leadProcessorConfig := None\<rparr>"
  using assms by (auto simp: saveConfig_def split: sum.splits)

lemma saveConfig_ok:
  assumes "validated validUrl current config = Inr v"
    and "list_all (\<lambda>c. c \<le> 0xFF) (stringifyConfig v)"
  shows "case saveConfig validUrl current config ls of
           Inl e \<Rightarrow> False
         | Inr ls' \<Rightarrow> leadProcessorConfig ls' = None
             \<and> (case leadProcessorConfigEnc ls' of
                  None \<Rightarrow> False
                | Some blob \<Rightarrow> decryptFromStorage blob = stringifyConfig v)"
proof -
  from roundTrip_ok [OF assms(2)]
  obtain blob where b: "encryptForStorage (stringifyConfig v) = Inr blob"
    and d: "decryptFromStorage blob = stringifyConfig v"
    by (auto simp: roundTrip_def split: sum.splits)
  show ?thesis by (simp add: saveConfig_def assms(1) b d)
qed

text \<open>
  C8 (as the claim states it, refuted). A new password that is itself 64 hexadecimal
  characters (here \<open>Abcdef01\<close> eight times, which the settings page accepts as strong)
  is taken for a digest: \<open>saveConfig\<close> does not hash it, and the blob written to
  \<open>localStorage\<close> decodes to the JSON that carries the plaintext.
\<close>

theorem saveConfig_plaintext_counterexample:
  "js ''Abcdef01Abcdef01Abcdef01Abcdef01Abcdef01Abcdef01Abcdef01Abcdef01'' \<noteq> adminPassword DEFAULT_CONFIG
   \<and> validated (\<lambda>u. take 8 u = js ''https://'') DEFAULT_CONFIG
       \<lparr>submitWebhookUrl' = None, readWebhookUrl' = None,
        adminPassword' = Some (js ''Abcdef01Abcdef01Abcdef01Abcdef01Abcdef01Abcdef01Abcdef01Abcdef01'')\<rparr>
     = Inr (DEFAULT_CONFIG\<lparr>adminPassword := js ''Abcdef01Abcdef01Abcdef01Abcdef01Abcdef01Abcdef01Abcdef01Abcdef01''\<rparr>)
   \<and> (case saveConfig (\<lambda>u. take 8 u = js ''https://'') DEFAULT_CONFIG
         \<lparr>submitWebhookUrl' = None, readWebhookUrl' = None,
          adminPassword' = Some (js ''Abcdef01Abcdef01Abcdef01Abcdef01Abcdef01Abcdef01Abcdef01Abcdef01'')\<rparr>
         \<lparr>leadProcessorConfig = None, leadProcessorConfigEnc = None\<rparr> of
        Inl e \<Rightarrow> False
      | Inr ls' \<Rightarrow> leadProcessorConfig ls' = None
          \<and> (case leadProcessorConfigEnc ls' of
               None \<Rightarrow> False
             | Some blob \<Rightarrow> decryptFromStorage blob
                 = stringifyConfig (DEFAULT_CONFIG\<lparr>adminPassword := js ''Abcdef01Abcdef01Abcdef01Abcdef01Abcdef01Abcdef01Abcdef01Abcdef01''\<rparr>)))"
proof -
  let ?V = "\<lambda>u. take 8 u = js ''https://''"
  let ?cfg = "\<lparr>submitWebhookUrl' = None, readWebhookUrl' = None,
        adminPassword' = Some (js ''Abcdef01Abcdef01Abcdef01Abcdef01Abcdef01Abcdef01Abcdef01Abcdef01'')\<rparr>"
  have ne: "js ''Abcdef01Abcdef01Abcdef01Abcdef01Abcdef01Abcdef01Abcdef01Abcdef01'' \<noteq> adminPassword DEFAULT_CONFIG"
    by (simp add: DEFAULT_CONFIG_def js_def)
  have h: "isAlreadyHashed (js ''Abcdef01Abcdef01Abcdef01Abcdef01Abcdef01Abcdef01Abcdef01Abcdef01'')"
    by (simp add: isAlreadyHashed_def isHexChar_def js_def)
  have v: "validated ?V DEFAULT_CONFIG ?cfg = Inr (DEFAULT_CONFIG\<lparr>adminPassword := js ''Abcdef01Abcdef01Abcdef01Abcdef01Abcdef01Abcdef01Abcdef01Abcdef01''\<rparr>)"
    using validated_hashed(1) [where config = ?cfg and validUrl = ?V and current = DEFAULT_CONFIG,
        OF _ h]
    by (simp add: configSchema_parse_def merge_def DEFAULT_CONFIG_def js_def)
  have l: "list_all (\<lambda>c. c \<le> 0xFF) (stringifyConfig (DEFAULT_CONFIG\<lparr>adminPassword := js ''Abcdef01Abcdef01Abcdef01Abcdef01Abcdef01Abcdef01Abcdef01Abcdef01''\<rparr>))"
    by (simp add: stringifyConfig_def quote_def DEFAULT_CONFIG_def js_def)
  from ne v saveConfig_ok [OF v l] show ?thesis by (intro conjI)
qed

text \<open>
  C8 (amended). For every non-empty new \<open>adminPassword\<close> \<open>P\<close> that differs from the
  current one and is not itself 64 hexadecimal characters: the object that \<open>saveConfig\<close>
  validates is the merged configuration with \<open>adminPassword\<close> replaced by the SHA-256 hex
  digest of \<open>P\<close>, which is not \<open>P\<close>; whenever \<open>saveConfig\<close> returns, the legacy
  entry is removed and the blob it stored decodes to the JSON of a configuration whose
  \<open>adminPassword\<close> is that digest. A password that is exactly 64 hexadecimal characters
  is taken for a digest and persisted unchanged.
\<close>

theorem saveConfig_hashes_password:
  "(adminPassword' config = Some P \<and> P \<noteq> [] \<and> P \<noteq> adminPassword current
     \<and> \<not> isAlreadyHashed P \<longrightarrow>
   hashPassword P \<noteq> P
   \<and> validated validUrl current config =
       configSchema_parse validUrl ((merge current config)\<lparr>adminPassword := hashPassword P\<rparr>)
   \<and> (\<forall>v. validated validUrl current config = Inr v \<longrightarrow> adminPassword v = hashPassword P)
   \<and> (\<forall>ls'. saveConfig validUrl current config ls = Inr ls' \<longrightarrow>
        leadProcessorConfig ls' = None
        \<and> (\<exists>v blob. adminPassword v = hashPassword P
              \<and> leadProcessorConfigEnc ls' = Some blob
              \<and> decryptFromStorage blob = stringifyConfig v)))
   \<and> (adminPassword' config = Some P \<and> isAlreadyHashed P \<longrightarrow>
        (\<forall>v. validated validUrl current config = Inr v \<longrightarrow> adminPassword v = P)
        \<and> (\<forall>ls'. saveConfig validUrl current config ls = Inr ls' \<longrightarrow>
             leadProcessorConfig ls' = None
             \<and> (\<exists>v blob. adminPassword v = P
                   \<and> leadProcessorConfigEnc ls' = Some blob
                   \<and> decryptFromStorage blob = stringifyConfig v)))"
proof (rule conjI; rule impI)
  assume a: "adminPassword' config = Some P \<and> P \<noteq> [] \<and> P \<noteq> adminPassword current
     \<and> \<not> isAlreadyHashed P"
  have ne: "hashPassword P \<noteq> P"
    using a hashPassword_hex [of P] by auto
  have val: "validated validUrl current config =
       configSchema_parse validUrl ((merge current config)\<lparr>adminPassword := hashPassword P\<rparr>)"
    using a by (simp add: validated_plain)
  have pw: "adminPassword v = hashPassword P" if "validated validUrl current config = Inr v" for v
  proof -
    from that have "configSchema_parse validUrl
        ((merge current config)\<lparr>adminPassword := hashPassword P\<rparr>) = Inr v"
      by (simp add: val)
    from configSchema_parse_Inr [OF this] show ?thesis by simp
  qed
  have sv: "leadProcessorConfig ls' = None
        \<and> (\<exists>v blob. adminPassword v = hashPassword P
              \<and> leadProcessorConfigEnc ls' = Some blob
              \<and> decryptFromStorage blob = stringifyConfig v)"
    if "saveConfig validUrl current config ls = Inr ls'" for ls'
  proof -
    from saveConfig_Inr [OF that] obtain v blob where
      v: "validated validUrl current config = Inr v"
      and b: "encryptForStorage (stringifyConfig v) = Inr blob"
      and l: "ls' = ls\<lparr>leadProcessorConfigEnc := Some blob, leadProcessorConfig := None\<rparr>"
      by blast
    from decrypt_encrypt(2) [OF b] pw [OF v] l show ?thesis by auto
  qed
  from ne val pw sv show "hashPassword P \<noteq> P
   \<and> validated validUrl current config =
       configSchema_parse validUrl ((merge current config)\<lparr>adminPassword := hashPassword P\<rparr>)
   \<and> (\<forall>v. validated validUrl current config = Inr v \<longrightarrow> adminPassword v = hashPassword P)
   \<and> (\<forall>ls'. saveConfig validUrl current config ls = Inr ls' \<longrightarrow>
        leadProcessorConfig ls' = None
        \<and> (\<exists>v blob. adminPassword v = hashPassword P
              \<and> leadProcessorConfigEnc ls' = Some blob
              \<and> decryptFromStorage blob = stringifyConfig v))"
    by blast
next
  assume a: "adminPassword' config = Some P \<and> isAlreadyHashed P"
  have pw: "adminPassword v = P" if "validated validUrl current config = Inr v" for v
  proof -
    from a have val:
      "validated validUrl current config = configSchema_parse validUrl (merge current config)"
      by (simp add: validated_hashed(1))
    from a have mp: "adminPassword (merge current config) = P"
      by (simp add: validated_hashed(2))
    from that have "configSchema_parse validUrl (merge current config) = Inr v"
      by (simp add: val)
    from configSchema_parse_Inr [OF this] mp show ?thesis by simp
  qed
  have sv: "leadProcessorConfig ls' = None
        \<and> (\<exists>v blob. adminPassword v = P
              \<and> leadProcessorConfigEnc ls' = Some blob
              \<and> decryptFromStorage blob = stringifyConfig v)"
    if "saveConfig validUrl current config ls = Inr ls'" for ls'
  proof -
    from saveConfig_Inr [OF that] obtain v blob where
      v: "validated validUrl current config = Inr v"
      and b: "encryptForStorage (stringifyConfig v) = Inr blob"
      and l: "ls' = ls\<lparr>leadProcessorConfigEnc := Some blob, leadProcessorConfig := None\<rparr>"
      by blast
    from decrypt_encrypt(2) [OF b] pw [OF v] l show ?thesis by auto
  qed
  from pw sv show "(\<forall>v. validated validUrl current config = Inr v \<longrightarrow> adminPassword v = P)
        \<and> (\<forall>ls'. saveConfig validUrl current config ls = Inr ls' \<longrightarrow>
             leadProcessorConfig ls' = None
             \<and> (\<exists>v blob. adminPassword v = P
                   \<and> leadProcessorConfigEnc ls' = Some blob
                   \<and> decryptFromStorage blob = stringifyConfig v))"
    by blast
qed

theorem saveConfig_hashes_password_witness:
  "hashPassword (js ''correct horse'') \<noteq> js ''correct horse''
   \<and> validated (\<lambda>u. take 8 u = js ''https://'') DEFAULT_CONFIG
       \<lparr>submitWebhookUrl' = None, readWebhookUrl' = None,
        adminPassword' = Some (js ''correct horse'')\<rparr>
     = Inr (DEFAULT_CONFIG\<lparr>adminPassword := hashPassword (js ''correct horse'')\<rparr>)
   \<and> (case saveConfig (\<lambda>u. take 8 u = js ''https://'') DEFAULT_CONFIG
         \<lparr>submitWebhookUrl' = None, readWebhookUrl' = None,
          adminPassword' = Some (js ''correct horse'')\<rparr>
         \<lparr>leadProcessorConfig = None, leadProcessorConfigEnc = None\<rparr> of
        Inl e \<Rightarrow> False
      | Inr ls' \<Rightarrow> leadProcessorConfig ls' = None
          \<and> (case leadProcessorConfigEnc ls' of
               None \<Rightarrow> False
             | Some blob \<Rightarrow> decryptFromStorage blob
                 = stringifyConfig
                     (DEFAULT_CONFIG\<lparr>adminPassword := hashPassword (js ''correct horse'')\<rparr>)))
   \<and> (case validated (\<lambda>u. take 8 u = js ''https://'') DEFAULT_CONFIG
         \<lparr>submitWebhookUrl' = None, readWebhookUrl' = None,
          adminPassword' = Some (js ''Abcdef01Abcdef01Abcdef01Abcdef01Abcdef01Abcdef01Abcdef01Abcdef01'')\<rparr> of
        Inl e \<Rightarrow> False
      | Inr v \<Rightarrow> adminPassword v = js ''Abcdef01Abcdef01Abcdef01Abcdef01Abcdef01Abcdef01Abcdef01Abcdef01'')"
proof -
  let ?V = "\<lambda>u. take 8 u = js ''https://''"
  let ?P = "js ''correct horse''"
  let ?cfg = "\<lparr>submitWebhookUrl' = None, readWebhookUrl' = None, adminPassword' = Some ?P\<rparr>"
  let ?v = "DEFAULT_CONFIG\<lparr>adminPassword := hashPassword ?P\<rparr>"
  let ?Q = "js ''Abcdef01Abcdef01Abcdef01Abcdef01Abcdef01Abcdef01Abcdef01Abcdef01''"
  let ?cfgQ = "\<lparr>submitWebhookUrl' = None, readWebhookUrl' = None, adminPassword' = Some ?Q\<rparr>"
  have h: "adminPassword' ?cfg = Some ?P \<and> ?P \<noteq> [] \<and> ?P \<noteq> adminPassword DEFAULT_CONFIG
     \<and> \<not> isAlreadyHashed ?P"
    by (simp add: DEFAULT_CONFIG_def isAlreadyHashed_def js_def)
  have m: "merge DEFAULT_CONFIG ?cfg = DEFAULT_CONFIG\<lparr>adminPassword := ?P\<rparr>"
    by (simp add: merge_def DEFAULT_CONFIG_def)
  have p: "configSchema_parse ?V ?v = Inr ?v"
    by (simp add: configSchema_parse_def hashPassword_length) (simp add: DEFAULT_CONFIG_def js_def)
  from saveConfig_hashes_password [THEN conjunct1, of ?cfg ?P DEFAULT_CONFIG ?V] h
  have ne: "hashPassword ?P \<noteq> ?P"
    and "validated ?V DEFAULT_CONFIG ?cfg =
       configSchema_parse ?V ((merge DEFAULT_CONFIG ?cfg)\<lparr>adminPassword := hashPassword ?P\<rparr>)"
    by blast+
  then have v: "validated ?V DEFAULT_CONFIG ?cfg = Inr ?v" by (simp add: m p)
  have hx: "list_all isHexChar (hashPassword ?P)"
    using hashPassword_hex [of ?P] by (simp add: isAlreadyHashed_def)
  have l: "list_all (\<lambda>c. c \<le> 0xFF) (stringifyConfig ?v)"
    using hex_latin1 [OF hx]
    by (simp add: stringifyConfig_def quote_def quoteBody_hex [OF hx])
      (simp add: DEFAULT_CONFIG_def js_def)
  have hq: "adminPassword' ?cfgQ = Some ?Q \<and> isAlreadyHashed ?Q"
    by (simp add: isAlreadyHashed_def isHexChar_def js_def)
  have vq: "validated ?V DEFAULT_CONFIG ?cfgQ = Inr (DEFAULT_CONFIG\<lparr>adminPassword := ?Q\<rparr>)"
    using validated_hashed(1) [where config = ?cfgQ and validUrl = ?V and current = DEFAULT_CONFIG,
        OF _ conjunct2 [OF hq]]
    by (simp add: configSchema_parse_def merge_def DEFAULT_CONFIG_def js_def)
  from saveConfig_hashes_password [THEN conjunct2, of ?cfgQ ?Q ?V DEFAULT_CONFIG] hq
  have "\<forall>v. validated ?V DEFAULT_CONFIG ?cfgQ = Inr v \<longrightarrow> adminPassword v = ?Q"
    by blast
  with vq have q: "case validated ?V DEFAULT_CONFIG ?cfgQ of
        Inl e \<Rightarrow> False | Inr v \<Rightarrow> adminPassword v = ?Q"
    by simp
  from ne v saveConfig_ok [OF v l] q show ?thesis by (intro conjI)
qed

end
